theory Spec2Isabelle
  imports Main "HOL-Library.Word"
begin

unbundle bit_operations_syntax

section \<open>Outcomes of a C++ call\<close>

text \<open>
  The C++ exceptions the sources throw, with the message they carry. A call either
  returns a value, leaves by a thrown exception, or runs into behaviour the language
  leaves undefined (an out-of-range read of a \<open>std::vector\<close> through \<open>operator[]\<close>, a
  second lock of a \<open>std::mutex\<close> by its owner).
\<close>

datatype exn =
    RuntimeError string
  | OutOfRange string
  | InvalidArgument string
  | BadOptionalAccess

datatype 'a outcome =
    Returned 'a
  | Thrown exn
  | Undefined string

section \<open>Vulkan types and constants used by the sources\<close>

type_synonym handle = nat
type_synonym uint32_t = "32 word"
type_synonym int32_t = "32 word"

definition VK_NULL_HANDLE :: handle where
  "VK_NULL_HANDLE = 0"

text \<open>Enumerators of \<open>vulkan_core.h\<close>, with their numeric values.\<close>

definition VK_FORMAT_B8G8R8A8_SRGB :: nat where
  "VK_FORMAT_B8G8R8A8_SRGB = 50"

definition VK_FORMAT_R8G8B8A8_SRGB :: nat where
  "VK_FORMAT_R8G8B8A8_SRGB = 43"

definition VK_COLOR_SPACE_SRGB_NONLINEAR_KHR :: nat where
  "VK_COLOR_SPACE_SRGB_NONLINEAR_KHR = 0"

definition VK_PRESENT_MODE_MAILBOX_KHR :: nat where
  "VK_PRESENT_MODE_MAILBOX_KHR = 1"

definition VK_PRESENT_MODE_FIFO_KHR :: nat where
  "VK_PRESENT_MODE_FIFO_KHR = 2"

record VkSurfaceFormatKHR =
  format :: nat
  colorSpace :: nat

record VkExtent2D =
  width :: uint32_t
  height :: uint32_t

record VkSurfaceCapabilitiesKHR =
  minImageCount :: uint32_t
  maxImageCount :: uint32_t
  currentExtent :: VkExtent2D
  minImageExtent :: VkExtent2D
  maxImageExtent :: VkExtent2D
  currentTransform :: nat

record SwapChainSupportDetails =
  capabilities :: VkSurfaceCapabilitiesKHR
  formats :: "VkSurfaceFormatKHR list"
  presentModes :: "nat list"

section \<open>SwapChain: selection of format, present mode and extent (devices.cpp)\<close>

text \<open>The \<open>for\<close> loop of \<open>chooseSwapSurfaceFormat\<close>: the first entry with the preferred pair.\<close>

fun findPreferredFormat :: "VkSurfaceFormatKHR list \<Rightarrow> VkSurfaceFormatKHR option" where
  "findPreferredFormat [] = None"
| "findPreferredFormat (availableFormat # rest) =
     (if format availableFormat = VK_FORMAT_B8G8R8A8_SRGB
         \<and> colorSpace availableFormat = VK_COLOR_SPACE_SRGB_NONLINEAR_KHR
      then Some availableFormat
      else findPreferredFormat rest)"

text \<open>
  After the loop the code returns \<open>availableFormats[0]\<close>; on an empty vector that read is
  out of range.
\<close>

definition chooseSwapSurfaceFormat :: "VkSurfaceFormatKHR list \<Rightarrow> VkSurfaceFormatKHR outcome" where
  "chooseSwapSurfaceFormat availableFormats =
     (case findPreferredFormat availableFormats of
        Some availableFormat \<Rightarrow> Returned availableFormat
      | None \<Rightarrow>
          (case availableFormats of
             [] \<Rightarrow> Undefined ''availableFormats[0] on an empty vector''
           | first # _ \<Rightarrow> Returned first))"

fun chooseSwapPresentMode :: "nat list \<Rightarrow> nat" where
  "chooseSwapPresentMode [] = VK_PRESENT_MODE_FIFO_KHR"
| "chooseSwapPresentMode (availablePresentMode # rest) =
     (if availablePresentMode = VK_PRESENT_MODE_MAILBOX_KHR
      then availablePresentMode
      else chooseSwapPresentMode rest)"

text \<open>\<open>std::numeric_limits<uint32_t>::max()\<close>.\<close>

definition UINT32_MAX :: uint32_t where
  "UINT32_MAX = 4294967295"

text \<open>\<open>std::clamp(v, lo, hi)\<close> as the standard library computes it.\<close>

definition std_clamp :: "uint32_t \<Rightarrow> uint32_t \<Rightarrow> uint32_t \<Rightarrow> uint32_t" where
  "std_clamp v lo hi = (if v < lo then lo else if hi < v then hi else v)"

text \<open>
  \<open>chooseSwapExtent\<close>. The pair \<open>(fbWidth, fbHeight)\<close> is what
  \<open>glfwGetFramebufferSize\<close> stores into the two \<open>int\<close> variables; \<open>static_cast<uint32_t>\<close>
  reduces them modulo \<open>2 ^ 32\<close>.
\<close>

definition chooseSwapExtent :: "int \<times> int \<Rightarrow> VkSurfaceCapabilitiesKHR \<Rightarrow> VkExtent2D" where
  "chooseSwapExtent glfwFramebufferSize caps =
     (if width (currentExtent caps) \<noteq> UINT32_MAX then currentExtent caps
      else
        (let actualExtent = \<lparr> width = word_of_int (fst glfwFramebufferSize),
                               height = word_of_int (snd glfwFramebufferSize) \<rparr>;
             actualExtent = actualExtent \<lparr> width :=
               std_clamp (width actualExtent) (width (minImageExtent caps))
                                              (width (maxImageExtent caps)) \<rparr>;
             actualExtent = actualExtent \<lparr> height :=
               std_clamp (height actualExtent) (height (minImageExtent caps))
                                               (height (maxImageExtent caps)) \<rparr>
         in actualExtent))"

text \<open>
  The words of the specification for the extent clamp: a value brought into the interval
  \<open>[lo, hi]\<close>.
\<close>

definition clamp_into :: "uint32_t \<Rightarrow> uint32_t \<Rightarrow> uint32_t \<Rightarrow> uint32_t" where
  "clamp_into lo hi v = max lo (min v hi)"

definition preferredFormat :: "VkSurfaceFormatKHR \<Rightarrow> bool" where
  "preferredFormat f \<longleftrightarrow>
     format f = VK_FORMAT_B8G8R8A8_SRGB \<and> colorSpace f = VK_COLOR_SPACE_SRGB_NONLINEAR_KHR"

section \<open>Decimal rendering of \<open>std::to_string\<close>\<close>

fun to_string_nat :: "nat \<Rightarrow> string" where
  "to_string_nat n =
     (if n < 10 then [''0123456789'' ! n]
      else to_string_nat (n div 10) @ [''0123456789'' ! (n mod 10)])"

declare to_string_nat.simps [simp del]

definition to_string :: "int \<Rightarrow> string" where
  "to_string i = (if i < 0 then CHR ''-'' # to_string_nat (nat (- i)) else to_string_nat (nat i))"

section \<open>The graphics driver, the allocator and the window as the sources see them\<close>

type_synonym VkDeviceSize = "64 word"
type_synonym float = "32 word"

text \<open>\<open>VkResult\<close>: \<open>VK_SUCCESS\<close> is 0, every error code is another value.\<close>

definition VK_SUCCESS :: int where
  "VK_SUCCESS = 0"

definition VK_SHARING_MODE_EXCLUSIVE :: nat where
  "VK_SHARING_MODE_EXCLUSIVE = 0"

definition VK_SHARING_MODE_CONCURRENT :: nat where
  "VK_SHARING_MODE_CONCURRENT = 1"

definition VK_IMAGE_USAGE_COLOR_ATTACHMENT_BIT :: uint32_t where
  "VK_IMAGE_USAGE_COLOR_ATTACHMENT_BIT = 16"

definition VK_COMPOSITE_ALPHA_OPAQUE_BIT_KHR :: nat where
  "VK_COMPOSITE_ALPHA_OPAQUE_BIT_KHR = 1"

record VkSwapchainCreateInfoKHR =
  sci_minImageCount :: uint32_t
  sci_imageFormat :: nat
  sci_imageColorSpace :: nat
  sci_imageExtent :: VkExtent2D
  sci_imageArrayLayers :: uint32_t
  sci_imageUsage :: uint32_t
  sci_imageSharingMode :: nat
  sci_queueFamilyIndices :: "uint32_t list"
  sci_preTransform :: nat
  sci_compositeAlpha :: nat
  sci_presentMode :: nat
  sci_clipped :: bool
  sci_oldSwapchain :: handle

text \<open>The structs of graphics.hpp that are copied into mapped memory.\<close>

record Vertex =
  pos :: "float \<times> float"
  color :: "float \<times> float \<times> float"
  texCoord :: "float \<times> float"

record UniformBufferObject =
  model :: "float list"
  view :: "float list"
  proj :: "float list"

datatype payload =
    VertexData "Vertex list"
  | IndexData "16 word list"
  | UboData UniformBufferObject
  | PixelData "8 word list"

record VkImageCreateInfo =
  ici_width :: uint32_t
  ici_height :: uint32_t
  ici_depth :: uint32_t
  ici_mipLevels :: uint32_t
  ici_arrayLayers :: uint32_t
  ici_format :: nat
  ici_tiling :: nat
  ici_initialLayout :: nat
  ici_usage :: uint32_t
  ici_samples :: nat
  ici_sharingMode :: nat

record VkImageMemoryBarrier =
  imb_oldLayout :: nat
  imb_newLayout :: nat
  imb_image :: handle
  imb_aspectMask :: uint32_t
  imb_srcAccessMask :: uint32_t
  imb_dstAccessMask :: uint32_t

record VkDescriptorSetLayoutBinding =
  lb_binding :: uint32_t
  lb_descriptorType :: nat
  lb_descriptorCount :: uint32_t
  lb_stageFlags :: uint32_t
  lb_pImmutableSamplers :: handle

record VkDescriptorPoolSize =
  ps_type :: nat
  ps_descriptorCount :: uint32_t

record VkWriteDescriptorSet =
  wd_dstSet :: handle
  wd_dstBinding :: uint32_t
  wd_dstArrayElement :: uint32_t
  wd_descriptorType :: nat
  wd_descriptorCount :: uint32_t
  wd_buffer :: "(handle \<times> VkDeviceSize \<times> VkDeviceSize) option"
  wd_image :: "(nat \<times> handle \<times> handle) option"

text \<open>
  The calls into Vulkan, the memory allocator and \<open>memcpy\<close> that create, destroy, write or
  submit something, with the arguments the sources pass. Read-only queries are not logged.
  \<open>VkQueueSubmitFrame\<close> is the \<open>vkQueueSubmit\<close> of \<open>drawFrame\<close>, with its queue, wait
  semaphore, command buffer, signal semaphore and fence; \<open>VkQueueSubmit\<close> is that of the
  single-use command buffers, with its command buffer and fence.
\<close>

datatype api_call =
    VkCreateSwapchainKHR VkSwapchainCreateInfoKHR
  | VkGetSwapchainImagesKHR handle
  | VkCreateImageView handle nat
  | VkDestroyImageView handle
  | VkDestroySwapchainKHR handle
  | VmaCreateBuffer VkDeviceSize uint32_t nat
  | VmaMapMemory handle
  | Memcpy nat payload
  | VmaUnmapMemory handle
  | VmaDestroyBuffer handle handle
  | VmaCreateImage VkImageCreateInfo nat
  | VkAllocateCommandBuffers handle nat
  | VkBeginCommandBuffer handle uint32_t
  | VkCmdPipelineBarrier handle uint32_t uint32_t VkImageMemoryBarrier
  | VkCmdCopyBufferToImage handle handle handle nat uint32_t uint32_t
  | VkCmdCopyBuffer handle handle handle VkDeviceSize
  | VkEndCommandBuffer handle
  | VkQueueSubmit handle handle
  | VkQueueWaitIdle
  | VkFreeCommandBuffers handle handle
  | VkCreateCommandPool uint32_t uint32_t
  | VkCreateSemaphore
  | VkCreateFence uint32_t
  | VkCreateDescriptorSetLayout "VkDescriptorSetLayoutBinding list"
  | VkCreateDescriptorPool uint32_t "VkDescriptorPoolSize list"
  | VkAllocateDescriptorSets handle "handle list"
  | VkUpdateDescriptorSets "VkWriteDescriptorSet list"
  | VkResetFences handle
  | VkQueueSubmitFrame handle handle handle handle handle
  | VkAcquireNextImageKHR handle handle
  | VkQueuePresentKHR handle handle handle uint32_t
  | VkResetCommandBuffer handle
  | VkCmdBeginRenderPass handle handle handle VkExtent2D
  | VkCmdBindPipeline handle handle
  | VkCmdSetViewport handle VkExtent2D
  | VkCmdSetScissor handle VkExtent2D
  | VkCmdBindVertexBuffers handle handle
  | VkCmdBindIndexBuffer handle handle
  | VkCmdBindDescriptorSets handle handle handle
  | VkCmdDrawIndexed handle uint32_t
  | VkCmdEndRenderPass handle
  | VkCreateFramebuffer handle handle uint32_t uint32_t
  | VkDestroyFramebuffer handle
  | VkDeviceWaitIdle

text \<open>
  The state outside the program. \<open>calls\<close> is the log of the calls made so far, in order.
  \<open>vkResult k\<close> is the result code the call at position \<open>k\<close> of the log reports.
  Every created object gets the next unused handle number, so a handle is never null and
  never handed out twice. \<open>hostMemory\<close> holds what was last copied to a mapped pointer.
  \<open>stbi_load path\<close> is what a call of \<open>stbi_load\<close> with four channels leaves behind: the
  values of the two \<open>int\<close> variables for width and height (an \<open>int32_t\<close> is the 32 bits
  of a C \<open>int\<close>, read with \<open>sint\<close>) and the returned pixel bytes, \<open>None\<close> for a null
  pointer.
\<close>

record driver =
  calls :: "api_call list"
  nextHandle :: nat
  vkResult :: "nat \<Rightarrow> int"
  surfaceSupport :: SwapChainSupportDetails
  glfwFramebufferSize :: "int \<times> int"
  queueFamilies :: "uint32_t option \<times> uint32_t option"
  imagesPerSwapchain :: nat
  hostMemory :: "nat \<rightharpoonup> payload"
  fenceSignaled :: "handle \<rightharpoonup> bool"
  semaphoreSignaled :: "handle \<rightharpoonup> bool"
  poolSetsLeft :: "handle \<rightharpoonup> nat"
  stbi_load :: "string \<Rightarrow> int32_t \<times> int32_t \<times> 8 word list option"

text \<open>A call that reports a result and creates an object: logged, answered, numbered.\<close>

definition vk :: "api_call \<Rightarrow> driver \<Rightarrow> int \<times> handle \<times> driver" where
  "vk c d = (vkResult d (length (calls d)), Suc (nextHandle d),
             d \<lparr> calls := calls d @ [c], nextHandle := Suc (nextHandle d) \<rparr>)"

text \<open>A call whose result the sources cannot see or do not read: logged only.\<close>

definition log_call :: "api_call \<Rightarrow> driver \<Rightarrow> driver" where
  "log_call c d = d \<lparr> calls := calls d @ [c] \<rparr>"

text \<open>A call whose result is read and that creates nothing: logged and answered.\<close>

definition vk_result :: "api_call \<Rightarrow> driver \<Rightarrow> int \<times> driver" where
  "vk_result c d = (vkResult d (length (calls d)), log_call c d)"

text \<open>\<open>std::vector::resize\<close> on a vector of handles: new elements are null.\<close>

definition resize :: "nat \<Rightarrow> handle list \<Rightarrow> handle list" where
  "resize n xs = take n xs @ replicate (n - length xs) VK_NULL_HANDLE"

section \<open>SwapChain: creation, cleanup and recreation (devices.cpp)\<close>

record SwapChain =
  swapChain :: handle
  swapChainImageFormat :: nat
  swapChainExtent :: VkExtent2D
  swapChainImages :: "handle list"
  swapChainImageViews :: "handle list"

text \<open>
  \<open>SwapChain::createImageView\<close> (the format is the only varying field of the create info).
\<close>

definition createImageView :: "handle \<Rightarrow> nat \<Rightarrow> driver \<Rightarrow> handle outcome \<times> driver" where
  "createImageView img fmt d =
     (case vk (VkCreateImageView img fmt) d of
        (res, imageView, d') \<Rightarrow>
          if res \<noteq> VK_SUCCESS
          then (Thrown (RuntimeError ''failed to create image views for swap chain!''), d')
          else (Returned imageView, d'))"

text \<open>The loop of \<open>createImageViews\<close>, over the indices still to do.\<close>

fun createImageViews_loop ::
  "nat list \<Rightarrow> SwapChain \<Rightarrow> driver \<Rightarrow> unit outcome \<times> SwapChain \<times> driver" where
  "createImageViews_loop [] sc d = (Returned (), sc, d)"
| "createImageViews_loop (i # rest) sc d =
     (case createImageView (swapChainImages sc ! i) (swapChainImageFormat sc) d of
        (Returned imageView, d') \<Rightarrow>
          createImageViews_loop rest
            (sc \<lparr> swapChainImageViews := (swapChainImageViews sc) [i := imageView] \<rparr>) d'
      | (Thrown e, d') \<Rightarrow> (Thrown e, sc, d')
      | (Undefined u, d') \<Rightarrow> (Undefined u, sc, d'))"

definition createImageViews :: "SwapChain \<Rightarrow> driver \<Rightarrow> unit outcome \<times> SwapChain \<times> driver" where
  "createImageViews sc d =
     createImageViews_loop [0 ..< length (swapChainImages sc)]
       (sc \<lparr> swapChainImageViews :=
               resize (length (swapChainImages sc)) (swapChainImageViews sc) \<rparr>) d"

text \<open>The loop of \<open>cleanupSwapChain\<close> and of \<open>cleanupImageViews\<close>.\<close>

fun destroyImageViews :: "handle list \<Rightarrow> driver \<Rightarrow> driver" where
  "destroyImageViews [] d = d"
| "destroyImageViews (imageView # rest) d =
     destroyImageViews rest (log_call (VkDestroyImageView imageView) d)"

definition cleanupSwapChain :: "SwapChain \<Rightarrow> driver \<Rightarrow> unit outcome \<times> SwapChain \<times> driver" where
  "cleanupSwapChain sc d =
     (Returned (), sc,
      log_call (VkDestroySwapchainKHR (swapChain sc)) (destroyImageViews (swapChainImageViews sc) d))"

definition createSwapChain :: "SwapChain \<Rightarrow> driver \<Rightarrow> unit outcome \<times> SwapChain \<times> driver" where
  "createSwapChain sc d =
     (let swapChainSupport = surfaceSupport d in
      case chooseSwapSurfaceFormat (formats swapChainSupport) of
        Undefined u \<Rightarrow> (Undefined u, sc, d)
      | Thrown e \<Rightarrow> (Thrown e, sc, d)
      | Returned surfaceFormat \<Rightarrow>
         (let presentMode = chooseSwapPresentMode (presentModes swapChainSupport);
              extent = chooseSwapExtent (glfwFramebufferSize d) (capabilities swapChainSupport);
              imageCount = minImageCount (capabilities swapChainSupport) + 1;
              imageCount =
                (if maxImageCount (capabilities swapChainSupport) > 0
                    \<and> imageCount > maxImageCount (capabilities swapChainSupport)
                 then maxImageCount (capabilities swapChainSupport) else imageCount)
          in case queueFamilies d of
               (None, _) \<Rightarrow> (Thrown BadOptionalAccess, sc, d)
             | (Some graphicsFamily, None) \<Rightarrow> (Thrown BadOptionalAccess, sc, d)
             | (Some graphicsFamily, Some presentFamily) \<Rightarrow>
                (let createInfo =
                       \<lparr> sci_minImageCount = imageCount,
                         sci_imageFormat = format surfaceFormat,
                         sci_imageColorSpace = colorSpace surfaceFormat,
                         sci_imageExtent = extent,
                         sci_imageArrayLayers = 1,
                         sci_imageUsage = VK_IMAGE_USAGE_COLOR_ATTACHMENT_BIT,
                         sci_imageSharingMode =
                           (if graphicsFamily \<noteq> presentFamily
                            then VK_SHARING_MODE_CONCURRENT else VK_SHARING_MODE_EXCLUSIVE),
                         sci_queueFamilyIndices =
                           (if graphicsFamily \<noteq> presentFamily
                            then [graphicsFamily, presentFamily] else []),
                         sci_preTransform = currentTransform (capabilities swapChainSupport),
                         sci_compositeAlpha = VK_COMPOSITE_ALPHA_OPAQUE_BIT_KHR,
                         sci_presentMode = presentMode,
                         sci_clipped = True,
                         sci_oldSwapchain = VK_NULL_HANDLE \<rparr>
                 in case vk (VkCreateSwapchainKHR createInfo) d of
                      (res, newSwapChain, d1) \<Rightarrow>
                        if res \<noteq> VK_SUCCESS
                        then (Thrown (RuntimeError ''failed to create swap chain!''), sc, d1)
                        else
                          (let d2 = log_call (VkGetSwapchainImagesKHR newSwapChain)
                                      (log_call (VkGetSwapchainImagesKHR newSwapChain) d1);
                               images = map (\<lambda>j. Suc (nextHandle d2 + j))
                                            [0 ..< imagesPerSwapchain d2];
                               d3 = d2 \<lparr> nextHandle := nextHandle d2 + imagesPerSwapchain d2 \<rparr>
                           in (Returned (),
                               sc \<lparr> swapChain := newSwapChain,
                                    swapChainImages := images,
                                    swapChainImageFormat := format surfaceFormat,
                                    swapChainExtent := extent \<rparr>,
                               d3)))))"

text \<open>\<open>SwapChain::recreateSwapChain\<close>: the two creation steps, nothing before them.\<close>

definition recreateSwapChain :: "SwapChain \<Rightarrow> driver \<Rightarrow> unit outcome \<times> SwapChain \<times> driver" where
  "recreateSwapChain sc d =
     (case createSwapChain sc d of
        (Returned _, sc1, d1) \<Rightarrow> createImageViews sc1 d1
      | (Thrown e, sc1, d1) \<Rightarrow> (Thrown e, sc1, d1)
      | (Undefined u, sc1, d1) \<Rightarrow> (Undefined u, sc1, d1))"

text \<open>A call that destroys an image view or a swap chain.\<close>

fun is_destroy :: "api_call \<Rightarrow> bool" where
  "is_destroy (VkDestroyImageView _) = True"
| "is_destroy (VkDestroySwapchainKHR _) = True"
| "is_destroy _ = False"

section \<open>GraphicsPipeline: framebuffer accessors (graphics.cpp)\<close>

text \<open>
  In both accessors the \<open>std::runtime_error\<close> objects are constructed and dropped: the
  statements have no \<open>throw\<close>. The read \<open>framebuffers[frameIndex]\<close> follows in every case.
\<close>

definition getFrameBuffers :: "handle list \<Rightarrow> handle list outcome" where
  "getFrameBuffers framebuffers =
     (let dropped = (if framebuffers = []
                     then Some (RuntimeError ''Frame buffers vector is not populated!'')
                     else None)
      in Returned framebuffers)"

definition getFrameBuffer :: "uint32_t \<Rightarrow> handle list \<Rightarrow> handle outcome" where
  "getFrameBuffer frameIndex framebuffers =
     (let dropped1 = (if framebuffers = []
                      then Some (RuntimeError ''Frame buffers vector is not populated!'')
                      else None);
          dropped2 = (if unat frameIndex > length framebuffers
                      then Some (RuntimeError ''Frame index is out of bounds!'')
                      else None)
      in if unat frameIndex < length framebuffers
         then Returned (framebuffers ! unat frameIndex)
         else Undefined ''framebuffers[frameIndex] out of range'')"

text \<open>
  The sibling accessor \<open>DescriptorManager::getDescriptorSet\<close>, which does throw on an index
  out of range and on a null entry.
\<close>

definition getDescriptorSet :: "uint32_t \<Rightarrow> handle list \<Rightarrow> handle outcome" where
  "getDescriptorSet frameIndex descriptorSets =
     (if unat frameIndex \<ge> length descriptorSets
      then Thrown (OutOfRange ''Frame index is out of bounds!'')
      else if descriptorSets ! unat frameIndex = VK_NULL_HANDLE
      then Thrown (RuntimeError (''Descriptor set for frame '' @ to_string (uint frameIndex)
                                 @ '' is not initialized!''))
      else Returned (descriptorSets ! unat frameIndex))"

section \<open>A driver and a swap chain to run the models on\<close>

definition example_capabilities :: VkSurfaceCapabilitiesKHR where
  "example_capabilities =
     \<lparr> minImageCount = 2, maxImageCount = 3,
       currentExtent = \<lparr> width = 800, height = 600 \<rparr>,
       minImageExtent = \<lparr> width = 1, height = 1 \<rparr>,
       maxImageExtent = \<lparr> width = 4096, height = 4096 \<rparr>,
       currentTransform = 1 \<rparr>"

text \<open>
  \<open>example_driver answer\<close>: nothing called yet, handles from 21 on, every call answered with
  the result code \<open>answer\<close> gives for its position, a one-format surface, two images per
  swap chain, and a 2 by 2 image behind every file name.
\<close>

definition example_driver :: "(nat \<Rightarrow> int) \<Rightarrow> driver" where
  "example_driver answer =
     \<lparr> calls = [], nextHandle = 20, vkResult = answer,
       surfaceSupport = \<lparr> capabilities = example_capabilities,
                          formats = [\<lparr> format = 50, colorSpace = 0 \<rparr>],
                          presentModes = [2] \<rparr>,
       glfwFramebufferSize = (800, 600),
       queueFamilies = (Some 0, Some 0),
       imagesPerSwapchain = 2,
       hostMemory = Map.empty,
       fenceSignaled = Map.empty,
       semaphoreSignaled = Map.empty,
       poolSetsLeft = Map.empty,
       stbi_load = (\<lambda>path. (2, 2, Some (replicate 16 255))) \<rparr>"

definition example_swapchain :: SwapChain where
  "example_swapchain =
     \<lparr> swapChain = 10, swapChainImageFormat = 50,
       swapChainExtent = \<lparr> width = 640, height = 480 \<rparr>,
       swapChainImages = [11, 12], swapChainImageViews = [13, 14] \<rparr>"

section \<open>AllocatorManager (memory.cpp)\<close>

definition VK_BUFFER_USAGE_TRANSFER_SRC_BIT :: uint32_t where
  "VK_BUFFER_USAGE_TRANSFER_SRC_BIT = 1"

definition VK_BUFFER_USAGE_TRANSFER_DST_BIT :: uint32_t where
  "VK_BUFFER_USAGE_TRANSFER_DST_BIT = 2"

definition VK_BUFFER_USAGE_UNIFORM_BUFFER_BIT :: uint32_t where
  "VK_BUFFER_USAGE_UNIFORM_BUFFER_BIT = 16"

definition VK_BUFFER_USAGE_INDEX_BUFFER_BIT :: uint32_t where
  "VK_BUFFER_USAGE_INDEX_BUFFER_BIT = 64"

definition VK_BUFFER_USAGE_VERTEX_BUFFER_BIT :: uint32_t where
  "VK_BUFFER_USAGE_VERTEX_BUFFER_BIT = 128"

definition VMA_MEMORY_USAGE_GPU_ONLY :: nat where
  "VMA_MEMORY_USAGE_GPU_ONLY = 1"

definition VMA_MEMORY_USAGE_CPU_ONLY :: nat where
  "VMA_MEMORY_USAGE_CPU_ONLY = 2"

definition VMA_MEMORY_USAGE_CPU_TO_GPU :: nat where
  "VMA_MEMORY_USAGE_CPU_TO_GPU = 3"

definition VK_COMMAND_BUFFER_USAGE_ONE_TIME_SUBMIT_BIT :: uint32_t where
  "VK_COMMAND_BUFFER_USAGE_ONE_TIME_SUBMIT_BIT = 1"

definition nullptr :: nat where
  "nullptr = 0"

definition MAX_FRAMES_IN_FLIGHT :: uint32_t where
  "MAX_FRAMES_IN_FLIGHT = 2"

text \<open>
  \<open>AllocatorManager::createBuffer\<close>. The pair \<open>out\<close> is the two reference parameters
  \<open>buffer\<close> and \<open>allocation\<close>; they are returned as they were when the call throws.
\<close>

definition createBuffer ::
  "VkDeviceSize \<Rightarrow> uint32_t \<Rightarrow> nat \<Rightarrow> handle \<times> handle \<Rightarrow> driver
     \<Rightarrow> unit outcome \<times> (handle \<times> handle) \<times> driver" where
  "createBuffer sz usage memoryUsage out d =
     (case vk (VmaCreateBuffer sz usage memoryUsage) d of
        (res, h, d') \<Rightarrow>
          if res \<noteq> VK_SUCCESS
          then (Thrown (RuntimeError ''Failed to create buffer!''), out, d')
          else (Returned (), (h, h), d'))"

definition mapMemory :: "handle \<Rightarrow> nat \<Rightarrow> driver \<Rightarrow> unit outcome \<times> nat \<times> driver" where
  "mapMemory allocation data d =
     (case vk (VmaMapMemory allocation) d of
        (res, p, d') \<Rightarrow>
          if res \<noteq> VK_SUCCESS
          then (Thrown (RuntimeError ''Failed to map memory!''), data, d')
          else (Returned (), p, d'))"

definition unmapMemory :: "handle \<Rightarrow> driver \<Rightarrow> driver" where
  "unmapMemory allocation d = log_call (VmaUnmapMemory allocation) d"

definition destroyBuffer :: "handle \<Rightarrow> handle \<Rightarrow> driver \<Rightarrow> driver" where
  "destroyBuffer buffer allocation d = log_call (VmaDestroyBuffer buffer allocation) d"

text \<open>\<open>memcpy(data, src, n)\<close> into mapped memory.\<close>

definition memcpy :: "nat \<Rightarrow> payload \<Rightarrow> driver \<Rightarrow> driver" where
  "memcpy data src d = (log_call (Memcpy data src) d) \<lparr> hostMemory := (hostMemory d)(data \<mapsto> src) \<rparr>"

text \<open>
  \<open>AllocatorManager::copyBuffer\<close> reads no result code and throws nowhere.
\<close>

definition copyBuffer ::
  "handle \<Rightarrow> handle \<Rightarrow> VkDeviceSize \<Rightarrow> handle \<Rightarrow> driver \<Rightarrow> driver" where
  "copyBuffer srcBuffer dstBuffer sz pool d =
     (case vk (VkAllocateCommandBuffers pool 1) d of
        (res, commandBuffer, d') \<Rightarrow>
          fold log_call
            [VkBeginCommandBuffer commandBuffer VK_COMMAND_BUFFER_USAGE_ONE_TIME_SUBMIT_BIT,
             VkCmdCopyBuffer commandBuffer srcBuffer dstBuffer sz,
             VkEndCommandBuffer commandBuffer,
             VkQueueSubmit commandBuffer VK_NULL_HANDLE,
             VkQueueWaitIdle,
             VkFreeCommandBuffers pool commandBuffer] d')"

text \<open>\<open>CommandBufferManager::getCommandPool\<close>.\<close>

definition getCommandPool :: "handle \<Rightarrow> handle outcome" where
  "getCommandPool pool =
     (if pool = VK_NULL_HANDLE then Thrown (RuntimeError ''Command pool is not initialized.'')
      else Returned pool)"

text \<open>What a handler \<open>catch (const std::runtime_error& e)\<close> catches.\<close>

fun is_runtime_error :: "exn \<Rightarrow> bool" where
  "is_runtime_error (RuntimeError _) = True"
| "is_runtime_error _ = False"

section \<open>BufferManager (graphics.cpp)\<close>

text \<open>
  \<open>bm_commandPool\<close> is the pool of the referenced CommandBufferManager. \<open>sizeof(Vertex)\<close>
  is 28, \<open>sizeof(uint16_t)\<close> is 2 and \<open>sizeof(UniformBufferObject)\<close> is 192.
\<close>

record BufferManager =
  vertices :: "Vertex list"
  indices :: "16 word list"
  bm_commandPool :: handle
  vertexBuffer :: handle
  indexBuffer :: handle
  vertexBufferAllocation :: handle
  indexBufferAllocation :: handle
  uniformBuffers :: "handle list"
  uniformBuffersMapped :: "nat list"
  uniformBuffersMemory :: "handle list"

definition createVertexBuffer ::
  "BufferManager \<Rightarrow> driver \<Rightarrow> bool outcome \<times> BufferManager \<times> driver" where
  "createVertexBuffer bm d =
     (let bufferSize = 28 * of_nat (length (vertices bm)) in
      case createBuffer bufferSize VK_BUFFER_USAGE_TRANSFER_SRC_BIT VMA_MEMORY_USAGE_CPU_ONLY
             (VK_NULL_HANDLE, VK_NULL_HANDLE) d of
        (Thrown e, _, d1) \<Rightarrow>
          if is_runtime_error e then (Returned False, bm, d1) else (Thrown e, bm, d1)
      | (Undefined u, _, d1) \<Rightarrow> (Undefined u, bm, d1)
      | (Returned _, (stagingBuffer, stagingBufferAllocation), d1) \<Rightarrow>
         (case mapMemory stagingBufferAllocation nullptr d1 of
            (Thrown e, _, d2) \<Rightarrow>
              if is_runtime_error e
              then (Returned False, bm, destroyBuffer stagingBuffer stagingBufferAllocation d2)
              else (Thrown e, bm, d2)
          | (Undefined u, _, d2) \<Rightarrow> (Undefined u, bm, d2)
          | (Returned _, data, d2) \<Rightarrow>
             (let d3 = memcpy data (VertexData (vertices bm)) d2;
                  d4 = unmapMemory stagingBufferAllocation d3
              in case createBuffer bufferSize
                        (VK_BUFFER_USAGE_TRANSFER_DST_BIT OR VK_BUFFER_USAGE_VERTEX_BUFFER_BIT)
                        VMA_MEMORY_USAGE_GPU_ONLY
                        (vertexBuffer bm, vertexBufferAllocation bm) d4 of
                   (Thrown e, (vb, va), d5) \<Rightarrow>
                     if is_runtime_error e
                     then (Returned False,
                           bm \<lparr> vertexBuffer := vb, vertexBufferAllocation := va \<rparr>,
                           destroyBuffer stagingBuffer stagingBufferAllocation d5)
                     else (Thrown e, bm \<lparr> vertexBuffer := vb, vertexBufferAllocation := va \<rparr>, d5)
                 | (Undefined u, (vb, va), d5) \<Rightarrow>
                     (Undefined u, bm \<lparr> vertexBuffer := vb, vertexBufferAllocation := va \<rparr>, d5)
                 | (Returned _, (vb, va), d5) \<Rightarrow>
                    (let bm1 = bm \<lparr> vertexBuffer := vb, vertexBufferAllocation := va \<rparr>
                     in case getCommandPool (bm_commandPool bm1) of
                          Thrown e \<Rightarrow>
                            if is_runtime_error e
                            then (Returned False, bm1,
                                  destroyBuffer vb va
                                    (destroyBuffer stagingBuffer stagingBufferAllocation d5))
                            else (Thrown e, bm1, d5)
                        | Undefined u \<Rightarrow> (Undefined u, bm1, d5)
                        | Returned pool \<Rightarrow>
                            (Returned True, bm1,
                             destroyBuffer stagingBuffer stagingBufferAllocation
                               (copyBuffer stagingBuffer vb bufferSize pool d5))))))"

definition createIndexBuffer ::
  "BufferManager \<Rightarrow> driver \<Rightarrow> bool outcome \<times> BufferManager \<times> driver" where
  "createIndexBuffer bm d =
     (let bufferSize = 2 * of_nat (length (indices bm)) in
      case createBuffer bufferSize VK_BUFFER_USAGE_TRANSFER_SRC_BIT VMA_MEMORY_USAGE_CPU_ONLY
             (VK_NULL_HANDLE, VK_NULL_HANDLE) d of
        (Thrown e, _, d1) \<Rightarrow>
          if is_runtime_error e then (Returned False, bm, d1) else (Thrown e, bm, d1)
      | (Undefined u, _, d1) \<Rightarrow> (Undefined u, bm, d1)
      | (Returned _, (stagingBuffer, stagingBufferAllocation), d1) \<Rightarrow>
         (case mapMemory stagingBufferAllocation nullptr d1 of
            (Thrown e, _, d2) \<Rightarrow>
              if is_runtime_error e
              then (Returned False, bm, destroyBuffer stagingBuffer stagingBufferAllocation d2)
              else (Thrown e, bm, d2)
          | (Undefined u, _, d2) \<Rightarrow> (Undefined u, bm, d2)
          | (Returned _, data, d2) \<Rightarrow>
             (let d3 = memcpy data (IndexData (indices bm)) d2;
                  d4 = unmapMemory stagingBufferAllocation d3
              in case createBuffer bufferSize
                        (VK_BUFFER_USAGE_TRANSFER_DST_BIT OR VK_BUFFER_USAGE_INDEX_BUFFER_BIT)
                        VMA_MEMORY_USAGE_GPU_ONLY
                        (indexBuffer bm, indexBufferAllocation bm) d4 of
                   (Thrown e, (ib, ia), d5) \<Rightarrow>
                     if is_runtime_error e
                     then (Returned False,
                           bm \<lparr> indexBuffer := ib, indexBufferAllocation := ia \<rparr>,
                           destroyBuffer stagingBuffer stagingBufferAllocation d5)
                     else (Thrown e, bm \<lparr> indexBuffer := ib, indexBufferAllocation := ia \<rparr>, d5)
                 | (Undefined u, (ib, ia), d5) \<Rightarrow>
                     (Undefined u, bm \<lparr> indexBuffer := ib, indexBufferAllocation := ia \<rparr>, d5)
                 | (Returned _, (ib, ia), d5) \<Rightarrow>
                    (let bm1 = bm \<lparr> indexBuffer := ib, indexBufferAllocation := ia \<rparr>
                     in case getCommandPool (bm_commandPool bm1) of
                          Thrown e \<Rightarrow>
                            if is_runtime_error e
                            then (Returned False, bm1,
                                  destroyBuffer ib ia
                                    (destroyBuffer stagingBuffer stagingBufferAllocation d5))
                            else (Thrown e, bm1, d5)
                        | Undefined u \<Rightarrow> (Undefined u, bm1, d5)
                        | Returned pool \<Rightarrow>
                            (Returned True, bm1,
                             destroyBuffer stagingBuffer stagingBufferAllocation
                               (copyBuffer stagingBuffer ib bufferSize pool d5))))))"

text \<open>The clean-up loops of \<open>createUniformBuffers\<close>: \<open>destroyBuffer\<close> for the given indices.\<close>

definition destroyUniformBuffers :: "nat list \<Rightarrow> BufferManager \<Rightarrow> driver \<Rightarrow> driver" where
  "destroyUniformBuffers js bm d =
     fold (\<lambda>j. destroyBuffer (uniformBuffers bm ! j) (uniformBuffersMemory bm ! j)) js d"

fun createUniformBuffers_loop ::
  "nat list \<Rightarrow> BufferManager \<Rightarrow> driver \<Rightarrow> bool outcome \<times> BufferManager \<times> driver" where
  "createUniformBuffers_loop [] bm d = (Returned True, bm, d)"
| "createUniformBuffers_loop (i # rest) bm d =
     (case createBuffer 192 VK_BUFFER_USAGE_UNIFORM_BUFFER_BIT VMA_MEMORY_USAGE_CPU_TO_GPU
             (uniformBuffers bm ! i, uniformBuffersMemory bm ! i) d of
        (Thrown e, _, d1) \<Rightarrow>
          if is_runtime_error e
          then (Returned False, bm, destroyUniformBuffers [0 ..< i] bm d1)
          else (Thrown e, bm, d1)
      | (Undefined u, _, d1) \<Rightarrow> (Undefined u, bm, d1)
      | (Returned _, (ub, um), d1) \<Rightarrow>
         (let bm1 = bm \<lparr> uniformBuffers := (uniformBuffers bm) [i := ub],
                          uniformBuffersMemory := (uniformBuffersMemory bm) [i := um] \<rparr>
          in case mapMemory um (uniformBuffersMapped bm1 ! i) d1 of
               (Thrown e, _, d2) \<Rightarrow>
                 if is_runtime_error e
                 then (Returned False, bm1, destroyUniformBuffers [0 ..< Suc i] bm1 d2)
                 else (Thrown e, bm1, d2)
             | (Undefined u, _, d2) \<Rightarrow> (Undefined u, bm1, d2)
             | (Returned _, p, d2) \<Rightarrow>
                 createUniformBuffers_loop rest
                   (bm1 \<lparr> uniformBuffersMapped := (uniformBuffersMapped bm1) [i := p] \<rparr>) d2))"

definition createUniformBuffers ::
  "BufferManager \<Rightarrow> driver \<Rightarrow> bool outcome \<times> BufferManager \<times> driver" where
  "createUniformBuffers bm d =
     createUniformBuffers_loop [0 ..< unat MAX_FRAMES_IN_FLIGHT]
       (bm \<lparr> uniformBuffers := resize (unat MAX_FRAMES_IN_FLIGHT) (uniformBuffers bm),
              uniformBuffersMemory := resize (unat MAX_FRAMES_IN_FLIGHT) (uniformBuffersMemory bm),
              uniformBuffersMapped :=
                take (unat MAX_FRAMES_IN_FLIGHT) (uniformBuffersMapped bm)
                @ replicate (unat MAX_FRAMES_IN_FLIGHT - length (uniformBuffersMapped bm)) nullptr \<rparr>)
       d"

text \<open>
  The constructor. \<open>raw\<close> stands for the members without an initialiser, whose first
  values are indeterminate; the three vectors start empty. The three \<open>bool\<close> results are
  dropped, as in the source.
\<close>

definition BufferManager_ctor ::
  "Vertex list \<Rightarrow> 16 word list \<Rightarrow> handle \<Rightarrow> BufferManager \<Rightarrow> driver
     \<Rightarrow> unit outcome \<times> BufferManager \<times> driver" where
  "BufferManager_ctor vs is pool raw d =
     (let bm = raw \<lparr> vertices := vs, indices := is, bm_commandPool := pool,
                      uniformBuffers := [], uniformBuffersMapped := [],
                      uniformBuffersMemory := [] \<rparr>;
          bm = bm \<lparr> uniformBuffersMemory :=
                      resize (unat MAX_FRAMES_IN_FLIGHT) (uniformBuffersMemory bm) \<rparr>;
          bm = bm \<lparr> uniformBuffers := resize (unat MAX_FRAMES_IN_FLIGHT) (uniformBuffers bm) \<rparr>
      in case createVertexBuffer bm d of
           (Thrown e, bm1, d1) \<Rightarrow> (Thrown e, bm1, d1)
         | (Undefined u, bm1, d1) \<Rightarrow> (Undefined u, bm1, d1)
         | (Returned _, bm1, d1) \<Rightarrow>
            (case createIndexBuffer bm1 d1 of
               (Thrown e, bm2, d2) \<Rightarrow> (Thrown e, bm2, d2)
             | (Undefined u, bm2, d2) \<Rightarrow> (Undefined u, bm2, d2)
             | (Returned _, bm2, d2) \<Rightarrow>
                (case createUniformBuffers bm2 d2 of
                   (Thrown e, bm3, d3) \<Rightarrow> (Thrown e, bm3, d3)
                 | (Undefined u, bm3, d3) \<Rightarrow> (Undefined u, bm3, d3)
                 | (Returned _, bm3, d3) \<Rightarrow> (Returned (), bm3, d3))))"

text \<open>
  \<open>BufferManager::updateUniformBuffer\<close>. The read \<open>uniformBuffersMapped[currentFrame]\<close> is
  out of range when the vector is shorter than the frame count.
\<close>

definition updateUniformBuffer ::
  "uint32_t \<Rightarrow> UniformBufferObject \<Rightarrow> BufferManager \<Rightarrow> driver \<Rightarrow> unit outcome \<times> driver" where
  "updateUniformBuffer currentFrame ubo bm d =
     (if currentFrame \<ge> MAX_FRAMES_IN_FLIGHT
      then (Thrown (OutOfRange ''Frame index out of bounds.''), d)
      else if unat currentFrame \<ge> length (uniformBuffersMapped bm)
      then (Undefined ''uniformBuffersMapped[currentFrame] out of range'', d)
      else
        (let data = uniformBuffersMapped bm ! unat currentFrame in
         if data = nullptr
         then (Thrown (RuntimeError (''Failed to map uniform buffer for frame ''
                                     @ to_string (uint currentFrame))), d)
         else (Returned (), memcpy data (UboData ubo) d)))"

definition example_raw :: BufferManager where
  "example_raw =
     \<lparr> vertices = [], indices = [], bm_commandPool = 0,
       vertexBuffer = 901, indexBuffer = 902,
       vertexBufferAllocation = 903, indexBufferAllocation = 904,
       uniformBuffers = [], uniformBuffersMapped = [], uniformBuffersMemory = [] \<rparr>"

definition example_vertices :: "Vertex list" where
  "example_vertices =
     [\<lparr> pos = (0, 0), color = (1, 0, 0), texCoord = (0, 0) \<rparr>,
      \<lparr> pos = (1, 0), color = (0, 1, 0), texCoord = (1, 0) \<rparr>,
      \<lparr> pos = (1, 1), color = (0, 0, 1), texCoord = (1, 1) \<rparr>]"

section \<open>DescriptorManager (graphics.cpp)\<close>

definition VK_DESCRIPTOR_TYPE_COMBINED_IMAGE_SAMPLER :: nat where
  "VK_DESCRIPTOR_TYPE_COMBINED_IMAGE_SAMPLER = 1"

definition VK_DESCRIPTOR_TYPE_UNIFORM_BUFFER :: nat where
  "VK_DESCRIPTOR_TYPE_UNIFORM_BUFFER = 6"

definition VK_SHADER_STAGE_VERTEX_BIT :: uint32_t where
  "VK_SHADER_STAGE_VERTEX_BIT = 1"

definition VK_SHADER_STAGE_FRAGMENT_BIT :: uint32_t where
  "VK_SHADER_STAGE_FRAGMENT_BIT = 16"

definition VK_IMAGE_LAYOUT_UNDEFINED :: nat where
  "VK_IMAGE_LAYOUT_UNDEFINED = 0"

definition VK_IMAGE_LAYOUT_SHADER_READ_ONLY_OPTIMAL :: nat where
  "VK_IMAGE_LAYOUT_SHADER_READ_ONLY_OPTIMAL = 5"

definition VK_IMAGE_LAYOUT_TRANSFER_DST_OPTIMAL :: nat where
  "VK_IMAGE_LAYOUT_TRANSFER_DST_OPTIMAL = 7"

definition VK_ERROR_OUT_OF_POOL_MEMORY :: int where
  "VK_ERROR_OUT_OF_POOL_MEMORY = - 1000069000"

record DescriptorManager =
  descriptorSetLayout :: handle
  descriptorPool :: handle
  descriptorSets :: "handle list"

definition createDescriptorSetLayout ::
  "DescriptorManager \<Rightarrow> driver \<Rightarrow> unit outcome \<times> DescriptorManager \<times> driver" where
  "createDescriptorSetLayout dm d =
     (let uboLayoutBinding =
            \<lparr> lb_binding = 0,
              lb_descriptorType = VK_DESCRIPTOR_TYPE_UNIFORM_BUFFER,
              lb_descriptorCount = 1,
              lb_stageFlags = VK_SHADER_STAGE_VERTEX_BIT,
              lb_pImmutableSamplers = nullptr \<rparr>;
          samplerLayoutBinding =
            \<lparr> lb_binding = 1,
              lb_descriptorType = VK_DESCRIPTOR_TYPE_COMBINED_IMAGE_SAMPLER,
              lb_descriptorCount = 1,
              lb_stageFlags = VK_SHADER_STAGE_FRAGMENT_BIT,
              lb_pImmutableSamplers = nullptr \<rparr>;
          bindings = [uboLayoutBinding, samplerLayoutBinding]
      in case vk (VkCreateDescriptorSetLayout bindings) d of
           (res, layout, d') \<Rightarrow>
             if res \<noteq> VK_SUCCESS
             then (Thrown (RuntimeError ''failed to create descriptor set layout!''), dm, d')
             else (Returned (), dm \<lparr> descriptorSetLayout := layout \<rparr>, d'))"

text \<open>
  The driver's side of \<open>vkCreateDescriptorPool\<close>: a created pool can hand out \<open>maxSets\<close>
  descriptor sets.
\<close>

definition vkCreateDescriptorPool ::
  "uint32_t \<Rightarrow> VkDescriptorPoolSize list \<Rightarrow> driver \<Rightarrow> int \<times> handle \<times> driver" where
  "vkCreateDescriptorPool maxSets poolSizes d =
     (case vk (VkCreateDescriptorPool maxSets poolSizes) d of
        (res, pool, d') \<Rightarrow>
          if res \<noteq> VK_SUCCESS then (res, pool, d')
          else (res, pool, d' \<lparr> poolSetsLeft := (poolSetsLeft d')(pool \<mapsto> unat maxSets) \<rparr>))"

definition createDescriptorPool ::
  "DescriptorManager \<Rightarrow> driver \<Rightarrow> unit outcome \<times> DescriptorManager \<times> driver" where
  "createDescriptorPool dm d =
     (let poolSizes =
            [\<lparr> ps_type = VK_DESCRIPTOR_TYPE_UNIFORM_BUFFER,
               ps_descriptorCount = MAX_FRAMES_IN_FLIGHT \<rparr>,
             \<lparr> ps_type = VK_DESCRIPTOR_TYPE_COMBINED_IMAGE_SAMPLER,
               ps_descriptorCount = MAX_FRAMES_IN_FLIGHT \<rparr>]
      in case vkCreateDescriptorPool MAX_FRAMES_IN_FLIGHT poolSizes d of
           (res, pool, d') \<Rightarrow>
             if res \<noteq> VK_SUCCESS
             then (Thrown (RuntimeError ''Failed to create descriptor pool!''), dm, d')
             else (Returned (), dm \<lparr> descriptorPool := pool \<rparr>, d'))"

text \<open>The constructor; the two handles start null and the vector of sets empty.\<close>

definition DescriptorManager_ctor ::
  "driver \<Rightarrow> unit outcome \<times> DescriptorManager \<times> driver" where
  "DescriptorManager_ctor d =
     (let dm = \<lparr> descriptorSetLayout = VK_NULL_HANDLE, descriptorPool = VK_NULL_HANDLE,
                 descriptorSets = [] \<rparr>
      in case createDescriptorSetLayout dm d of
           (Thrown e, dm1, d1) \<Rightarrow> (Thrown e, dm1, d1)
         | (Undefined u, dm1, d1) \<Rightarrow> (Undefined u, dm1, d1)
         | (Returned _, dm1, d1) \<Rightarrow> createDescriptorPool dm1 d1)"

text \<open>
  The driver's side of \<open>vkAllocateDescriptorSets\<close>: it fails when the driver says so, and
  with \<open>VK_ERROR_OUT_OF_POOL_MEMORY\<close> when the pool has fewer sets left than are asked
  for; otherwise the sets are created and taken off what the pool has left.
\<close>

definition vkAllocateDescriptorSets ::
  "handle \<Rightarrow> handle list \<Rightarrow> driver \<Rightarrow> int \<times> handle list \<times> driver" where
  "vkAllocateDescriptorSets pool layouts d =
     (case vk (VkAllocateDescriptorSets pool layouts) d of
        (res, _, d') \<Rightarrow>
          if res \<noteq> VK_SUCCESS then (res, [], d')
          else
            (case poolSetsLeft d' pool of
               None \<Rightarrow> (VK_ERROR_OUT_OF_POOL_MEMORY, [], d')
             | Some left \<Rightarrow>
                 if left < length layouts then (VK_ERROR_OUT_OF_POOL_MEMORY, [], d')
                 else (VK_SUCCESS,
                       map (\<lambda>j. Suc (nextHandle d' + j)) [0 ..< length layouts],
                       d' \<lparr> nextHandle := nextHandle d' + length layouts,
                            poolSetsLeft := (poolSetsLeft d')(pool \<mapsto> left - length layouts) \<rparr>)))"

text \<open>The loop of \<open>createDescriptorSets\<close> that writes the two bindings of every set.\<close>

fun writeDescriptorSets ::
  "nat list \<Rightarrow> handle list \<Rightarrow> handle \<Rightarrow> handle \<Rightarrow> DescriptorManager \<Rightarrow> driver
     \<Rightarrow> unit outcome \<times> driver" where
  "writeDescriptorSets [] buffers textureImageView textureSampler dm d = (Returned (), d)"
| "writeDescriptorSets (i # rest) buffers textureImageView textureSampler dm d =
     (if i \<ge> length buffers then (Undefined ''uniformBuffers[i] out of range'', d)
      else
        (let bufferInfo = (buffers ! i, 0, 192);
             imageInfo = (VK_IMAGE_LAYOUT_SHADER_READ_ONLY_OPTIMAL, textureImageView, textureSampler);
             descriptorWrites =
               [\<lparr> wd_dstSet = descriptorSets dm ! i, wd_dstBinding = 0, wd_dstArrayElement = 0,
                  wd_descriptorType = VK_DESCRIPTOR_TYPE_UNIFORM_BUFFER,
                  wd_descriptorCount = 1,
                  wd_buffer = Some bufferInfo, wd_image = None \<rparr>,
                \<lparr> wd_dstSet = descriptorSets dm ! i, wd_dstBinding = 1, wd_dstArrayElement = 0,
                  wd_descriptorType = VK_DESCRIPTOR_TYPE_COMBINED_IMAGE_SAMPLER,
                  wd_descriptorCount = 1,
                  wd_buffer = None, wd_image = Some imageInfo \<rparr>]
         in writeDescriptorSets rest buffers textureImageView textureSampler dm
              (log_call (VkUpdateDescriptorSets descriptorWrites) d)))"

text \<open>
  \<open>createDescriptorSets\<close>. On success the driver fills the resized vector with the new
  sets; on failure the vector keeps what \<open>resize\<close> left in it.
\<close>

definition createDescriptorSets ::
  "handle list \<Rightarrow> handle \<Rightarrow> handle \<Rightarrow> DescriptorManager \<Rightarrow> driver
     \<Rightarrow> unit outcome \<times> DescriptorManager \<times> driver" where
  "createDescriptorSets buffers textureImageView textureSampler dm d =
     (let layouts = replicate (unat MAX_FRAMES_IN_FLIGHT) (descriptorSetLayout dm);
          dm1 = dm \<lparr> descriptorSets := resize (unat MAX_FRAMES_IN_FLIGHT) (descriptorSets dm) \<rparr>
      in case vkAllocateDescriptorSets (descriptorPool dm1) layouts d of
           (res, sets, d') \<Rightarrow>
             if res \<noteq> VK_SUCCESS
             then (Thrown (RuntimeError ''failed to allocate descriptor sets!''), dm1, d')
             else
               (let dm2 = dm1 \<lparr> descriptorSets := sets \<rparr>
                in case writeDescriptorSets [0 ..< unat MAX_FRAMES_IN_FLIGHT]
                          buffers textureImageView textureSampler dm2 d' of
                     (r, d'') \<Rightarrow> (r, dm2, d'')))"

section \<open>CommandBufferManager (graphics.cpp)\<close>

definition VK_COMMAND_POOL_CREATE_RESET_COMMAND_BUFFER_BIT :: uint32_t where
  "VK_COMMAND_POOL_CREATE_RESET_COMMAND_BUFFER_BIT = 2"

definition VK_FENCE_CREATE_SIGNALED_BIT :: uint32_t where
  "VK_FENCE_CREATE_SIGNALED_BIT = 1"

record CommandBufferManager =
  commandPool :: handle
  commandBuffers :: "handle list"
  imageAvailableSemaphores :: "handle list"
  renderFinishedSemaphores :: "handle list"
  inFlightFences :: "handle list"

text \<open>
  The driver's side of the synchronisation objects: a semaphore is created unsignaled; a
  fence is created signaled exactly when the create info carries
  \<open>VK_FENCE_CREATE_SIGNALED_BIT\<close>; a wait on a signaled fence returns \<open>VK_SUCCESS\<close> at once;
  a wait with the timeout \<open>UINT64_MAX\<close> on a fence that is not signaled does not return
  (\<open>None\<close>) as long as nothing that signals it has been submitted.
\<close>

definition vkCreateSemaphore :: "driver \<Rightarrow> int \<times> handle \<times> driver" where
  "vkCreateSemaphore d =
     (case vk VkCreateSemaphore d of
        (res, semaphore, d') \<Rightarrow>
          if res \<noteq> VK_SUCCESS then (res, semaphore, d')
          else (res, semaphore,
                d' \<lparr> semaphoreSignaled := (semaphoreSignaled d')(semaphore \<mapsto> False) \<rparr>))"

definition vkCreateFence :: "uint32_t \<Rightarrow> driver \<Rightarrow> int \<times> handle \<times> driver" where
  "vkCreateFence flags d =
     (case vk (VkCreateFence flags) d of
        (res, fence, d') \<Rightarrow>
          if res \<noteq> VK_SUCCESS then (res, fence, d')
          else (res, fence,
                d' \<lparr> fenceSignaled :=
                       (fenceSignaled d')(fence \<mapsto> flags AND VK_FENCE_CREATE_SIGNALED_BIT \<noteq> 0) \<rparr>))"

definition vkWaitForFences :: "handle \<Rightarrow> driver \<Rightarrow> int option" where
  "vkWaitForFences fence d =
     (case fenceSignaled d fence of Some True \<Rightarrow> Some VK_SUCCESS | _ \<Rightarrow> None)"

text \<open>The two lambdas of \<open>createSyncObjects\<close>.\<close>

definition createSemaphore :: "driver \<Rightarrow> handle outcome \<times> driver" where
  "createSemaphore d =
     (case vkCreateSemaphore d of
        (res, semaphore, d') \<Rightarrow>
          if res \<noteq> VK_SUCCESS then (Thrown (RuntimeError ''failed to create semaphore!''), d')
          else (Returned semaphore, d'))"

definition createFence :: "driver \<Rightarrow> handle outcome \<times> driver" where
  "createFence d =
     (case vkCreateFence VK_FENCE_CREATE_SIGNALED_BIT d of
        (res, fence, d') \<Rightarrow>
          if res \<noteq> VK_SUCCESS then (Thrown (RuntimeError ''failed to create fence!''), d')
          else (Returned fence, d'))"

fun createSyncObjects_loop ::
  "nat list \<Rightarrow> CommandBufferManager \<Rightarrow> driver
     \<Rightarrow> unit outcome \<times> CommandBufferManager \<times> driver" where
  "createSyncObjects_loop [] m d = (Returned (), m, d)"
| "createSyncObjects_loop (i # rest) m d =
     (case createSemaphore d of
        (Thrown e, d1) \<Rightarrow> (Thrown e, m, d1)
      | (Undefined u, d1) \<Rightarrow> (Undefined u, m, d1)
      | (Returned s1, d1) \<Rightarrow>
         (let m1 = m \<lparr> imageAvailableSemaphores := (imageAvailableSemaphores m) [i := s1] \<rparr>
          in case createSemaphore d1 of
               (Thrown e, d2) \<Rightarrow> (Thrown e, m1, d2)
             | (Undefined u, d2) \<Rightarrow> (Undefined u, m1, d2)
             | (Returned s2, d2) \<Rightarrow>
                (let m2 = m1 \<lparr> renderFinishedSemaphores :=
                                 (renderFinishedSemaphores m1) [i := s2] \<rparr>
                 in case createFence d2 of
                      (Thrown e, d3) \<Rightarrow> (Thrown e, m2, d3)
                    | (Undefined u, d3) \<Rightarrow> (Undefined u, m2, d3)
                    | (Returned f, d3) \<Rightarrow>
                        createSyncObjects_loop rest
                          (m2 \<lparr> inFlightFences := (inFlightFences m2) [i := f] \<rparr>) d3)))"

definition createSyncObjects ::
  "CommandBufferManager \<Rightarrow> driver \<Rightarrow> unit outcome \<times> CommandBufferManager \<times> driver" where
  "createSyncObjects m d =
     createSyncObjects_loop [0 ..< unat MAX_FRAMES_IN_FLIGHT]
       (m \<lparr> imageAvailableSemaphores :=
               resize (unat MAX_FRAMES_IN_FLIGHT) (imageAvailableSemaphores m),
             renderFinishedSemaphores :=
               resize (unat MAX_FRAMES_IN_FLIGHT) (renderFinishedSemaphores m),
             inFlightFences := resize (unat MAX_FRAMES_IN_FLIGHT) (inFlightFences m) \<rparr>) d"

definition createCommandPool ::
  "CommandBufferManager \<Rightarrow> driver \<Rightarrow> unit outcome \<times> CommandBufferManager \<times> driver" where
  "createCommandPool m d =
     (case fst (queueFamilies d) of
        None \<Rightarrow> (Thrown BadOptionalAccess, m, d)
      | Some graphicsFamily \<Rightarrow>
         (case vk (VkCreateCommandPool VK_COMMAND_POOL_CREATE_RESET_COMMAND_BUFFER_BIT
                     graphicsFamily) d of
            (res, pool, d') \<Rightarrow>
              (let msg = ''Failed to create command pool!: Error code: '' @ to_string res
               in if res \<noteq> VK_SUCCESS then (Thrown (RuntimeError msg), m, d')
                  else (Returned (), m \<lparr> commandPool := pool \<rparr>, d'))))"

definition createCommandBuffers ::
  "CommandBufferManager \<Rightarrow> driver \<Rightarrow> unit outcome \<times> CommandBufferManager \<times> driver" where
  "createCommandBuffers m d =
     (let m1 = m \<lparr> commandBuffers := resize (unat MAX_FRAMES_IN_FLIGHT) (commandBuffers m) \<rparr>
      in case vk (VkAllocateCommandBuffers (commandPool m1) (length (commandBuffers m1))) d of
           (res, _, d') \<Rightarrow>
             (let msg = ''Failed to create command pool!: Error code: '' @ to_string res
              in if res \<noteq> VK_SUCCESS then (Thrown (RuntimeError msg), m1, d')
                 else (Returned (),
                       m1 \<lparr> commandBuffers :=
                              map (\<lambda>j. Suc (nextHandle d' + j)) [0 ..< length (commandBuffers m1)] \<rparr>,
                       d' \<lparr> nextHandle := nextHandle d' + length (commandBuffers m1) \<rparr>)))"

text \<open>The constructor: the pool starts null and the four vectors empty.\<close>

definition CommandBufferManager_ctor ::
  "driver \<Rightarrow> unit outcome \<times> CommandBufferManager \<times> driver" where
  "CommandBufferManager_ctor d =
     (let m = \<lparr> commandPool = VK_NULL_HANDLE, commandBuffers = [],
                imageAvailableSemaphores = [], renderFinishedSemaphores = [],
                inFlightFences = [] \<rparr>;
          m = m \<lparr> imageAvailableSemaphores :=
                    resize (unat MAX_FRAMES_IN_FLIGHT) (imageAvailableSemaphores m),
                  renderFinishedSemaphores :=
                    resize (unat MAX_FRAMES_IN_FLIGHT) (renderFinishedSemaphores m),
                  inFlightFences := resize (unat MAX_FRAMES_IN_FLIGHT) (inFlightFences m) \<rparr>
      in case createCommandPool m d of
           (Thrown e, m1, d1) \<Rightarrow> (Thrown e, m1, d1)
         | (Undefined u, m1, d1) \<Rightarrow> (Undefined u, m1, d1)
         | (Returned _, m1, d1) \<Rightarrow>
            (case createSyncObjects m1 d1 of
               (Thrown e, m2, d2) \<Rightarrow> (Thrown e, m2, d2)
             | (Undefined u, m2, d2) \<Rightarrow> (Undefined u, m2, d2)
             | (Returned _, m2, d2) \<Rightarrow> createCommandBuffers m2 d2))"

text \<open>
  \<open>waitForFences\<close>: \<open>None\<close> when the wait does not return.
\<close>

definition waitForFences ::
  "uint32_t \<Rightarrow> CommandBufferManager \<Rightarrow> driver \<Rightarrow> unit outcome option" where
  "waitForFences frameIndex m d =
     (if unat frameIndex \<ge> length (inFlightFences m)
      then Some (Undefined ''inFlightFences[frameIndex] out of range'')
      else
        (case vkWaitForFences (inFlightFences m ! unat frameIndex) d of
           None \<Rightarrow> None
         | Some result \<Rightarrow>
            (let msg = ''Failed to wait for fence at frame index '' @ to_string (uint frameIndex)
                       @ ''. Error code: '' @ to_string result
             in if result \<noteq> VK_SUCCESS then Some (Thrown (RuntimeError msg))
                else Some (Returned ()))))"

section \<open>TextureManager (graphics.cpp)\<close>

definition VK_FORMAT_D32_SFLOAT :: nat where
  "VK_FORMAT_D32_SFLOAT = 126"

definition VK_FORMAT_D24_UNORM_S8_UINT :: nat where
  "VK_FORMAT_D24_UNORM_S8_UINT = 129"

definition VK_FORMAT_D32_SFLOAT_S8_UINT :: nat where
  "VK_FORMAT_D32_SFLOAT_S8_UINT = 130"

definition VK_IMAGE_TILING_OPTIMAL :: nat where
  "VK_IMAGE_TILING_OPTIMAL = 0"

definition VK_IMAGE_USAGE_TRANSFER_DST_BIT :: uint32_t where
  "VK_IMAGE_USAGE_TRANSFER_DST_BIT = 2"

definition VK_IMAGE_USAGE_SAMPLED_BIT :: uint32_t where
  "VK_IMAGE_USAGE_SAMPLED_BIT = 4"

definition VK_SAMPLE_COUNT_1_BIT :: nat where
  "VK_SAMPLE_COUNT_1_BIT = 1"

definition VK_IMAGE_ASPECT_COLOR_BIT :: uint32_t where
  "VK_IMAGE_ASPECT_COLOR_BIT = 1"

definition VK_IMAGE_ASPECT_DEPTH_BIT :: uint32_t where
  "VK_IMAGE_ASPECT_DEPTH_BIT = 2"

definition VK_IMAGE_ASPECT_STENCIL_BIT :: uint32_t where
  "VK_IMAGE_ASPECT_STENCIL_BIT = 4"

definition VK_ACCESS_SHADER_READ_BIT :: uint32_t where
  "VK_ACCESS_SHADER_READ_BIT = 32"

definition VK_ACCESS_TRANSFER_WRITE_BIT :: uint32_t where
  "VK_ACCESS_TRANSFER_WRITE_BIT = 4096"

definition VK_PIPELINE_STAGE_TOP_OF_PIPE_BIT :: uint32_t where
  "VK_PIPELINE_STAGE_TOP_OF_PIPE_BIT = 1"

definition VK_PIPELINE_STAGE_FRAGMENT_SHADER_BIT :: uint32_t where
  "VK_PIPELINE_STAGE_FRAGMENT_SHADER_BIT = 128"

definition VK_PIPELINE_STAGE_TRANSFER_BIT :: uint32_t where
  "VK_PIPELINE_STAGE_TRANSFER_BIT = 4096"

text \<open>
  \<open>tm_commandPool\<close> is the pool of the referenced CommandBufferManager. \<open>textureMutex\<close>
  tells whether the mutex of that name is held by the calling thread.
\<close>

record TextureManager =
  textureMutex :: bool
  imagePath :: string
  tm_commandPool :: handle
  textureImage :: handle
  textureImageMemory :: handle
  textureImageView :: handle
  textureSampler :: handle

definition createImage ::
  "uint32_t \<Rightarrow> uint32_t \<Rightarrow> nat \<Rightarrow> nat \<Rightarrow> uint32_t \<Rightarrow> nat \<Rightarrow> handle \<times> handle \<Rightarrow> driver
     \<Rightarrow> unit outcome \<times> (handle \<times> handle) \<times> driver" where
  "createImage w h fmt tiling usage memoryUsage out d =
     (let imageInfo =
            \<lparr> ici_width = w, ici_height = h, ici_depth = 1,
              ici_mipLevels = 1, ici_arrayLayers = 1,
              ici_format = fmt, ici_tiling = tiling,
              ici_initialLayout = VK_IMAGE_LAYOUT_UNDEFINED,
              ici_usage = usage,
              ici_samples = VK_SAMPLE_COUNT_1_BIT,
              ici_sharingMode = VK_SHARING_MODE_EXCLUSIVE \<rparr>
      in case vk (VmaCreateImage imageInfo memoryUsage) d of
           (res, img, d') \<Rightarrow>
             if res \<noteq> VK_SUCCESS
             then (Thrown (RuntimeError
                     (''TextureManager::createImage: Failed to create image with properties:''
                      @ [CHR 0x0A] @ '' Width: '' @ to_string (uint w)
                      @ '', Height: '' @ to_string (uint h)
                      @ '', Format: '' @ to_string (int fmt)
                      @ '', Usage: '' @ to_string (uint usage))), out, d')
             else (Returned (), (img, img), d'))"

definition hasStencilComponent :: "nat \<Rightarrow> bool" where
  "hasStencilComponent fmt \<longleftrightarrow>
     fmt = VK_FORMAT_D32_SFLOAT_S8_UINT \<or> fmt = VK_FORMAT_D24_UNORM_S8_UINT"

definition createImageMemoryBarrier :: "handle \<Rightarrow> nat \<Rightarrow> nat \<Rightarrow> nat \<Rightarrow> VkImageMemoryBarrier" where
  "createImageMemoryBarrier img fmt oldLayout newLayout =
     \<lparr> imb_oldLayout = oldLayout, imb_newLayout = newLayout, imb_image = img,
       imb_aspectMask =
         (if fmt = VK_FORMAT_D32_SFLOAT \<or> fmt = VK_FORMAT_D32_SFLOAT_S8_UINT
          then (if hasStencilComponent fmt
                then VK_IMAGE_ASPECT_DEPTH_BIT OR VK_IMAGE_ASPECT_STENCIL_BIT
                else VK_IMAGE_ASPECT_DEPTH_BIT)
          else VK_IMAGE_ASPECT_COLOR_BIT),
       imb_srcAccessMask = 0, imb_dstAccessMask = 0 \<rparr>"

text \<open>
  \<open>allocateCommandBuffer\<close> and \<open>beginSingleTimeCommands\<close>; the result codes of the
  allocation and of the begin are not read.
\<close>

definition allocateCommandBuffer :: "TextureManager \<Rightarrow> driver \<Rightarrow> handle outcome \<times> driver" where
  "allocateCommandBuffer tm d =
     (case getCommandPool (tm_commandPool tm) of
        Thrown e \<Rightarrow> (Thrown e, d)
      | Undefined u \<Rightarrow> (Undefined u, d)
      | Returned pool \<Rightarrow>
          (case vk (VkAllocateCommandBuffers pool 1) d of
             (res, commandBuffer, d') \<Rightarrow> (Returned commandBuffer, d')))"

definition beginSingleTimeCommands :: "TextureManager \<Rightarrow> driver \<Rightarrow> handle outcome \<times> driver" where
  "beginSingleTimeCommands tm d =
     (case allocateCommandBuffer tm d of
        (Thrown e, d1) \<Rightarrow> (Thrown e, d1)
      | (Undefined u, d1) \<Rightarrow> (Undefined u, d1)
      | (Returned commandBuffer, d1) \<Rightarrow>
          (Returned commandBuffer,
           log_call (VkBeginCommandBuffer commandBuffer
                       VK_COMMAND_BUFFER_USAGE_ONE_TIME_SUBMIT_BIT) d1))"

definition submitSingleTimeCommandBuffer ::
  "handle \<Rightarrow> TextureManager \<Rightarrow> driver \<Rightarrow> unit outcome \<times> driver" where
  "submitSingleTimeCommandBuffer commandBuffer tm d =
     (let d1 = log_call (VkQueueSubmit commandBuffer VK_NULL_HANDLE) d;
          d2 = log_call VkQueueWaitIdle d1
      in case getCommandPool (tm_commandPool tm) of
           Thrown e \<Rightarrow> (Thrown e, d2)
         | Undefined u \<Rightarrow> (Undefined u, d2)
         | Returned pool \<Rightarrow>
             (Returned (), log_call (VkFreeCommandBuffers pool commandBuffer) d2))"

definition endSingleTimeCommands ::
  "handle \<Rightarrow> TextureManager \<Rightarrow> driver \<Rightarrow> unit outcome \<times> driver" where
  "endSingleTimeCommands commandBuffer tm d =
     submitSingleTimeCommandBuffer commandBuffer tm (log_call (VkEndCommandBuffer commandBuffer) d)"

definition transitionImageLayout ::
  "handle \<Rightarrow> nat \<Rightarrow> nat \<Rightarrow> nat \<Rightarrow> TextureManager \<Rightarrow> driver \<Rightarrow> unit outcome \<times> driver" where
  "transitionImageLayout img fmt oldLayout newLayout tm d =
     (case beginSingleTimeCommands tm d of
        (Thrown e, d1) \<Rightarrow> (Thrown e, d1)
      | (Undefined u, d1) \<Rightarrow> (Undefined u, d1)
      | (Returned commandBuffer, d1) \<Rightarrow>
         (let barrier = createImageMemoryBarrier img fmt oldLayout newLayout in
          if oldLayout = VK_IMAGE_LAYOUT_UNDEFINED
             \<and> newLayout = VK_IMAGE_LAYOUT_TRANSFER_DST_OPTIMAL
          then
            endSingleTimeCommands commandBuffer tm
              (log_call (VkCmdPipelineBarrier commandBuffer
                           VK_PIPELINE_STAGE_TOP_OF_PIPE_BIT VK_PIPELINE_STAGE_TRANSFER_BIT
                           (barrier \<lparr> imb_srcAccessMask := 0,
                                      imb_dstAccessMask := VK_ACCESS_TRANSFER_WRITE_BIT \<rparr>)) d1)
          else if oldLayout = VK_IMAGE_LAYOUT_TRANSFER_DST_OPTIMAL
                  \<and> newLayout = VK_IMAGE_LAYOUT_SHADER_READ_ONLY_OPTIMAL
          then
            endSingleTimeCommands commandBuffer tm
              (log_call (VkCmdPipelineBarrier commandBuffer
                           VK_PIPELINE_STAGE_TRANSFER_BIT VK_PIPELINE_STAGE_FRAGMENT_SHADER_BIT
                           (barrier \<lparr> imb_srcAccessMask := VK_ACCESS_TRANSFER_WRITE_BIT,
                                      imb_dstAccessMask := VK_ACCESS_SHADER_READ_BIT \<rparr>)) d1)
          else (Thrown (InvalidArgument ''unsupported layout transition!''), d1)))"

definition copyBufferToImage ::
  "handle \<Rightarrow> handle \<Rightarrow> uint32_t \<Rightarrow> uint32_t \<Rightarrow> TextureManager \<Rightarrow> driver
     \<Rightarrow> unit outcome \<times> driver" where
  "copyBufferToImage buffer img w h tm d =
     (case beginSingleTimeCommands tm d of
        (Thrown e, d1) \<Rightarrow> (Thrown e, d1)
      | (Undefined u, d1) \<Rightarrow> (Undefined u, d1)
      | (Returned commandBuffer, d1) \<Rightarrow>
          endSingleTimeCommands commandBuffer tm
            (log_call (VkCmdCopyBufferToImage commandBuffer buffer img
                         VK_IMAGE_LAYOUT_TRANSFER_DST_OPTIMAL w h) d1))"

text \<open>The range of a C \<open>int\<close>: arithmetic that leaves it is undefined.\<close>

definition int_overflow :: "int \<Rightarrow> bool" where
  "int_overflow i \<longleftrightarrow> i < - (2 ^ 31) \<or> 2 ^ 31 \<le> i"

text \<open>
  \<open>createTextureImage\<close>. The size \<open>texWidth * texHeight * 4\<close> is computed in \<open>int\<close>, one
  multiplication after the other, before the pixel pointer is tested, and then converted
  to \<open>VkDeviceSize\<close>. \<open>memcpy\<close> reads that many bytes from the pixel buffer, which is out
  of range when the buffer is shorter. The two \<open>int\<close> values reach \<open>createImage\<close> and
  \<open>copyBufferToImage\<close> as \<open>uint32_t\<close>, the same 32 bits. The exceptions of
  \<open>createBuffer\<close>, \<open>createImage\<close> and of the three single-use command buffers are not
  caught here. The function locks \<open>textureMutex\<close> for its whole body; \<open>std::mutex\<close> is not
  recursive, so locking it while the calling thread holds it (as \<open>reloadTexture\<close> does when
  it calls this function) is undefined.
\<close>

definition createTextureImage ::
  "TextureManager \<Rightarrow> driver \<Rightarrow> unit outcome \<times> TextureManager \<times> driver" where
  "createTextureImage tm d =
     (if textureMutex tm
      then (Undefined ''textureMutex locked by the thread that holds it'', tm, d)
      else if textureImage tm \<noteq> VK_NULL_HANDLE \<and> textureImageMemory tm \<noteq> VK_NULL_HANDLE
      then (Returned (), tm, d)
      else if imagePath tm = []
      then (Thrown (InvalidArgument
              ''TextureManager: imagePath is empty, please provide a valid texture file path.''),
            tm, d)
      else
        (case stbi_load d (imagePath tm) of
           (texWidth, texHeight, pixels) \<Rightarrow>
            if int_overflow (sint texWidth * sint texHeight)
               \<or> int_overflow (sint texWidth * sint texHeight * 4)
            then (Undefined ''signed overflow in texWidth * texHeight * 4'', tm, d)
            else
            (let imageSize = (word_of_int (sint texWidth * sint texHeight * 4) :: VkDeviceSize) in
             case pixels of
               None \<Rightarrow> (Thrown (RuntimeError ''Failed to load texture image!''), tm, d)
             | Some pixelBytes \<Rightarrow>
            (case createBuffer imageSize VK_BUFFER_USAGE_TRANSFER_SRC_BIT
                    VMA_MEMORY_USAGE_CPU_TO_GPU (VK_NULL_HANDLE, VK_NULL_HANDLE) d of
               (Thrown e, _, d1) \<Rightarrow> (Thrown e, tm, d1)
             | (Undefined u, _, d1) \<Rightarrow> (Undefined u, tm, d1)
             | (Returned _, (stagingBuffer, stagingBufferMemory), d1) \<Rightarrow>
                (case vk (VmaMapMemory stagingBufferMemory) d1 of
                   (res, data, d2) \<Rightarrow>
                     if res \<noteq> VK_SUCCESS
                     then (Thrown (RuntimeError
                             ''TextureManager::createTextureImage: Failed to map memory for staging buffer.''),
                           tm, d2)
                     else if unat imageSize > length pixelBytes
                     then (Undefined ''memcpy reads past the end of the pixel buffer'', tm, d2)
                     else
                       (let d3 = memcpy data (PixelData (take (unat imageSize) pixelBytes)) d2;
                            d4 = log_call (VmaUnmapMemory stagingBufferMemory) d3
                        in case createImage texWidth texHeight
                                  VK_FORMAT_R8G8B8A8_SRGB VK_IMAGE_TILING_OPTIMAL
                                  (VK_IMAGE_USAGE_TRANSFER_DST_BIT OR VK_IMAGE_USAGE_SAMPLED_BIT)
                                  VMA_MEMORY_USAGE_GPU_ONLY
                                  (textureImage tm, textureImageMemory tm) d4 of
                             (Thrown e, (ti, tmem), d5) \<Rightarrow>
                               (Thrown e, tm \<lparr> textureImage := ti, textureImageMemory := tmem \<rparr>, d5)
                           | (Undefined u, (ti, tmem), d5) \<Rightarrow>
                               (Undefined u, tm \<lparr> textureImage := ti, textureImageMemory := tmem \<rparr>, d5)
                           | (Returned _, (ti, tmem), d5) \<Rightarrow>
                              (let tm1 = tm \<lparr> textureImage := ti, textureImageMemory := tmem \<rparr>
                               in case transitionImageLayout ti VK_FORMAT_R8G8B8A8_SRGB
                                         VK_IMAGE_LAYOUT_UNDEFINED
                                         VK_IMAGE_LAYOUT_TRANSFER_DST_OPTIMAL tm1 d5 of
                                    (Thrown e, d6) \<Rightarrow> (Thrown e, tm1, d6)
                                  | (Undefined u, d6) \<Rightarrow> (Undefined u, tm1, d6)
                                  | (Returned _, d6) \<Rightarrow>
                                     (case copyBufferToImage stagingBuffer ti
                                             texWidth texHeight tm1 d6 of
                                        (Thrown e, d7) \<Rightarrow> (Thrown e, tm1, d7)
                                      | (Undefined u, d7) \<Rightarrow> (Undefined u, tm1, d7)
                                      | (Returned _, d7) \<Rightarrow>
                                         (case transitionImageLayout ti VK_FORMAT_R8G8B8A8_SRGB
                                                 VK_IMAGE_LAYOUT_TRANSFER_DST_OPTIMAL
                                                 VK_IMAGE_LAYOUT_SHADER_READ_ONLY_OPTIMAL tm1 d7 of
                                            (Thrown e, d8) \<Rightarrow> (Thrown e, tm1, d8)
                                          | (Undefined u, d8) \<Rightarrow> (Undefined u, tm1, d8)
                                          | (Returned _, d8) \<Rightarrow>
                                              (Returned (), tm1,
                                               log_call (VmaDestroyBuffer stagingBuffer
                                                           stagingBufferMemory) d8))))))))))"

definition example_texture :: TextureManager where
  "example_texture =
     \<lparr> textureMutex = False, imagePath = ''texture.jpg'', tm_commandPool = 5,
       textureImage = 0, textureImageMemory = 0,
       textureImageView = 0, textureSampler = 0 \<rparr>"

section \<open>The frame loop: what the application does after construction\<close>

subsection \<open>CommandBufferManager: the per-frame accessors and \<open>resetFences\<close> (graphics.cpp)\<close>

text \<open>
  The four accessors index their vector without a check and throw when the entry is null.
\<close>

definition getCommandBuffer :: "uint32_t \<Rightarrow> CommandBufferManager \<Rightarrow> handle outcome" where
  "getCommandBuffer frameIndex m =
     (if unat frameIndex \<ge> length (commandBuffers m)
      then Undefined ''commandBuffers[frameIndex] out of range''
      else if commandBuffers m ! unat frameIndex = VK_NULL_HANDLE
      then Thrown (RuntimeError (''Command Buffer .'' @ to_string (uint frameIndex)
                                 @ '' does not exist!''))
      else Returned (commandBuffers m ! unat frameIndex))"

definition getImageAvailableSemaphore ::
  "uint32_t \<Rightarrow> CommandBufferManager \<Rightarrow> handle outcome" where
  "getImageAvailableSemaphore frameIndex m =
     (if unat frameIndex \<ge> length (imageAvailableSemaphores m)
      then Undefined ''imageAvailableSemaphores[frameIndex] out of range''
      else if imageAvailableSemaphores m ! unat frameIndex = VK_NULL_HANDLE
      then Thrown (RuntimeError (''Image available semaphore '' @ to_string (uint frameIndex)
                                 @ '' does not exist!''))
      else Returned (imageAvailableSemaphores m ! unat frameIndex))"

definition getRenderFinishedSemaphore ::
  "uint32_t \<Rightarrow> CommandBufferManager \<Rightarrow> handle outcome" where
  "getRenderFinishedSemaphore frameIndex m =
     (if unat frameIndex \<ge> length (renderFinishedSemaphores m)
      then Undefined ''renderFinishedSemaphores[frameIndex] out of range''
      else if renderFinishedSemaphores m ! unat frameIndex = VK_NULL_HANDLE
      then Thrown (RuntimeError (''Render Finished Semaphore '' @ to_string (uint frameIndex)
                                 @ '' does not exist!''))
      else Returned (renderFinishedSemaphores m ! unat frameIndex))"

definition getInFlightFence :: "uint32_t \<Rightarrow> CommandBufferManager \<Rightarrow> handle outcome" where
  "getInFlightFence frameIndex m =
     (if unat frameIndex \<ge> length (inFlightFences m)
      then Undefined ''inFlightFences[frameIndex] out of range''
      else if inFlightFences m ! unat frameIndex = VK_NULL_HANDLE
      then Thrown (RuntimeError (''In Flight Fence '' @ to_string (uint frameIndex)
                                 @ '' does not exist!''))
      else Returned (inFlightFences m ! unat frameIndex))"

text \<open>
  The driver's side of \<open>vkResetFences\<close> and of a queue submission that names a fence: a
  reset fence is not signaled; the fence of a submission is signaled when the submitted
  work is done, which the model takes to be before the next wait.
\<close>

definition vkResetFences :: "handle \<Rightarrow> driver \<Rightarrow> int \<times> driver" where
  "vkResetFences fence d =
     (case vk_result (VkResetFences fence) d of
        (res, d') \<Rightarrow>
          if res \<noteq> VK_SUCCESS then (res, d')
          else (res, d' \<lparr> fenceSignaled := (fenceSignaled d')(fence \<mapsto> False) \<rparr>))"

definition vkQueueSubmit ::
  "handle \<Rightarrow> handle \<Rightarrow> handle \<Rightarrow> handle \<Rightarrow> handle \<Rightarrow> driver \<Rightarrow> int \<times> driver" where
  "vkQueueSubmit queue waitSemaphore commandBuffer signalSemaphore fence d =
     (case vk_result (VkQueueSubmitFrame queue waitSemaphore commandBuffer signalSemaphore fence) d of
        (res, d') \<Rightarrow>
          if res \<noteq> VK_SUCCESS then (res, d')
          else (res, d' \<lparr> fenceSignaled := (fenceSignaled d')(fence \<mapsto> True) \<rparr>))"

definition resetFences ::
  "uint32_t \<Rightarrow> CommandBufferManager \<Rightarrow> driver \<Rightarrow> unit outcome \<times> driver" where
  "resetFences frameIndex m d =
     (if unat frameIndex \<ge> length (inFlightFences m)
      then (Undefined ''inFlightFences[frameIndex] out of range'', d)
      else
        (case vkResetFences (inFlightFences m ! unat frameIndex) d of
           (result, d') \<Rightarrow>
             (let msg = ''Failed to reset fence at frame index '' @ to_string (uint frameIndex)
                        @ ''. Error code: '' @ to_string result
              in if result \<noteq> VK_SUCCESS then (Thrown (RuntimeError msg), d')
                 else (Returned (), d'))))"

subsection \<open>GraphicsPipeline: framebuffers and command recording (graphics.cpp)\<close>

text \<open>
  The members that \<open>createFrameBuffers\<close>, \<open>destroyFramebuffers\<close> and \<open>recordCommandBuffer\<close>
  use. The swap chain and the three managers that the class holds by reference are
  arguments of \<open>recordCommandBuffer\<close>, which so sees them as the application has them.
\<close>

record GraphicsPipeline =
  gp_renderPass :: handle
  gp_pipelineLayout :: handle
  gp_graphicsPipeline :: handle
  gp_framebuffers :: "handle list"
  gp_indices :: "16 word list"

fun createFrameBuffers_loop ::
  "nat list \<Rightarrow> handle list \<Rightarrow> VkExtent2D \<Rightarrow> GraphicsPipeline \<Rightarrow> driver
     \<Rightarrow> unit outcome \<times> GraphicsPipeline \<times> driver" where
  "createFrameBuffers_loop [] imageViews ext gp d = (Returned (), gp, d)"
| "createFrameBuffers_loop (i # rest) imageViews ext gp d =
     (case vk (VkCreateFramebuffer (gp_renderPass gp) (imageViews ! i) (width ext) (height ext)) d of
        (res, framebuffer, d') \<Rightarrow>
          if res \<noteq> VK_SUCCESS
          then (Thrown (RuntimeError ''failed to create framebuffer!''), gp, d')
          else createFrameBuffers_loop rest imageViews ext
                 (gp \<lparr> gp_framebuffers := (gp_framebuffers gp) [i := framebuffer] \<rparr>) d')"

definition createFrameBuffers ::
  "handle list \<Rightarrow> VkExtent2D \<Rightarrow> GraphicsPipeline \<Rightarrow> driver
     \<Rightarrow> unit outcome \<times> GraphicsPipeline \<times> driver" where
  "createFrameBuffers imageViews ext gp d =
     createFrameBuffers_loop [0 ..< length imageViews] imageViews ext
       (gp \<lparr> gp_framebuffers := resize (length imageViews) (gp_framebuffers gp) \<rparr>) d"

fun destroyFramebuffers_loop :: "handle list \<Rightarrow> driver \<Rightarrow> driver" where
  "destroyFramebuffers_loop [] d = d"
| "destroyFramebuffers_loop (framebuffer # rest) d =
     destroyFramebuffers_loop rest (log_call (VkDestroyFramebuffer framebuffer) d)"

definition destroyFramebuffers :: "GraphicsPipeline \<Rightarrow> driver \<Rightarrow> GraphicsPipeline \<times> driver" where
  "destroyFramebuffers gp d =
     (gp \<lparr> gp_framebuffers := [] \<rparr>, destroyFramebuffers_loop (gp_framebuffers gp) d)"

text \<open>
  \<open>recordCommandBuffer\<close>. Only the results of \<open>vkBeginCommandBuffer\<close> and
  \<open>vkEndCommandBuffer\<close> are read. The viewport is the extent of the swap chain converted to
  \<open>float\<close>. The read \<open>framebuffers[imageIndex]\<close> has no check.
\<close>

definition recordCommandBuffer ::
  "uint32_t \<Rightarrow> uint32_t \<Rightarrow> SwapChain \<Rightarrow> CommandBufferManager \<Rightarrow> BufferManager
     \<Rightarrow> DescriptorManager \<Rightarrow> GraphicsPipeline \<Rightarrow> driver \<Rightarrow> unit outcome \<times> driver" where
  "recordCommandBuffer frameIndex imageIndex sc m bm dm gp d =
     (case getCommandBuffer frameIndex m of
        Thrown e \<Rightarrow> (Thrown e, d)
      | Undefined u \<Rightarrow> (Undefined u, d)
      | Returned commandBuffer \<Rightarrow>
         (case vk_result (VkBeginCommandBuffer commandBuffer 0) d of
            (res, d1) \<Rightarrow>
              if res \<noteq> VK_SUCCESS
              then (Thrown (RuntimeError (''failed to begin recording command buffer!''
                                          @ to_string (uint frameIndex))), d1)
              else if unat imageIndex \<ge> length (gp_framebuffers gp)
              then (Undefined ''framebuffers[imageIndex] out of range'', d1)
              else
                (let d2 = fold log_call
                            [VkCmdBeginRenderPass commandBuffer (gp_renderPass gp)
                               (gp_framebuffers gp ! unat imageIndex) (swapChainExtent sc),
                             VkCmdBindPipeline commandBuffer (gp_graphicsPipeline gp),
                             VkCmdSetViewport commandBuffer (swapChainExtent sc),
                             VkCmdSetScissor commandBuffer (swapChainExtent sc),
                             VkCmdBindVertexBuffers commandBuffer (vertexBuffer bm),
                             VkCmdBindIndexBuffer commandBuffer (indexBuffer bm)] d1
                 in case getDescriptorSet frameIndex (descriptorSets dm) of
                      Thrown e \<Rightarrow> (Thrown e, d2)
                    | Undefined u \<Rightarrow> (Undefined u, d2)
                    | Returned descriptorSet \<Rightarrow>
                       (let d3 = fold log_call
                                   [VkCmdBindDescriptorSets commandBuffer (gp_pipelineLayout gp)
                                      descriptorSet,
                                    VkCmdDrawIndexed commandBuffer (of_nat (length (gp_indices gp))),
                                    VkCmdEndRenderPass commandBuffer] d2
                        in case vk_result (VkEndCommandBuffer commandBuffer) d3 of
                             (res, d4) \<Rightarrow>
                               if res \<noteq> VK_SUCCESS
                               then (Thrown (RuntimeError ''failed to record command buffer!''), d4)
                               else (Returned (), d4)))))"

subsection \<open>VulkanApplication: \<open>run\<close>, \<open>drawFrame\<close> and \<open>recreateSwapChain\<close> (memory.cpp)\<close>

definition VK_SUBOPTIMAL_KHR :: int where
  "VK_SUBOPTIMAL_KHR = 1000001003"

definition VK_ERROR_OUT_OF_DATE_KHR :: int where
  "VK_ERROR_OUT_OF_DATE_KHR = - 1000001004"

text \<open>
  The members of the application that \<open>run\<close> reads or writes. The other members (the
  instance, the devices, the allocator, the sampler and the texture manager) are set by
  the constructor and not touched again before the destructor.
\<close>

record VulkanApplication =
  app_swapChain :: SwapChain
  app_commandBufferManager :: CommandBufferManager
  app_bufferManager :: BufferManager
  app_descriptorManager :: DescriptorManager
  app_graphicsPipeline :: GraphicsPipeline
  app_graphicsQueue :: handle
  app_presentQueue :: handle
  app_currentFrame :: uint32_t
  app_framebufferResized :: bool
  app_zoomLevel :: float

text \<open>
  What comes from outside during one turn of the loop of \<open>run\<close>: the zoom level that the
  scroll callback leaves behind when \<open>glfwPollEvents\<close> delivers scroll events (\<open>None\<close>
  when there are none), the image index that \<open>vkAcquireNextImageKHR\<close> writes, and the
  matrices that \<open>updateUniformBuffer\<close> computes from the clock, the zoom level and the
  extent (floating-point arithmetic is not interpreted).
\<close>

record frame =
  fr_zoomLevel :: "float option"
  fr_imageIndex :: uint32_t
  fr_ubo :: UniformBufferObject

text \<open>
  A call of the application that may not return has an \<open>option\<close> for its outcome: \<open>None\<close>
  when it does not return, with the state it has reached then.
\<close>

text \<open>
  \<open>VulkanApplication::updateUniformBuffer\<close> copies through the mapped pointer of the frame
  with no check on the index or the pointer.
\<close>

definition VulkanApplication_updateUniformBuffer ::
  "uint32_t \<Rightarrow> UniformBufferObject \<Rightarrow> VulkanApplication \<Rightarrow> driver \<Rightarrow> unit outcome \<times> driver" where
  "VulkanApplication_updateUniformBuffer currentImage ubo app d =
     (let mapped = uniformBuffersMapped (app_bufferManager app) in
      if unat currentImage \<ge> length mapped
      then (Undefined ''getUniformBuffersMapped()[currentImage] out of range'', d)
      else if mapped ! unat currentImage = nullptr
      then (Undefined ''memcpy to a null pointer'', d)
      else (Returned (), memcpy (mapped ! unat currentImage) (UboData ubo) d))"

text \<open>The loop of \<open>VulkanApplication::recreateSwapChain\<close> that frees the command buffers.\<close>

fun freeCommandBuffers_loop ::
  "nat list \<Rightarrow> handle \<Rightarrow> CommandBufferManager \<Rightarrow> driver \<Rightarrow> unit outcome \<times> driver" where
  "freeCommandBuffers_loop [] pool m d = (Returned (), d)"
| "freeCommandBuffers_loop (i # rest) pool m d =
     (case getCommandBuffer (of_nat i) m of
        Thrown e \<Rightarrow> (Thrown e, d)
      | Undefined u \<Rightarrow> (Undefined u, d)
      | Returned cmdBuffer \<Rightarrow>
          freeCommandBuffers_loop rest pool m (log_call (VkFreeCommandBuffers pool cmdBuffer) d))"

text \<open>
  \<open>VulkanApplication::recreateSwapChain\<close>. The size of the framebuffer is what the driver
  says it is for the whole call, so the loop that waits for a size other than zero is
  left at once or never.
\<close>

definition VulkanApplication_recreateSwapChain ::
  "VulkanApplication \<Rightarrow> driver \<Rightarrow> unit outcome option \<times> VulkanApplication \<times> driver" where
  "VulkanApplication_recreateSwapChain app d =
     (case glfwFramebufferSize d of
        (w, h) \<Rightarrow>
          if w = 0 \<or> h = 0 then (None, app, d)
          else
            (let d1 = log_call VkDeviceWaitIdle d in
             case destroyFramebuffers (app_graphicsPipeline app) d1 of
               (gp1, d2) \<Rightarrow>
                 (let app1 = app \<lparr> app_graphicsPipeline := gp1 \<rparr> in
                  case cleanupSwapChain (app_swapChain app1) d2 of
                    (Thrown e, sc1, d3) \<Rightarrow> (Some (Thrown e), app1 \<lparr> app_swapChain := sc1 \<rparr>, d3)
                  | (Undefined u, sc1, d3) \<Rightarrow>
                      (Some (Undefined u), app1 \<lparr> app_swapChain := sc1 \<rparr>, d3)
                  | (Returned _, sc1, d3) \<Rightarrow>
                     (case recreateSwapChain sc1 d3 of
                        (Thrown e, sc2, d4) \<Rightarrow>
                          (Some (Thrown e), app1 \<lparr> app_swapChain := sc2 \<rparr>, d4)
                      | (Undefined u, sc2, d4) \<Rightarrow>
                          (Some (Undefined u), app1 \<lparr> app_swapChain := sc2 \<rparr>, d4)
                      | (Returned _, sc2, d4) \<Rightarrow>
                         (let app2 = app1 \<lparr> app_swapChain := sc2 \<rparr> in
                          case createFrameBuffers (swapChainImageViews sc2) (swapChainExtent sc2)
                                 gp1 d4 of
                            (Thrown e, gp2, d5) \<Rightarrow>
                              (Some (Thrown e), app2 \<lparr> app_graphicsPipeline := gp2 \<rparr>, d5)
                          | (Undefined u, gp2, d5) \<Rightarrow>
                              (Some (Undefined u), app2 \<lparr> app_graphicsPipeline := gp2 \<rparr>, d5)
                          | (Returned _, gp2, d5) \<Rightarrow>
                             (let app3 = app2 \<lparr> app_graphicsPipeline := gp2 \<rparr> in
                              case getCommandPool (commandPool (app_commandBufferManager app3)) of
                                Thrown e \<Rightarrow> (Some (Thrown e), app3, d5)
                              | Undefined u \<Rightarrow> (Some (Undefined u), app3, d5)
                              | Returned pool \<Rightarrow>
                                 (case freeCommandBuffers_loop [0 ..< unat MAX_FRAMES_IN_FLIGHT]
                                         pool (app_commandBufferManager app3) d5 of
                                    (Thrown e, d6) \<Rightarrow> (Some (Thrown e), app3, d6)
                                  | (Undefined u, d6) \<Rightarrow> (Some (Undefined u), app3, d6)
                                  | (Returned _, d6) \<Rightarrow>
                                     (case createCommandBuffers (app_commandBufferManager app3) d6 of
                                        (r, m1, d7) \<Rightarrow>
                                          (Some r, app3 \<lparr> app_commandBufferManager := m1 \<rparr>,
                                           d7)))))))))"

text \<open>
  The second half of \<open>drawFrame\<close>, from \<open>updateUniformBuffer\<close> on, for the image that was
  acquired.
\<close>

definition drawFrame_submit ::
  "frame \<Rightarrow> VulkanApplication \<Rightarrow> driver \<Rightarrow> unit outcome option \<times> VulkanApplication \<times> driver" where
  "drawFrame_submit fr app d =
     (let frameIndex = app_currentFrame app;
          imageIndex = fr_imageIndex fr;
          m = app_commandBufferManager app
      in case VulkanApplication_updateUniformBuffer frameIndex (fr_ubo fr) app d of
           (Thrown e, d1) \<Rightarrow> (Some (Thrown e), app, d1)
         | (Undefined u, d1) \<Rightarrow> (Some (Undefined u), app, d1)
         | (Returned _, d1) \<Rightarrow>
            (case getCommandBuffer frameIndex m of
               Thrown e \<Rightarrow> (Some (Thrown e), app, d1)
             | Undefined u \<Rightarrow> (Some (Undefined u), app, d1)
             | Returned cmdBuffer \<Rightarrow>
                (let d2 = log_call (VkResetCommandBuffer cmdBuffer) d1 in
                 case recordCommandBuffer frameIndex imageIndex (app_swapChain app) m
                        (app_bufferManager app) (app_descriptorManager app)
                        (app_graphicsPipeline app) d2 of
                   (Thrown e, d3) \<Rightarrow> (Some (Thrown e), app, d3)
                 | (Undefined u, d3) \<Rightarrow> (Some (Undefined u), app, d3)
                 | (Returned _, d3) \<Rightarrow>
                    (case getImageAvailableSemaphore frameIndex m of
                       Thrown e \<Rightarrow> (Some (Thrown e), app, d3)
                     | Undefined u \<Rightarrow> (Some (Undefined u), app, d3)
                     | Returned waitSemaphore \<Rightarrow>
                        (case getRenderFinishedSemaphore frameIndex m of
                           Thrown e \<Rightarrow> (Some (Thrown e), app, d3)
                         | Undefined u \<Rightarrow> (Some (Undefined u), app, d3)
                         | Returned signalSemaphore \<Rightarrow>
                            (case getInFlightFence frameIndex m of
                               Thrown e \<Rightarrow> (Some (Thrown e), app, d3)
                             | Undefined u \<Rightarrow> (Some (Undefined u), app, d3)
                             | Returned fence \<Rightarrow>
                                (case vkQueueSubmit (app_graphicsQueue app) waitSemaphore cmdBuffer
                                        signalSemaphore fence d3 of
                                   (res, d4) \<Rightarrow>
                                     if res \<noteq> VK_SUCCESS
                                     then (Some (Thrown (RuntimeError
                                             ''failed to submit draw command buffer!'')), app, d4)
                                     else
                                       (case vk_result
                                               (VkQueuePresentKHR (app_presentQueue app)
                                                  signalSemaphore (swapChain (app_swapChain app))
                                                  imageIndex) d4 of
                                          (result, d5) \<Rightarrow>
                                            if result = VK_ERROR_OUT_OF_DATE_KHR
                                               \<or> result = VK_SUBOPTIMAL_KHR
                                               \<or> app_framebufferResized app
                                            then
                                              (case VulkanApplication_recreateSwapChain
                                                      (app \<lparr> app_framebufferResized := False \<rparr>) d5 of
                                                 (Some (Returned _), app1, d6) \<Rightarrow>
                                                   (Some (Returned ()),
                                                    app1 \<lparr> app_currentFrame :=
                                                             (app_currentFrame app1 + 1)
                                                               mod MAX_FRAMES_IN_FLIGHT \<rparr>, d6)
                                               | (r, app1, d6) \<Rightarrow> (r, app1, d6))
                                            else if result \<noteq> VK_SUCCESS
                                            then (Some (Thrown (RuntimeError
                                                    ''failed to present swap chain image!'')),
                                                  app, d5)
                                            else
                                              (Some (Returned ()),
                                               app \<lparr> app_currentFrame :=
                                                       (app_currentFrame app + 1)
                                                         mod MAX_FRAMES_IN_FLIGHT \<rparr>, d5)))))))))"

text \<open>
  \<open>drawFrame\<close>. When the image is out of date the swap chain is recreated and the call
  returns with the fence reset and the frame counter as it was.
\<close>

definition drawFrame ::
  "frame \<Rightarrow> VulkanApplication \<Rightarrow> driver \<Rightarrow> unit outcome option \<times> VulkanApplication \<times> driver" where
  "drawFrame fr app d =
     (let frameIndex = app_currentFrame app;
          m = app_commandBufferManager app
      in case waitForFences frameIndex m d of
           None \<Rightarrow> (None, app, d)
         | Some (Thrown e) \<Rightarrow> (Some (Thrown e), app, d)
         | Some (Undefined u) \<Rightarrow> (Some (Undefined u), app, d)
         | Some (Returned _) \<Rightarrow>
            (case resetFences frameIndex m d of
               (Thrown e, d1) \<Rightarrow> (Some (Thrown e), app, d1)
             | (Undefined u, d1) \<Rightarrow> (Some (Undefined u), app, d1)
             | (Returned _, d1) \<Rightarrow>
                (case getImageAvailableSemaphore frameIndex m of
                   Thrown e \<Rightarrow> (Some (Thrown e), app, d1)
                 | Undefined u \<Rightarrow> (Some (Undefined u), app, d1)
                 | Returned semaphore \<Rightarrow>
                    (case vk_result (VkAcquireNextImageKHR (swapChain (app_swapChain app))
                                       semaphore) d1 of
                       (result, d2) \<Rightarrow>
                         if result = VK_ERROR_OUT_OF_DATE_KHR
                         then VulkanApplication_recreateSwapChain app d2
                         else if result \<noteq> VK_SUCCESS \<and> result \<noteq> VK_SUBOPTIMAL_KHR
                         then (Some (Thrown (RuntimeError
                                 ''failed to acquire swap chain image!'')), app, d2)
                         else drawFrame_submit fr app d2))))"

text \<open>
  The loop of \<open>run\<close>, one turn for every frame the window stays open. The scroll callback
  is the only callback the application registers, so \<open>glfwPollEvents\<close> changes nothing but
  the zoom level.
\<close>

fun run_loop ::
  "frame list \<Rightarrow> VulkanApplication \<Rightarrow> driver
     \<Rightarrow> unit outcome option \<times> VulkanApplication \<times> driver" where
  "run_loop [] app d = (Some (Returned ()), app, d)"
| "run_loop (fr # rest) app d =
     (let app1 = app \<lparr> app_zoomLevel :=
                        (case fr_zoomLevel fr of None \<Rightarrow> app_zoomLevel app | Some z \<Rightarrow> z) \<rparr>
      in case drawFrame fr app1 d of
           (Some (Returned _), app2, d2) \<Rightarrow>
             if app_framebufferResized app2
             then (case VulkanApplication_recreateSwapChain app2 d2 of
                     (Some (Returned _), app3, d3) \<Rightarrow>
                       run_loop rest (app3 \<lparr> app_framebufferResized := False \<rparr>) d3
                   | (r, app3, d3) \<Rightarrow> (r, app3, d3))
             else run_loop rest app2 d2
         | (r, app2, d2) \<Rightarrow> (r, app2, d2))"

text \<open>
  \<open>VulkanApplication::run\<close>, for the frames during which \<open>glfwWindowShouldClose\<close> answers
  no.
\<close>

definition run ::
  "frame list \<Rightarrow> VulkanApplication \<Rightarrow> driver
     \<Rightarrow> unit outcome option \<times> VulkanApplication \<times> driver" where
  "run frames app d =
     (case run_loop frames app d of
        (Some (Returned _), app1, d1) \<Rightarrow> (Some (Returned ()), app1, log_call VkDeviceWaitIdle d1)
      | (r, app1, d1) \<Rightarrow> (r, app1, d1))"

text \<open>The allocations of descriptor sets in the log of a driver.\<close>

fun is_descriptor_allocation :: "api_call \<Rightarrow> bool" where
  "is_descriptor_allocation (VkAllocateDescriptorSets _ _) = True"
| "is_descriptor_allocation _ = False"

definition descriptor_allocations :: "driver \<Rightarrow> api_call list" where
  "descriptor_allocations d = filter is_descriptor_allocation (calls d)"

text \<open>
  An application as its constructor may leave it, with two frames in flight and two images
  in the swap chain, and one turn of the loop that acquires image 1.
\<close>

definition example_app :: VulkanApplication where
  "example_app =
     \<lparr> app_swapChain = example_swapchain,
       app_commandBufferManager =
         \<lparr> commandPool = 5, commandBuffers = [41, 42],
           imageAvailableSemaphores = [43, 44], renderFinishedSemaphores = [45, 46],
           inFlightFences = [47, 48] \<rparr>,
       app_bufferManager =
         example_raw \<lparr> uniformBuffers := [51, 52], uniformBuffersMapped := [53, 54],
                       uniformBuffersMemory := [51, 52] \<rparr>,
       app_descriptorManager =
         \<lparr> descriptorSetLayout = 21, descriptorPool = 22, descriptorSets = [23, 24] \<rparr>,
       app_graphicsPipeline =
         \<lparr> gp_renderPass = 61, gp_pipelineLayout = 62, gp_graphicsPipeline = 63,
           gp_framebuffers = [64, 65], gp_indices = [0, 1, 2] \<rparr>,
       app_graphicsQueue = 71, app_presentQueue = 72,
       app_currentFrame = 0, app_framebufferResized = False, app_zoomLevel = 0 \<rparr>"

definition example_frame :: frame where
  "example_frame =
     \<lparr> fr_zoomLevel = None, fr_imageIndex = 1,
       fr_ubo = \<lparr> model = [], view = [], proj = [] \<rparr> \<rparr>"

section \<open>Properties of the selection functions\<close>

text \<open>The definitions that every run of a model on the example driver unfolds.\<close>

lemmas run_defs = vk_def log_call_def resize_def Let_def VK_SUCCESS_def VK_NULL_HANDLE_def
  MAX_FRAMES_IN_FLIGHT_def example_driver_def

lemma findPreferredFormat_None:
  "findPreferredFormat fs = None \<longleftrightarrow> (\<forall>f \<in> set fs. \<not> preferredFormat f)"
  by (induction fs) (auto simp: preferredFormat_def)

lemma findPreferredFormat_Some:
  "findPreferredFormat fs = Some f \<Longrightarrow> f \<in> set fs \<and> preferredFormat f"
  by (induction fs) (auto simp: preferredFormat_def split: if_splits)

text \<open>
  C4. For a non-empty list of surface formats, \<open>chooseSwapSurfaceFormat\<close> returns an entry
  of the list with the preferred format B8G8R8A8_SRGB and the SRGB nonlinear colour space
  when the list has one (the entry is then exactly that pair), and the first element of
  the list otherwise.
\<close>

theorem chooseSwapSurfaceFormat_preferred_or_first:
  assumes "availableFormats \<noteq> []"
  shows "if (\<exists>f \<in> set availableFormats. preferredFormat f)
         then (\<exists>f \<in> set availableFormats. preferredFormat f
                 \<and> f = \<lparr> format = VK_FORMAT_B8G8R8A8_SRGB,
                          colorSpace = VK_COLOR_SPACE_SRGB_NONLINEAR_KHR \<rparr>
                 \<and> chooseSwapSurfaceFormat availableFormats = Returned f)
         else chooseSwapSurfaceFormat availableFormats = Returned (hd availableFormats)"
proof (cases "findPreferredFormat availableFormats")
  case None
  then have none: "\<forall>f \<in> set availableFormats. \<not> preferredFormat f"
    by (simp add: findPreferredFormat_None)
  from assms obtain x xs where "availableFormats = x # xs"
    by (cases availableFormats) auto
  with None none show ?thesis
    by (simp add: chooseSwapSurfaceFormat_def)
next
  case (Some f)
  then have mem: "f \<in> set availableFormats" and pref: "preferredFormat f"
    using findPreferredFormat_Some by blast+
  from pref have "f = \<lparr> format = VK_FORMAT_B8G8R8A8_SRGB,
                        colorSpace = VK_COLOR_SPACE_SRGB_NONLINEAR_KHR \<rparr>"
    by (cases f) (simp add: preferredFormat_def)
  with Some mem pref show ?thesis
    by (auto simp: chooseSwapSurfaceFormat_def)
qed

theorem chooseSwapSurfaceFormat_preferred_or_first_witness:
  "chooseSwapSurfaceFormat
     [\<lparr> format = 44, colorSpace = 0 \<rparr>, \<lparr> format = 50, colorSpace = 0 \<rparr>]
     = Returned \<lparr> format = 50, colorSpace = 0 \<rparr>
   \<and> chooseSwapSurfaceFormat
     [\<lparr> format = 44, colorSpace = 0 \<rparr>, \<lparr> format = 50, colorSpace = 1 \<rparr>]
     = Returned \<lparr> format = 44, colorSpace = 0 \<rparr>"
  using chooseSwapSurfaceFormat_preferred_or_first
          [of "[\<lparr> format = 44, colorSpace = 0 \<rparr>, \<lparr> format = 50, colorSpace = 0 \<rparr>]"]
        chooseSwapSurfaceFormat_preferred_or_first
          [of "[\<lparr> format = 44, colorSpace = 0 \<rparr>, \<lparr> format = 50, colorSpace = 1 \<rparr>]"]
  by (simp add: preferredFormat_def VK_FORMAT_B8G8R8A8_SRGB_def
        VK_COLOR_SPACE_SRGB_NONLINEAR_KHR_def)

text \<open>
  C5. For every list of available present modes, \<open>chooseSwapPresentMode\<close> returns MAILBOX
  when the list contains it and FIFO otherwise.
\<close>

theorem chooseSwapPresentMode_mailbox_or_fifo:
  "chooseSwapPresentMode availablePresentModes =
     (if VK_PRESENT_MODE_MAILBOX_KHR \<in> set availablePresentModes
      then VK_PRESENT_MODE_MAILBOX_KHR else VK_PRESENT_MODE_FIFO_KHR)"
  by (induction availablePresentModes) auto

theorem chooseSwapPresentMode_mailbox_or_fifo_witness:
  "chooseSwapPresentMode [0, 2, 1, 3] = 1 \<and> chooseSwapPresentMode [0, 2, 3] = 2
   \<and> chooseSwapPresentMode [] = 2"
  using chooseSwapPresentMode_mailbox_or_fifo [of "[0, 2, 1, 3]"]
        chooseSwapPresentMode_mailbox_or_fifo [of "[0, 2, 3]"]
        chooseSwapPresentMode_mailbox_or_fifo [of "[]"]
  by (simp add: VK_PRESENT_MODE_MAILBOX_KHR_def VK_PRESENT_MODE_FIFO_KHR_def)

lemma std_clamp_clamp_into:
  "lo \<le> hi \<Longrightarrow> std_clamp v lo hi = clamp_into lo hi v"
  by (auto simp: std_clamp_def clamp_into_def max_def min_def)

lemma clamp_into_bounds:
  "lo \<le> hi \<Longrightarrow> lo \<le> clamp_into lo hi v \<and> clamp_into lo hi v \<le> hi"
  by (auto simp: clamp_into_def max_def min_def)

lemma uint_clamp_into:
  assumes "0 \<le> w" and "w < 2 ^ 32"
  shows "uint (clamp_into lo hi (word_of_int w)) = max (uint lo) (min w (uint hi))"
proof -
  have "uint (word_of_int w :: uint32_t) = w"
    using assms by (simp add: uint_word_of_int take_bit_int_eq_self)
  then show ?thesis
    by (auto simp: clamp_into_def max_def min_def word_le_def)
qed

text \<open>
  C6. When the current extent of the capabilities is defined (its width is not
  \<open>UINT32_MAX\<close>), \<open>chooseSwapExtent\<close> returns it unchanged. When it is the sentinel, width
  and height are settled each on its own: where the minimum of a component is not above
  its maximum, the result is the framebuffer size of the window in that component, as
  converted to \<open>uint32_t\<close>, brought into the interval from the minimum to the maximum; it
  lies in the interval, and for a framebuffer size that is not negative it is the size
  itself, raised to the minimum or lowered to the maximum where it lies outside.
\<close>

theorem chooseSwapExtent_current_or_clamped:
  "(width (currentExtent caps) \<noteq> UINT32_MAX \<longrightarrow>
      chooseSwapExtent (w, h) caps = currentExtent caps)
   \<and> (width (currentExtent caps) = UINT32_MAX
        \<and> width (minImageExtent caps) \<le> width (maxImageExtent caps) \<longrightarrow>
      width (chooseSwapExtent (w, h) caps) =
        clamp_into (width (minImageExtent caps)) (width (maxImageExtent caps)) (word_of_int w)
      \<and> width (minImageExtent caps) \<le> width (chooseSwapExtent (w, h) caps)
      \<and> width (chooseSwapExtent (w, h) caps) \<le> width (maxImageExtent caps)
      \<and> (0 \<le> w \<and> w < 2 ^ 32 \<longrightarrow>
           uint (width (chooseSwapExtent (w, h) caps)) =
             max (uint (width (minImageExtent caps)))
                 (min w (uint (width (maxImageExtent caps))))))
   \<and> (width (currentExtent caps) = UINT32_MAX
        \<and> height (minImageExtent caps) \<le> height (maxImageExtent caps) \<longrightarrow>
      height (chooseSwapExtent (w, h) caps) =
        clamp_into (height (minImageExtent caps)) (height (maxImageExtent caps)) (word_of_int h)
      \<and> height (minImageExtent caps) \<le> height (chooseSwapExtent (w, h) caps)
      \<and> height (chooseSwapExtent (w, h) caps) \<le> height (maxImageExtent caps)
      \<and> (0 \<le> h \<and> h < 2 ^ 32 \<longrightarrow>
           uint (height (chooseSwapExtent (w, h) caps)) =
             max (uint (height (minImageExtent caps)))
                 (min h (uint (height (maxImageExtent caps))))))"
proof -
  have defined: "chooseSwapExtent (w, h) caps = currentExtent caps"
    if "width (currentExtent caps) \<noteq> UINT32_MAX"
    using that by (simp add: chooseSwapExtent_def)
  have sentinel_width: "width (chooseSwapExtent (w, h) caps) =
        clamp_into (width (minImageExtent caps)) (width (maxImageExtent caps)) (word_of_int w)"
    if "width (currentExtent caps) = UINT32_MAX"
      and "width (minImageExtent caps) \<le> width (maxImageExtent caps)"
    using that by (simp add: chooseSwapExtent_def std_clamp_clamp_into)
  have sentinel_height: "height (chooseSwapExtent (w, h) caps) =
        clamp_into (height (minImageExtent caps)) (height (maxImageExtent caps)) (word_of_int h)"
    if "width (currentExtent caps) = UINT32_MAX"
      and "height (minImageExtent caps) \<le> height (maxImageExtent caps)"
    using that by (simp add: chooseSwapExtent_def std_clamp_clamp_into)
  show ?thesis
    using defined sentinel_width sentinel_height
    by (simp add: clamp_into_bounds uint_clamp_into)
qed

theorem chooseSwapExtent_current_or_clamped_witness:
  "width (chooseSwapExtent (5000, 50)
     \<lparr> minImageCount = 2, maxImageCount = 3,
       currentExtent = \<lparr> width = 4294967295, height = 4294967295 \<rparr>,
       minImageExtent = \<lparr> width = 100, height = 100 \<rparr>,
       maxImageExtent = \<lparr> width = 1000, height = 1000 \<rparr>,
       currentTransform = 1 \<rparr>) = 1000
   \<and> height (chooseSwapExtent (5000, 50)
     \<lparr> minImageCount = 2, maxImageCount = 3,
       currentExtent = \<lparr> width = 4294967295, height = 4294967295 \<rparr>,
       minImageExtent = \<lparr> width = 100, height = 100 \<rparr>,
       maxImageExtent = \<lparr> width = 1000, height = 1000 \<rparr>,
       currentTransform = 1 \<rparr>) = 100
   \<and> chooseSwapExtent (5000, 50)
     \<lparr> minImageCount = 2, maxImageCount = 3,
       currentExtent = \<lparr> width = 800, height = 600 \<rparr>,
       minImageExtent = \<lparr> width = 100, height = 100 \<rparr>,
       maxImageExtent = \<lparr> width = 1000, height = 1000 \<rparr>,
       currentTransform = 1 \<rparr>
     = \<lparr> width = 800, height = 600 \<rparr>"
  using chooseSwapExtent_current_or_clamped
          [of "\<lparr> minImageCount = 2, maxImageCount = 3,
                 currentExtent = \<lparr> width = 4294967295, height = 4294967295 \<rparr>,
                 minImageExtent = \<lparr> width = 100, height = 100 \<rparr>,
                 maxImageExtent = \<lparr> width = 1000, height = 1000 \<rparr>,
                 currentTransform = 1 \<rparr>" 5000 50]
        chooseSwapExtent_current_or_clamped
          [of "\<lparr> minImageCount = 2, maxImageCount = 3,
                 currentExtent = \<lparr> width = 800, height = 600 \<rparr>,
                 minImageExtent = \<lparr> width = 100, height = 100 \<rparr>,
                 maxImageExtent = \<lparr> width = 1000, height = 1000 \<rparr>,
                 currentTransform = 1 \<rparr>" 5000 50]
  by (simp add: clamp_into_def UINT32_MAX_def)

section \<open>Properties of swap-chain recreation\<close>

lemma createImageView_calls:
  "createImageView img fmt d = (r, d') \<Longrightarrow> calls d' = calls d @ [VkCreateImageView img fmt]"
  by (auto simp: createImageView_def vk_def split: if_splits)

lemma createImageViews_loop_no_destroy:
  "createImageViews_loop todo sc d = (r, sc', d') \<Longrightarrow>
   filter is_destroy (calls d') = filter is_destroy (calls d)"
proof (induction todo arbitrary: sc d)
  case Nil
  then show ?case by simp
next
  case (Cons i rest)
  obtain r1 d1 where civ:
    "createImageView (swapChainImages sc ! i) (swapChainImageFormat sc) d = (r1, d1)"
    by (cases "createImageView (swapChainImages sc ! i) (swapChainImageFormat sc) d") auto
  have d1: "filter is_destroy (calls d1) = filter is_destroy (calls d)"
    using createImageView_calls [OF civ] by simp
  show ?case
  proof (cases r1)
    case (Returned v)
    with Cons.prems civ have "createImageViews_loop rest
            (sc \<lparr> swapChainImageViews := (swapChainImageViews sc) [i := v] \<rparr>) d1 = (r, sc', d')"
      by simp
    from Cons.IH [OF this] d1 show ?thesis by simp
  next
    case (Thrown e)
    with Cons.prems civ d1 show ?thesis by auto
  next
    case (Undefined u)
    with Cons.prems civ d1 show ?thesis by auto
  qed
qed

lemma createSwapChain_no_destroy:
  "createSwapChain sc d = (r, sc', d') \<Longrightarrow>
   filter is_destroy (calls d') = filter is_destroy (calls d)"
  by (auto simp: createSwapChain_def Let_def vk_def log_call_def
           split: outcome.splits option.splits prod.splits if_splits)

lemma recreateSwapChain_no_destroy:
  "filter is_destroy (calls (snd (snd (recreateSwapChain sc d)))) = filter is_destroy (calls d)"
proof -
  obtain r1 sc1 d1 where c: "createSwapChain sc d = (r1, sc1, d1)"
    by (cases "createSwapChain sc d") auto
  have d1: "filter is_destroy (calls d1) = filter is_destroy (calls d)"
    by (rule createSwapChain_no_destroy [OF c])
  show ?thesis
  proof (cases r1)
    case (Returned u)
    obtain r2 sc2 d2 where v: "createImageViews sc1 d1 = (r2, sc2, d2)"
      by (cases "createImageViews sc1 d1") auto
    from v have "filter is_destroy (calls d2) = filter is_destroy (calls d1)"
      unfolding createImageViews_def by (rule createImageViews_loop_no_destroy)
    with Returned c v d1 show ?thesis by (simp add: recreateSwapChain_def)
  next
    case (Thrown e)
    with c d1 show ?thesis by (simp add: recreateSwapChain_def)
  next
    case (Undefined u)
    with c d1 show ?thesis by (simp add: recreateSwapChain_def)
  qed
qed

lemma calls_destroyImageViews:
  "calls (destroyImageViews views d) = calls d @ map VkDestroyImageView views"
  by (induction views arbitrary: d) (simp_all add: log_call_def)

lemma cleanupSwapChain_calls:
  "calls (snd (snd (cleanupSwapChain sc d))) =
     calls d @ map VkDestroyImageView (swapChainImageViews sc)
             @ [VkDestroySwapchainKHR (swapChain sc)]"
  by (simp add: cleanupSwapChain_def log_call_def calls_destroyImageViews)

lemma recreateSwapChain_example:
  "recreateSwapChain example_swapchain (example_driver (\<lambda>k. 0)) =
     (Returned (),
      \<lparr> swapChain = 21, swapChainImageFormat = 50,
        swapChainExtent = \<lparr> width = 800, height = 600 \<rparr>,
        swapChainImages = [22, 23], swapChainImageViews = [24, 25] \<rparr>,
      (example_driver (\<lambda>k. 0))
        \<lparr> calls :=
            [VkCreateSwapchainKHR
               \<lparr> sci_minImageCount = 3, sci_imageFormat = 50, sci_imageColorSpace = 0,
                 sci_imageExtent = \<lparr> width = 800, height = 600 \<rparr>,
                 sci_imageArrayLayers = 1, sci_imageUsage = 16,
                 sci_imageSharingMode = 0, sci_queueFamilyIndices = [],
                 sci_preTransform = 1, sci_compositeAlpha = 1, sci_presentMode = 2,
                 sci_clipped = True, sci_oldSwapchain = 0 \<rparr>,
             VkGetSwapchainImagesKHR 21,
             VkGetSwapchainImagesKHR 21,
             VkCreateImageView 22 50,
             VkCreateImageView 23 50],
          nextHandle := 25 \<rparr>)"
  by (simp add: recreateSwapChain_def createSwapChain_def createImageViews_def
        example_swapchain_def example_driver_def example_capabilities_def
        chooseSwapSurfaceFormat_def chooseSwapExtent_def Let_def vk_def log_call_def
        createImageView_def resize_def upt_rec VK_SUCCESS_def UINT32_MAX_def
        VK_FORMAT_B8G8R8A8_SRGB_def VK_COLOR_SPACE_SRGB_NONLINEAR_KHR_def
        VK_PRESENT_MODE_MAILBOX_KHR_def VK_PRESENT_MODE_FIFO_KHR_def
        VK_IMAGE_USAGE_COLOR_ATTACHMENT_BIT_def VK_SHARING_MODE_EXCLUSIVE_def
        VK_COMPOSITE_ALPHA_OPAQUE_BIT_KHR_def VK_NULL_HANDLE_def)

text \<open>
  C1. The claim is that every call of \<open>SwapChain::recreateSwapChain\<close> destroys the old image
  views and the old swap chain before it creates the new ones. The function makes no
  destroying call at all: whatever the swap chain and the driver, the destroying calls in
  the log are the same after it as before. On the example swap chain, with views 13 and
  14 on chain 10, it returns with a new chain and new views, and its whole log is the
  creation of chain 21, the two queries of its images and the creation of two views; the old
  views and the old chain are still alive. \<open>cleanupSwapChain\<close>, which would destroy them,
  is not called.
\<close>

theorem recreateSwapChain_skips_cleanup:
  "filter is_destroy (calls (snd (snd (recreateSwapChain sc d)))) = filter is_destroy (calls d)
   \<and> fst (recreateSwapChain example_swapchain (example_driver (\<lambda>k. 0))) = Returned ()
   \<and> filter is_destroy
        (calls (snd (snd (recreateSwapChain example_swapchain (example_driver (\<lambda>k. 0)))))) = []
   \<and> calls (snd (snd (cleanupSwapChain example_swapchain (example_driver (\<lambda>k. 0))))) =
        [VkDestroyImageView 13, VkDestroyImageView 14, VkDestroySwapchainKHR 10]"
  by (simp add: recreateSwapChain_no_destroy recreateSwapChain_example cleanupSwapChain_calls)
     (simp add: example_swapchain_def example_driver_def)

section \<open>Properties of the framebuffer accessors\<close>

text \<open>
  C3. The claim is that \<open>getFrameBuffer\<close> raises an error on an empty framebuffer vector
  and on an index outside the vector. It never throws, whatever the index and the vector:
  on the empty vector with index 0, and on a vector of two framebuffers with index 2 or 5,
  the call reaches the read \<open>framebuffers[frameIndex]\<close> out of range. The sibling accessor
  \<open>getDescriptorSet\<close> throws \<open>std::out_of_range\<close> on the same input.
\<close>

theorem getFrameBuffer_never_throws:
  "getFrameBuffer frameIndex framebuffers \<noteq> Thrown e
   \<and> getFrameBuffer 0 [] = Undefined ''framebuffers[frameIndex] out of range''
   \<and> getFrameBuffer 2 [7, 8] = Undefined ''framebuffers[frameIndex] out of range''
   \<and> getFrameBuffer 5 [7, 8] = Undefined ''framebuffers[frameIndex] out of range''
   \<and> getFrameBuffers [] = Returned []
   \<and> getDescriptorSet 2 [7, 8] = Thrown (OutOfRange ''Frame index is out of bounds!'')"
  by (simp add: getFrameBuffer_def getFrameBuffers_def getDescriptorSet_def Let_def)

section \<open>Properties of buffer construction\<close>

lemma createBuffer_fail:
  "vkResult d (length (calls d)) \<noteq> VK_SUCCESS \<Longrightarrow>
   createBuffer sz u m out d =
     (Thrown (RuntimeError ''Failed to create buffer!''), out,
      d \<lparr> calls := calls d @ [VmaCreateBuffer sz u m], nextHandle := Suc (nextHandle d) \<rparr>)"
  by (simp add: createBuffer_def vk_def)

lemma createBuffer_ok:
  "vkResult d (length (calls d)) = VK_SUCCESS \<Longrightarrow>
   createBuffer sz u m out d =
     (Returned (), (Suc (nextHandle d), Suc (nextHandle d)),
      d \<lparr> calls := calls d @ [VmaCreateBuffer sz u m], nextHandle := Suc (nextHandle d) \<rparr>)"
  by (simp add: createBuffer_def vk_def)

lemma mapMemory_fail:
  "vkResult d (length (calls d)) \<noteq> VK_SUCCESS \<Longrightarrow>
   mapMemory a p d =
     (Thrown (RuntimeError ''Failed to map memory!''), p,
      d \<lparr> calls := calls d @ [VmaMapMemory a], nextHandle := Suc (nextHandle d) \<rparr>)"
  by (simp add: mapMemory_def vk_def)

lemma mapMemory_ok:
  "vkResult d (length (calls d)) = VK_SUCCESS \<Longrightarrow>
   mapMemory a p d =
     (Returned (), Suc (nextHandle d),
      d \<lparr> calls := calls d @ [VmaMapMemory a], nextHandle := Suc (nextHandle d) \<rparr>)"
  by (simp add: mapMemory_def vk_def)

lemma createVertexBuffer_result:
  "fst (createVertexBuffer bm d) =
     Returned (vkResult d (length (calls d)) = VK_SUCCESS
             \<and> vkResult d (length (calls d) + 1) = VK_SUCCESS
             \<and> vkResult d (length (calls d) + 4) = VK_SUCCESS
             \<and> bm_commandPool bm \<noteq> VK_NULL_HANDLE)"
proof (cases "vkResult d (length (calls d)) = VK_SUCCESS")
  case False
  then show ?thesis
    by (simp add: createVertexBuffer_def createBuffer_fail)
next
  case c1: True
  show ?thesis
  proof (cases "vkResult d (length (calls d) + 1) = VK_SUCCESS")
    case False
    with c1 show ?thesis
      by (simp add: createVertexBuffer_def createBuffer_ok mapMemory_fail)
  next
    case c2: True
    show ?thesis
    proof (cases "vkResult d (length (calls d) + 4) = VK_SUCCESS")
      case False
      then have "vkResult d (Suc (Suc (Suc (Suc (length (calls d)))))) \<noteq> VK_SUCCESS"
        by (simp add: eval_nat_numeral)
      with c1 c2 False show ?thesis
        by (simp add: createVertexBuffer_def createBuffer_ok createBuffer_fail mapMemory_ok
             memcpy_def unmapMemory_def log_call_def Let_def)
    next
      case True
      then have "vkResult d (Suc (Suc (Suc (Suc (length (calls d)))))) = VK_SUCCESS"
        by (simp add: eval_nat_numeral)
      with c1 c2 True show ?thesis
        by (simp add: createVertexBuffer_def createBuffer_ok mapMemory_ok
             memcpy_def unmapMemory_def log_call_def getCommandPool_def Let_def)
    qed
  qed
qed

lemma createIndexBuffer_result:
  "fst (createIndexBuffer bm d) =
     Returned (vkResult d (length (calls d)) = VK_SUCCESS
             \<and> vkResult d (length (calls d) + 1) = VK_SUCCESS
             \<and> vkResult d (length (calls d) + 4) = VK_SUCCESS
             \<and> bm_commandPool bm \<noteq> VK_NULL_HANDLE)"
proof (cases "vkResult d (length (calls d)) = VK_SUCCESS")
  case False
  then show ?thesis
    by (simp add: createIndexBuffer_def createBuffer_fail)
next
  case c1: True
  show ?thesis
  proof (cases "vkResult d (length (calls d) + 1) = VK_SUCCESS")
    case False
    with c1 show ?thesis
      by (simp add: createIndexBuffer_def createBuffer_ok mapMemory_fail)
  next
    case c2: True
    show ?thesis
    proof (cases "vkResult d (length (calls d) + 4) = VK_SUCCESS")
      case False
      then have "vkResult d (Suc (Suc (Suc (Suc (length (calls d)))))) \<noteq> VK_SUCCESS"
        by (simp add: eval_nat_numeral)
      with c1 c2 False show ?thesis
        by (simp add: createIndexBuffer_def createBuffer_ok createBuffer_fail mapMemory_ok
             memcpy_def unmapMemory_def log_call_def Let_def)
    next
      case True
      then have "vkResult d (Suc (Suc (Suc (Suc (length (calls d)))))) = VK_SUCCESS"
        by (simp add: eval_nat_numeral)
      with c1 c2 True show ?thesis
        by (simp add: createIndexBuffer_def createBuffer_ok mapMemory_ok
             memcpy_def unmapMemory_def log_call_def getCommandPool_def Let_def)
    qed
  qed
qed

lemma upt_frames: "[0 ..< unat MAX_FRAMES_IN_FLIGHT] = [0, 1]"
  by (simp add: MAX_FRAMES_IN_FLIGHT_def upt_rec)

lemma createUniformBuffers_result:
  "fst (createUniformBuffers bm d) =
     Returned (vkResult d (length (calls d)) = VK_SUCCESS
             \<and> vkResult d (length (calls d) + 1) = VK_SUCCESS
             \<and> vkResult d (length (calls d) + 2) = VK_SUCCESS
             \<and> vkResult d (length (calls d) + 3) = VK_SUCCESS)"
proof (cases "vkResult d (length (calls d)) = VK_SUCCESS")
  case False
  then show ?thesis
    by (simp add: createUniformBuffers_def upt_frames createBuffer_fail)
next
  case c1: True
  show ?thesis
  proof (cases "vkResult d (Suc (length (calls d))) = VK_SUCCESS")
    case False
    with c1 show ?thesis
      by (simp add: createUniformBuffers_def upt_frames createBuffer_ok mapMemory_fail Let_def)
  next
    case c2: True
    show ?thesis
    proof (cases "vkResult d (Suc (Suc (length (calls d)))) = VK_SUCCESS")
      case False
      then have "vkResult d (length (calls d) + 2) \<noteq> VK_SUCCESS"
        by (simp add: eval_nat_numeral)
      with c1 c2 False show ?thesis
        by (simp add: createUniformBuffers_def upt_frames createBuffer_ok createBuffer_fail
              mapMemory_ok Let_def)
    next
      case c3: True
      then have c3': "vkResult d (length (calls d) + 2) = VK_SUCCESS"
        by (simp add: eval_nat_numeral)
      show ?thesis
      proof (cases "vkResult d (Suc (Suc (Suc (length (calls d))))) = VK_SUCCESS")
        case False
        then have "vkResult d (length (calls d) + 3) \<noteq> VK_SUCCESS"
          by (simp add: eval_nat_numeral)
        with c1 c2 c3 c3' False show ?thesis
          by (simp add: createUniformBuffers_def upt_frames createBuffer_ok
              mapMemory_ok mapMemory_fail Let_def)
      next
        case True
        then have "vkResult d (length (calls d) + 3) = VK_SUCCESS"
          by (simp add: eval_nat_numeral)
        with c1 c2 c3 c3' True show ?thesis
          by (simp add: createUniformBuffers_def upt_frames createBuffer_ok
              mapMemory_ok Let_def)
      qed
    qed
  qed
qed

lemma BufferManager_ctor_returns:
  "fst (BufferManager_ctor vs is pool raw d) = Returned ()"
proof -
  define bm where "bm = raw \<lparr> vertices := vs, indices := is, bm_commandPool := pool,
                      uniformBuffers := [], uniformBuffersMapped := [],
                      uniformBuffersMemory := resize (unat MAX_FRAMES_IN_FLIGHT) [] \<rparr>
                    \<lparr> uniformBuffers := resize (unat MAX_FRAMES_IN_FLIGHT) [] \<rparr>"
  obtain r1 bm1 d1 where v: "createVertexBuffer bm d = (r1, bm1, d1)"
    by (cases "createVertexBuffer bm d") auto
  obtain b1 where r1: "r1 = Returned b1"
    using createVertexBuffer_result [of bm d] v by simp
  obtain r2 bm2 d2 where i: "createIndexBuffer bm1 d1 = (r2, bm2, d2)"
    by (cases "createIndexBuffer bm1 d1") auto
  obtain b2 where r2: "r2 = Returned b2"
    using createIndexBuffer_result [of bm1 d1] i by simp
  obtain r3 bm3 d3 where u: "createUniformBuffers bm2 d2 = (r3, bm3, d3)"
    by (cases "createUniformBuffers bm2 d2") auto
  obtain b3 where r3: "r3 = Returned b3"
    using createUniformBuffers_result [of bm2 d2] u by simp
  show ?thesis
    using v r1 i r2 u r3 by (simp add: BufferManager_ctor_def bm_def Let_def)
qed

section \<open>Properties of the synchronisation objects\<close>

lemma upt_0_2: "[0 ..< 2] = [0, Suc 0]"
  by (simp add: upt_rec)

lemma unat_frames: "unat MAX_FRAMES_IN_FLIGHT = 2"
  by (simp add: MAX_FRAMES_IN_FLIGHT_def)

lemma createSemaphore_eq:
  "createSemaphore d =
     (if vkResult d (length (calls d)) \<noteq> VK_SUCCESS
      then (Thrown (RuntimeError ''failed to create semaphore!''),
            d \<lparr> calls := calls d @ [VkCreateSemaphore], nextHandle := Suc (nextHandle d) \<rparr>)
      else (Returned (Suc (nextHandle d)),
            d \<lparr> calls := calls d @ [VkCreateSemaphore], nextHandle := Suc (nextHandle d),
                semaphoreSignaled := (semaphoreSignaled d)(Suc (nextHandle d) \<mapsto> False) \<rparr>))"
  by (simp add: createSemaphore_def vkCreateSemaphore_def vk_def)

lemma createFence_eq:
  "createFence d =
     (if vkResult d (length (calls d)) \<noteq> VK_SUCCESS
      then (Thrown (RuntimeError ''failed to create fence!''),
            d \<lparr> calls := calls d @ [VkCreateFence VK_FENCE_CREATE_SIGNALED_BIT],
                nextHandle := Suc (nextHandle d) \<rparr>)
      else (Returned (Suc (nextHandle d)),
            d \<lparr> calls := calls d @ [VkCreateFence VK_FENCE_CREATE_SIGNALED_BIT],
                nextHandle := Suc (nextHandle d),
                fenceSignaled := (fenceSignaled d)(Suc (nextHandle d) \<mapsto> True) \<rparr>))"
  by (simp add: createFence_def vkCreateFence_def vk_def VK_FENCE_CREATE_SIGNALED_BIT_def)

lemma length_resize: "length (resize n xs) = n"
  by (simp add: resize_def)

lemma list_update_both:
  assumes "length ys = 2"
  shows "ys[0 := a, Suc 0 := b] = [a, b]"
proof -
  from assms obtain x y where "ys = [x, y]"
    by (cases ys; cases "tl ys") auto
  then show ?thesis by simp
qed

lemma resize_update_both: "(resize 2 xs)[0 := a, Suc 0 := b] = [a, b]"
  by (rule list_update_both) (rule length_resize)

lemma createSyncObjects_Returned:
  assumes "createSyncObjects m d = (Returned (), m', d')"
  shows "imageAvailableSemaphores m' = [Suc (nextHandle d), nextHandle d + 4]
       \<and> renderFinishedSemaphores m' = [nextHandle d + 2, nextHandle d + 5]
       \<and> inFlightFences m' = [nextHandle d + 3, nextHandle d + 6]
       \<and> commandPool m' = commandPool m \<and> commandBuffers m' = commandBuffers m
       \<and> nextHandle d' = nextHandle d + 6
       \<and> calls d' = calls d @ [VkCreateSemaphore, VkCreateSemaphore, VkCreateFence VK_FENCE_CREATE_SIGNALED_BIT,
                                VkCreateSemaphore, VkCreateSemaphore, VkCreateFence VK_FENCE_CREATE_SIGNALED_BIT]
       \<and> fenceSignaled d' = (fenceSignaled d)(nextHandle d + 3 \<mapsto> True, nextHandle d + 6 \<mapsto> True)
       \<and> semaphoreSignaled d' = (semaphoreSignaled d)(Suc (nextHandle d) \<mapsto> False, nextHandle d + 2 \<mapsto> False,
               nextHandle d + 4 \<mapsto> False, nextHandle d + 5 \<mapsto> False)"
proof -
  have eqs: "nextHandle d + 2 = Suc (Suc (nextHandle d))"
    "nextHandle d + 3 = Suc (Suc (Suc (nextHandle d)))"
    "nextHandle d + 4 = Suc (Suc (Suc (Suc (nextHandle d))))"
    "nextHandle d + 5 = Suc (Suc (Suc (Suc (Suc (nextHandle d)))))"
    "nextHandle d + 6 = Suc (Suc (Suc (Suc (Suc (Suc (nextHandle d))))))"
    by simp_all
  show ?thesis
    unfolding eqs using assms
    by (auto simp: createSyncObjects_def unat_frames upt_0_2 createSemaphore_eq createFence_eq
          Let_def resize_update_both split: if_splits)
qed

lemma createCommandPool_Returned:
  assumes "createCommandPool m d = (Returned (), m', d')"
  shows "m' = m \<lparr> commandPool := Suc (nextHandle d) \<rparr>
       \<and> nextHandle d' = Suc (nextHandle d)
       \<and> fenceSignaled d' = fenceSignaled d
       \<and> semaphoreSignaled d' = semaphoreSignaled d"
  using assms
  by (auto simp: createCommandPool_def vk_def Let_def split: option.splits if_splits)

lemma createCommandBuffers_Returned:
  assumes "createCommandBuffers m d = (Returned (), m', d')"
  shows "imageAvailableSemaphores m' = imageAvailableSemaphores m
       \<and> renderFinishedSemaphores m' = renderFinishedSemaphores m
       \<and> inFlightFences m' = inFlightFences m
       \<and> fenceSignaled d' = fenceSignaled d
       \<and> semaphoreSignaled d' = semaphoreSignaled d"
  using assms
  by (auto simp: createCommandBuffers_def vk_def Let_def split: if_splits)

lemma frame_index_cases:
  "frameIndex < MAX_FRAMES_IN_FLIGHT \<Longrightarrow> unat frameIndex = 0 \<or> unat frameIndex = Suc 0"
  by (auto simp: MAX_FRAMES_IN_FLIGHT_def word_less_nat_alt)

lemma CommandBufferManager_ctor_Returned:
  assumes "CommandBufferManager_ctor d = (Returned (), m, d')"
  shows "imageAvailableSemaphores m = [nextHandle d + 2, nextHandle d + 5]
       \<and> renderFinishedSemaphores m = [nextHandle d + 3, nextHandle d + 6]
       \<and> inFlightFences m = [nextHandle d + 4, nextHandle d + 7]
       \<and> fenceSignaled d' = (fenceSignaled d)(nextHandle d + 4 \<mapsto> True, nextHandle d + 7 \<mapsto> True)
       \<and> semaphoreSignaled d' =
           (semaphoreSignaled d)(nextHandle d + 2 \<mapsto> False, nextHandle d + 3 \<mapsto> False,
                                 nextHandle d + 5 \<mapsto> False, nextHandle d + 6 \<mapsto> False)"
proof -
  define m0 where "m0 = \<lparr> commandPool = VK_NULL_HANDLE, commandBuffers = [],
                imageAvailableSemaphores = resize (unat MAX_FRAMES_IN_FLIGHT) [],
                renderFinishedSemaphores = resize (unat MAX_FRAMES_IN_FLIGHT) [],
                inFlightFences = resize (unat MAX_FRAMES_IN_FLIGHT) [] \<rparr>"
  obtain r1 m1 d1 where p: "createCommandPool m0 d = (r1, m1, d1)"
    by (cases "createCommandPool m0 d") auto
  have r1: "r1 = Returned ()"
    using assms p by (cases r1) (auto simp: CommandBufferManager_ctor_def m0_def Let_def)
  obtain r2 m2 d2 where s: "createSyncObjects m1 d1 = (r2, m2, d2)"
    by (cases "createSyncObjects m1 d1") auto
  have r2: "r2 = Returned ()"
    using assms p r1 s by (cases r2) (auto simp: CommandBufferManager_ctor_def m0_def Let_def)
  have c: "createCommandBuffers m2 d2 = (Returned (), m, d')"
    using assms p r1 s r2 by (simp add: CommandBufferManager_ctor_def m0_def Let_def)
  note P = createCommandPool_Returned [OF p [unfolded r1]]
  note S = createSyncObjects_Returned [OF s [unfolded r2]]
  note C = createCommandBuffers_Returned [OF c]
  show ?thesis
    using P S C by (simp add: eval_nat_numeral)
qed

text \<open>
  C10. When the constructor of CommandBufferManager returns, each of the three vectors has
  one entry per frame slot, and for every frame slot the in-flight fence is signaled, the
  image-available and the render-finished semaphore are unsignaled, and \<open>waitForFences\<close>
  on the slot returns at once without throwing, although nothing has been submitted.
\<close>

theorem in_flight_fences_start_signaled:
  assumes "fst (CommandBufferManager_ctor d) = Returned ()"
  shows "length (inFlightFences (fst (snd (CommandBufferManager_ctor d)))) = unat MAX_FRAMES_IN_FLIGHT
       \<and> length (imageAvailableSemaphores (fst (snd (CommandBufferManager_ctor d))))
           = unat MAX_FRAMES_IN_FLIGHT
       \<and> length (renderFinishedSemaphores (fst (snd (CommandBufferManager_ctor d))))
           = unat MAX_FRAMES_IN_FLIGHT
       \<and> (\<forall>frameIndex. frameIndex < MAX_FRAMES_IN_FLIGHT \<longrightarrow>
            fenceSignaled (snd (snd (CommandBufferManager_ctor d)))
              (inFlightFences (fst (snd (CommandBufferManager_ctor d))) ! unat frameIndex) = Some True
          \<and> semaphoreSignaled (snd (snd (CommandBufferManager_ctor d)))
              (imageAvailableSemaphores (fst (snd (CommandBufferManager_ctor d))) ! unat frameIndex)
              = Some False
          \<and> semaphoreSignaled (snd (snd (CommandBufferManager_ctor d)))
              (renderFinishedSemaphores (fst (snd (CommandBufferManager_ctor d))) ! unat frameIndex)
              = Some False
          \<and> waitForFences frameIndex (fst (snd (CommandBufferManager_ctor d)))
                (snd (snd (CommandBufferManager_ctor d))) = Some (Returned ()))"
proof -
  obtain m d' where ctor: "CommandBufferManager_ctor d = (Returned (), m, d')"
    using assms by (cases "CommandBufferManager_ctor d") auto
  note R = CommandBufferManager_ctor_Returned [OF ctor]
  have per_frame: "fenceSignaled d' (inFlightFences m ! unat frameIndex) = Some True
          \<and> semaphoreSignaled d' (imageAvailableSemaphores m ! unat frameIndex) = Some False
          \<and> semaphoreSignaled d' (renderFinishedSemaphores m ! unat frameIndex) = Some False
          \<and> waitForFences frameIndex m d' = Some (Returned ())"
    if "frameIndex < MAX_FRAMES_IN_FLIGHT" for frameIndex
    using frame_index_cases [OF that] R
    by (auto simp: waitForFences_def vkWaitForFences_def Let_def)
  show ?thesis
    using R per_frame by (simp add: ctor unat_frames)
qed

theorem in_flight_fences_start_signaled_witness:
  "fst (CommandBufferManager_ctor (example_driver (\<lambda>k. 0))) = Returned ()
   \<and> waitForFences 0 (fst (snd (CommandBufferManager_ctor (example_driver (\<lambda>k. 0)))))
        (snd (snd (CommandBufferManager_ctor (example_driver (\<lambda>k. 0))))) = Some (Returned ())
   \<and> waitForFences 1 (fst (snd (CommandBufferManager_ctor (example_driver (\<lambda>k. 0)))))
        (snd (snd (CommandBufferManager_ctor (example_driver (\<lambda>k. 0))))) = Some (Returned ())"
proof -
  have h: "fst (CommandBufferManager_ctor (example_driver (\<lambda>k. 0))) = Returned ()"
    by (simp add: CommandBufferManager_ctor_def createCommandPool_def createSyncObjects_def
        createCommandBuffers_def createSemaphore_def createFence_def vkCreateSemaphore_def
        vkCreateFence_def upt_rec run_defs)
  from in_flight_fences_start_signaled [OF h] h show ?thesis
    by (simp add: MAX_FRAMES_IN_FLIGHT_def)
qed

section \<open>Properties of the per-frame uniform upload\<close>

text \<open>
  C8. On a BufferManager whose vector of mapped pointers has one entry per frame slot:
  when \<open>currentFrame\<close> is below the frame-slot count and the pointer of that slot is not
  null, \<open>updateUniformBuffer\<close> returns, the mapped region of that slot holds exactly the
  given value struct, the one call made is the \<open>memcpy\<close> to that pointer, and the memory
  at every other pointer, in particular the mapped region of every other slot, is what it
  was; when the pointer is null nothing is written; when \<open>currentFrame\<close> is not below
  the frame-slot count the call throws \<open>std::out_of_range\<close> and nothing is written.
\<close>

theorem updateUniformBuffer_writes_one_slot:
  assumes "length (uniformBuffersMapped bm) = unat MAX_FRAMES_IN_FLIGHT"
  shows "if currentFrame < MAX_FRAMES_IN_FLIGHT
         then (if uniformBuffersMapped bm ! unat currentFrame \<noteq> nullptr
               then fst (updateUniformBuffer currentFrame ubo bm d) = Returned ()
                  \<and> hostMemory (snd (updateUniformBuffer currentFrame ubo bm d)) =
                      (hostMemory d)(uniformBuffersMapped bm ! unat currentFrame \<mapsto> UboData ubo)
                  \<and> calls (snd (updateUniformBuffer currentFrame ubo bm d)) =
                      calls d @ [Memcpy (uniformBuffersMapped bm ! unat currentFrame) (UboData ubo)]
                  \<and> (\<forall>slot. slot < MAX_FRAMES_IN_FLIGHT
                        \<and> uniformBuffersMapped bm ! unat slot
                            \<noteq> uniformBuffersMapped bm ! unat currentFrame \<longrightarrow>
                        hostMemory (snd (updateUniformBuffer currentFrame ubo bm d))
                          (uniformBuffersMapped bm ! unat slot)
                        = hostMemory d (uniformBuffersMapped bm ! unat slot))
               else snd (updateUniformBuffer currentFrame ubo bm d) = d)
         else fst (updateUniformBuffer currentFrame ubo bm d)
                = Thrown (OutOfRange ''Frame index out of bounds.'')
              \<and> snd (updateUniformBuffer currentFrame ubo bm d) = d"
  using assms
  by (auto simp: updateUniformBuffer_def memcpy_def log_call_def Let_def word_less_nat_alt
        word_le_nat_alt)

theorem updateUniformBuffer_writes_one_slot_witness:
  "fst (updateUniformBuffer 1 \<lparr> model = [1], view = [2], proj = [3] \<rparr>
          (example_raw \<lparr> uniformBuffersMapped := [30, 32] \<rparr>) (example_driver (\<lambda>k. 0))) = Returned ()
   \<and> hostMemory (snd (updateUniformBuffer 1 \<lparr> model = [1], view = [2], proj = [3] \<rparr>
          (example_raw \<lparr> uniformBuffersMapped := [30, 32] \<rparr>) (example_driver (\<lambda>k. 0)))) 32
       = Some (UboData \<lparr> model = [1], view = [2], proj = [3] \<rparr>)
   \<and> hostMemory (snd (updateUniformBuffer 1 \<lparr> model = [1], view = [2], proj = [3] \<rparr>
          (example_raw \<lparr> uniformBuffersMapped := [30, 32] \<rparr>) (example_driver (\<lambda>k. 0)))) 30
       = None
   \<and> updateUniformBuffer 2 \<lparr> model = [1], view = [2], proj = [3] \<rparr>
          (example_raw \<lparr> uniformBuffersMapped := [30, 32] \<rparr>) (example_driver (\<lambda>k. 0))
       = (Thrown (OutOfRange ''Frame index out of bounds.''), example_driver (\<lambda>k. 0))"
  using updateUniformBuffer_writes_one_slot
          [of "example_raw \<lparr> uniformBuffersMapped := [30, 32] \<rparr>" 1
              "\<lparr> model = [1], view = [2], proj = [3] \<rparr>" "example_driver (\<lambda>k. 0)"]
        updateUniformBuffer_writes_one_slot
          [of "example_raw \<lparr> uniformBuffersMapped := [30, 32] \<rparr>" 2
              "\<lparr> model = [1], view = [2], proj = [3] \<rparr>" "example_driver (\<lambda>k. 0)"]
  by (simp add: MAX_FRAMES_IN_FLIGHT_def nullptr_def example_raw_def example_driver_def
        prod_eq_iff)

section \<open>Properties of the descriptor set layout and pool\<close>

lemma writeDescriptorSets_poolSetsLeft:
  "poolSetsLeft (snd (writeDescriptorSets todo b v s dm d)) = poolSetsLeft d"
  by (induction todo arbitrary: d) (simp_all add: log_call_def Let_def)

lemma writeDescriptorSets_poolSetsLeft_eq:
  "writeDescriptorSets todo b v s dm d = (r, d') \<Longrightarrow> poolSetsLeft d' = poolSetsLeft d"
  using writeDescriptorSets_poolSetsLeft [of todo b v s dm d] by simp

lemma writeDescriptorSets_calls:
  "\<exists>more. calls (snd (writeDescriptorSets todo b v s dm d)) = calls d @ more"
proof (induction todo arbitrary: d)
  case Nil
  show ?case by simp
next
  case (Cons i rest)
  show ?case
  proof (cases "i \<ge> length b")
    case True
    then show ?thesis by simp
  next
    case False
    from Cons [of "log_call (VkUpdateDescriptorSets
               [\<lparr> wd_dstSet = descriptorSets dm ! i, wd_dstBinding = 0, wd_dstArrayElement = 0,
                  wd_descriptorType = VK_DESCRIPTOR_TYPE_UNIFORM_BUFFER,
                  wd_descriptorCount = 1,
                  wd_buffer = Some (b ! i, 0, 192), wd_image = None \<rparr>,
                \<lparr> wd_dstSet = descriptorSets dm ! i, wd_dstBinding = 1, wd_dstArrayElement = 0,
                  wd_descriptorType = VK_DESCRIPTOR_TYPE_COMBINED_IMAGE_SAMPLER,
                  wd_descriptorCount = 1,
                  wd_buffer = None,
                  wd_image = Some (VK_IMAGE_LAYOUT_SHADER_READ_ONLY_OPTIMAL, v, s) \<rparr>]) d"]
    obtain more where "calls (snd (writeDescriptorSets (i # rest) b v s dm d)) =
       (calls d @ [VkUpdateDescriptorSets
               [\<lparr> wd_dstSet = descriptorSets dm ! i, wd_dstBinding = 0, wd_dstArrayElement = 0,
                  wd_descriptorType = VK_DESCRIPTOR_TYPE_UNIFORM_BUFFER,
                  wd_descriptorCount = 1,
                  wd_buffer = Some (b ! i, 0, 192), wd_image = None \<rparr>,
                \<lparr> wd_dstSet = descriptorSets dm ! i, wd_dstBinding = 1, wd_dstArrayElement = 0,
                  wd_descriptorType = VK_DESCRIPTOR_TYPE_COMBINED_IMAGE_SAMPLER,
                  wd_descriptorCount = 1,
                  wd_buffer = None,
                  wd_image = Some (VK_IMAGE_LAYOUT_SHADER_READ_ONLY_OPTIMAL, v, s) \<rparr>]]) @ more"
      using False by (auto simp: Let_def log_call_def)
    then show ?thesis by simp
  qed
qed

lemma createDescriptorSets_request:
  "calls (snd (snd (createDescriptorSets b v s dm d))) ! length (calls d) =
     VkAllocateDescriptorSets (descriptorPool dm)
       (replicate (unat MAX_FRAMES_IN_FLIGHT) (descriptorSetLayout dm))"
proof -
  let ?A = "VkAllocateDescriptorSets (descriptorPool dm)
       (replicate (unat MAX_FRAMES_IN_FLIGHT) (descriptorSetLayout dm))"
  have "\<exists>more. calls (snd (snd (createDescriptorSets b v s dm d))) = (calls d @ [?A]) @ more"
  proof (cases "fst (vkAllocateDescriptorSets (descriptorPool dm)
       (replicate (unat MAX_FRAMES_IN_FLIGHT) (descriptorSetLayout dm)) d) = VK_SUCCESS")
    case False
    then show ?thesis
      by (auto simp: createDescriptorSets_def Let_def vkAllocateDescriptorSets_def vk_def
            split: prod.splits if_splits option.splits)
  next
    case True
    obtain res sets d1 where a: "vkAllocateDescriptorSets (descriptorPool dm)
       (replicate (unat MAX_FRAMES_IN_FLIGHT) (descriptorSetLayout dm)) d = (res, sets, d1)"
      by (cases "vkAllocateDescriptorSets (descriptorPool dm)
       (replicate (unat MAX_FRAMES_IN_FLIGHT) (descriptorSetLayout dm)) d") auto
    have c1: "calls d1 = calls d @ [?A]"
      using a by (auto simp: vkAllocateDescriptorSets_def vk_def split: if_splits option.splits)
    obtain more where "calls (snd (writeDescriptorSets [0 ..< unat MAX_FRAMES_IN_FLIGHT] b v s
         (dm \<lparr> descriptorSets := sets \<rparr>) d1)) = calls d1 @ more"
      using writeDescriptorSets_calls by blast
    with True a c1 show ?thesis
      by (auto simp: createDescriptorSets_def Let_def split: prod.splits)
  qed
  then show ?thesis by (auto simp: nth_append)
qed

lemma createDescriptorSets_exhausted:
  assumes "poolSetsLeft d (descriptorPool dm) = Some k" and "k < unat MAX_FRAMES_IN_FLIGHT"
  shows "fst (createDescriptorSets b v s dm d)
           = Thrown (RuntimeError ''failed to allocate descriptor sets!'')"
  using assms
  by (simp add: createDescriptorSets_def vkAllocateDescriptorSets_def vk_def Let_def
        VK_ERROR_OUT_OF_POOL_MEMORY_def VK_SUCCESS_def)

lemma createDescriptorSets_Returned:
  assumes "fst (createDescriptorSets b v s dm d) = Returned ()"
    and "poolSetsLeft d (descriptorPool dm) = Some k"
  shows "poolSetsLeft (snd (snd (createDescriptorSets b v s dm d))) (descriptorPool dm)
           = Some (k - unat MAX_FRAMES_IN_FLIGHT)
       \<and> descriptorPool (fst (snd (createDescriptorSets b v s dm d))) = descriptorPool dm
       \<and> unat MAX_FRAMES_IN_FLIGHT \<le> k"
  using assms
  by (auto simp: createDescriptorSets_def vkAllocateDescriptorSets_def vk_def Let_def
        VK_ERROR_OUT_OF_POOL_MEMORY_def VK_SUCCESS_def
        dest!: writeDescriptorSets_poolSetsLeft_eq
        split: prod.splits if_splits)

lemma DescriptorManager_ctor_Returned:
  assumes "fst (DescriptorManager_ctor d) = Returned ()"
  shows "calls (snd (snd (DescriptorManager_ctor d))) = calls d @
           [VkCreateDescriptorSetLayout
              [\<lparr> lb_binding = 0, lb_descriptorType = VK_DESCRIPTOR_TYPE_UNIFORM_BUFFER,
                 lb_descriptorCount = 1, lb_stageFlags = VK_SHADER_STAGE_VERTEX_BIT,
                 lb_pImmutableSamplers = nullptr \<rparr>,
               \<lparr> lb_binding = 1, lb_descriptorType = VK_DESCRIPTOR_TYPE_COMBINED_IMAGE_SAMPLER,
                 lb_descriptorCount = 1, lb_stageFlags = VK_SHADER_STAGE_FRAGMENT_BIT,
                 lb_pImmutableSamplers = nullptr \<rparr>],
            VkCreateDescriptorPool MAX_FRAMES_IN_FLIGHT
              [\<lparr> ps_type = VK_DESCRIPTOR_TYPE_UNIFORM_BUFFER,
                 ps_descriptorCount = MAX_FRAMES_IN_FLIGHT \<rparr>,
               \<lparr> ps_type = VK_DESCRIPTOR_TYPE_COMBINED_IMAGE_SAMPLER,
                 ps_descriptorCount = MAX_FRAMES_IN_FLIGHT \<rparr>]]
       \<and> poolSetsLeft (snd (snd (DescriptorManager_ctor d)))
            (descriptorPool (fst (snd (DescriptorManager_ctor d))))
           = Some (unat MAX_FRAMES_IN_FLIGHT)"
  using assms
  by (auto simp: DescriptorManager_ctor_def createDescriptorSetLayout_def createDescriptorPool_def
        vkCreateDescriptorPool_def vk_def Let_def split: if_splits)

lemma writeDescriptorSets_Returned:
  "\<forall>i \<in> set todo. i < length b \<Longrightarrow>
   fst (writeDescriptorSets todo b v s dm d) = Returned ()"
  by (induction todo arbitrary: d) (simp_all add: Let_def)

lemma createDescriptorSets_fits:
  assumes "poolSetsLeft d (descriptorPool dm) = Some k"
    and "unat MAX_FRAMES_IN_FLIGHT \<le> k"
    and "vkResult d (length (calls d)) = VK_SUCCESS"
    and "unat MAX_FRAMES_IN_FLIGHT \<le> length b"
  shows "fst (createDescriptorSets b v s dm d) = Returned ()"
proof -
  have w: "r = Returned ()"
    if "writeDescriptorSets [0 ..< unat MAX_FRAMES_IN_FLIGHT] b v s dm' d' = (r, d'')"
    for dm' d' r d''
    using writeDescriptorSets_Returned [of "[0 ..< unat MAX_FRAMES_IN_FLIGHT]" b v s dm' d']
      assms(4) that by simp
  show ?thesis
    using assms(1,2,3)
    by (auto simp: createDescriptorSets_def vkAllocateDescriptorSets_def vk_def Let_def
          split: prod.splits dest: w)
qed

subsection \<open>The frame loop allocates no descriptor set\<close>

lemma da_log_call:
  "\<not> is_descriptor_allocation c \<Longrightarrow>
   descriptor_allocations (log_call c d) = descriptor_allocations d"
  by (simp add: descriptor_allocations_def log_call_def)

lemma da_vk:
  "\<not> is_descriptor_allocation c \<Longrightarrow> vk c d = (res, h, d') \<Longrightarrow>
   descriptor_allocations d' = descriptor_allocations d"
  by (auto simp add: descriptor_allocations_def vk_def)

lemma da_vk_result:
  "\<not> is_descriptor_allocation c \<Longrightarrow> vk_result c d = (res, d') \<Longrightarrow>
   descriptor_allocations d' = descriptor_allocations d"
  by (auto simp add: descriptor_allocations_def vk_result_def log_call_def)

lemma da_fold_log_call:
  "\<forall>c \<in> set cs. \<not> is_descriptor_allocation c \<Longrightarrow>
   descriptor_allocations (fold log_call cs d) = descriptor_allocations d"
  by (induction cs arbitrary: d) (simp_all add: da_log_call)

lemma da_memcpy: "descriptor_allocations (memcpy p x d) = descriptor_allocations d"
  by (simp add: descriptor_allocations_def memcpy_def log_call_def)

lemma da_destroyImageViews:
  "descriptor_allocations (destroyImageViews vs d) = descriptor_allocations d"
  by (induction vs arbitrary: d) (simp_all add: da_log_call)

lemma da_cleanupSwapChain:
  "cleanupSwapChain sc d = (r, sc', d') \<Longrightarrow>
   descriptor_allocations d' = descriptor_allocations d"
  by (auto simp add: cleanupSwapChain_def da_log_call da_destroyImageViews)

lemma da_createImageView:
  "createImageView img fmt d = (r, d') \<Longrightarrow>
   descriptor_allocations d' = descriptor_allocations d"
  by (auto simp add: createImageView_def split: prod.splits if_splits dest!: da_vk [rotated])

lemma da_createImageViews_loop:
  "createImageViews_loop js sc d = (r, sc', d') \<Longrightarrow>
   descriptor_allocations d' = descriptor_allocations d"
proof (induction js arbitrary: sc d)
  case Nil
  then show ?case by simp
next
  case (Cons i rest)
  obtain r1 d1 where v: "createImageView (swapChainImages sc ! i) (swapChainImageFormat sc) d = (r1, d1)"
    by (cases "createImageView (swapChainImages sc ! i) (swapChainImageFormat sc) d") auto
  from da_createImageView [OF v] have d1: "descriptor_allocations d1 = descriptor_allocations d" .
  show ?case
  proof (cases r1)
    case (Returned imageView)
    with Cons.prems v have
      "createImageViews_loop rest
         (sc \<lparr> swapChainImageViews := (swapChainImageViews sc) [i := imageView] \<rparr>) d1 = (r, sc', d')"
      by simp
    from Cons.IH [OF this] d1 show ?thesis by simp
  next
    case (Thrown e)
    with Cons.prems v d1 show ?thesis by simp
  next
    case (Undefined u)
    with Cons.prems v d1 show ?thesis by simp
  qed
qed

lemma da_createImageViews:
  "createImageViews sc d = (r, sc', d') \<Longrightarrow>
   descriptor_allocations d' = descriptor_allocations d"
  unfolding createImageViews_def by (rule da_createImageViews_loop)

lemma da_createSwapChain:
  "createSwapChain sc d = (r, sc', d') \<Longrightarrow>
   descriptor_allocations d' = descriptor_allocations d"
  by (auto simp add: createSwapChain_def Let_def vk_def log_call_def descriptor_allocations_def
        split: outcome.splits prod.splits option.splits if_splits)

lemma da_recreateSwapChain:
  "recreateSwapChain sc d = (r, sc', d') \<Longrightarrow>
   descriptor_allocations d' = descriptor_allocations d"
proof -
  assume a: "recreateSwapChain sc d = (r, sc', d')"
  obtain r1 sc1 d1 where c: "createSwapChain sc d = (r1, sc1, d1)"
    by (cases "createSwapChain sc d") auto
  from da_createSwapChain [OF c] have d1: "descriptor_allocations d1 = descriptor_allocations d" .
  show ?thesis
  proof (cases r1)
    case (Returned x)
    with a c have "createImageViews sc1 d1 = (r, sc', d')"
      by (simp add: recreateSwapChain_def)
    from da_createImageViews [OF this] d1 show ?thesis by simp
  next
    case (Thrown e)
    with a c d1 show ?thesis by (simp add: recreateSwapChain_def)
  next
    case (Undefined u)
    with a c d1 show ?thesis by (simp add: recreateSwapChain_def)
  qed
qed

lemma da_createCommandBuffers:
  "createCommandBuffers m d = (r, m', d') \<Longrightarrow>
   descriptor_allocations d' = descriptor_allocations d"
  by (auto simp add: createCommandBuffers_def Let_def vk_def descriptor_allocations_def
        split: prod.splits if_splits)

lemma da_resetFences:
  "resetFences i m d = (r, d') \<Longrightarrow>
   descriptor_allocations d' = descriptor_allocations d"
  by (auto simp add: resetFences_def vkResetFences_def vk_result_def log_call_def Let_def
        descriptor_allocations_def split: prod.splits if_splits)

lemma da_vkQueueSubmit:
  "vkQueueSubmit q w c s f d = (res, d') \<Longrightarrow>
   descriptor_allocations d' = descriptor_allocations d"
  by (auto simp add: vkQueueSubmit_def vk_result_def log_call_def descriptor_allocations_def
        split: prod.splits if_splits)

lemma da_createFrameBuffers_loop:
  "createFrameBuffers_loop js vs e gp d = (r, gp', d') \<Longrightarrow>
   descriptor_allocations d' = descriptor_allocations d"
proof (induction js arbitrary: gp d)
  case Nil
  then show ?case by simp
next
  case (Cons i rest)
  show ?case
  proof (cases "vkResult d (length (calls d)) = VK_SUCCESS")
    case False
    with Cons.prems show ?thesis
      by (auto simp add: vk_def descriptor_allocations_def)
  next
    case True
    with Cons.prems have
      "createFrameBuffers_loop rest vs e
         (gp \<lparr> gp_framebuffers := (gp_framebuffers gp) [i := Suc (nextHandle d)] \<rparr>)
         (d \<lparr> calls := calls d @ [VkCreateFramebuffer (gp_renderPass gp) (vs ! i) (width e) (height e)],
              nextHandle := Suc (nextHandle d) \<rparr>) = (r, gp', d')"
      by (simp add: vk_def)
    from Cons.IH [OF this] show ?thesis
      by (simp add: descriptor_allocations_def)
  qed
qed

lemma da_createFrameBuffers:
  "createFrameBuffers vs e gp d = (r, gp', d') \<Longrightarrow>
   descriptor_allocations d' = descriptor_allocations d"
  unfolding createFrameBuffers_def by (rule da_createFrameBuffers_loop)

lemma da_destroyFramebuffers_loop:
  "descriptor_allocations (destroyFramebuffers_loop fs d) = descriptor_allocations d"
  by (induction fs arbitrary: d) (simp_all add: da_log_call)

lemma da_destroyFramebuffers:
  "destroyFramebuffers gp d = (gp', d') \<Longrightarrow>
   descriptor_allocations d' = descriptor_allocations d"
  by (auto simp add: destroyFramebuffers_def da_destroyFramebuffers_loop)

lemma da_recordCommandBuffer:
  "recordCommandBuffer i j sc m bm dm gp d = (r, d') \<Longrightarrow>
   descriptor_allocations d' = descriptor_allocations d"
  by (auto simp add: recordCommandBuffer_def vk_result_def log_call_def Let_def
        descriptor_allocations_def split: outcome.splits prod.splits if_splits)

lemma da_updateUniformBuffer:
  "VulkanApplication_updateUniformBuffer i u app d = (r, d') \<Longrightarrow>
   descriptor_allocations d' = descriptor_allocations d"
  by (auto simp add: VulkanApplication_updateUniformBuffer_def Let_def da_memcpy
        split: if_splits)

lemma da_freeCommandBuffers_loop:
  "freeCommandBuffers_loop js pool m d = (r, d') \<Longrightarrow>
   descriptor_allocations d' = descriptor_allocations d"
proof (induction js arbitrary: d)
  case Nil
  then show ?case by simp
next
  case (Cons i rest)
  show ?case
  proof (cases "getCommandBuffer (of_nat i) m")
    case (Returned cb)
    with Cons.prems have
      "freeCommandBuffers_loop rest pool m (log_call (VkFreeCommandBuffers pool cb) d) = (r, d')"
      by simp
    from Cons.IH [OF this] show ?thesis by (simp add: da_log_call)
  next
    case (Thrown e)
    with Cons.prems show ?thesis by simp
  next
    case (Undefined u)
    with Cons.prems show ?thesis by simp
  qed
qed

lemma da_VulkanApplication_recreateSwapChain:
  assumes a: "VulkanApplication_recreateSwapChain app d = (r, app', d')"
  shows "descriptor_allocations d' = descriptor_allocations d"
  using a
  by (auto simp add: VulkanApplication_recreateSwapChain_def Let_def da_log_call
        split: outcome.splits prod.splits if_splits
        dest!: da_destroyFramebuffers da_cleanupSwapChain da_recreateSwapChain
               da_createFrameBuffers da_freeCommandBuffers_loop da_createCommandBuffers)

lemma da_drawFrame_submit:
  assumes a: "drawFrame_submit fr app d = (r, app', d')"
  shows "descriptor_allocations d' = descriptor_allocations d"
  using a
  by (auto simp add: drawFrame_submit_def Let_def da_log_call
        split: outcome.splits prod.splits if_splits option.splits
        dest!: da_updateUniformBuffer da_recordCommandBuffer da_vkQueueSubmit
               da_vk_result [rotated] da_VulkanApplication_recreateSwapChain)

lemma da_drawFrame:
  assumes a: "drawFrame fr app d = (r, app', d')"
  shows "descriptor_allocations d' = descriptor_allocations d"
  using a
  by (auto simp add: drawFrame_def Let_def
        split: outcome.splits prod.splits if_splits option.splits
        dest!: da_resetFences da_vk_result [rotated] da_VulkanApplication_recreateSwapChain
               da_drawFrame_submit)

lemma da_run_loop:
  "run_loop frames app d = (r, app', d') \<Longrightarrow>
   descriptor_allocations d' = descriptor_allocations d"
proof (induction frames arbitrary: app d)
  case Nil
  then show ?case by simp
next
  case (Cons fr rest)
  define app1 where "app1 = app \<lparr> app_zoomLevel :=
                        (case fr_zoomLevel fr of None \<Rightarrow> app_zoomLevel app | Some z \<Rightarrow> z) \<rparr>"
  obtain r2 app2 d2 where f: "drawFrame fr app1 d = (r2, app2, d2)"
    by (cases "drawFrame fr app1 d") auto
  note e2 = da_drawFrame [OF f]
  obtain r3 app3 d3 where s: "VulkanApplication_recreateSwapChain app2 d2 = (r3, app3, d3)"
    by (cases "VulkanApplication_recreateSwapChain app2 d2") auto
  note e3 = da_VulkanApplication_recreateSwapChain [OF s]
  from Cons.prems f s e2 e3 show ?case
    by (auto simp add: Let_def app1_def [symmetric]
          split: option.splits outcome.splits if_splits
          dest!: Cons.IH)
qed

lemma da_run:
  "descriptor_allocations (snd (snd (run frames app d))) = descriptor_allocations d"
proof -
  obtain r app1 d1 where l: "run_loop frames app d = (r, app1, d1)"
    by (cases "run_loop frames app d") auto
  from da_run_loop [OF l] l show ?thesis
    by (auto simp add: run_def da_log_call split: option.splits outcome.splits)
qed

lemma da_writeDescriptorSets:
  "writeDescriptorSets js b v s dm d = (r, d') \<Longrightarrow>
   descriptor_allocations d' = descriptor_allocations d"
proof (induction js arbitrary: d)
  case Nil
  then show ?case by simp
next
  case (Cons i rest)
  show ?case
  proof (cases "i \<ge> length b")
    case True
    with Cons.prems show ?thesis by simp
  next
    case False
    with Cons.prems Cons.IH show ?thesis
      by (auto simp add: Let_def da_log_call dest!: Cons.IH)
  qed
qed

lemma createDescriptorSets_allocations:
  "descriptor_allocations (snd (snd (createDescriptorSets b v s dm d))) =
     descriptor_allocations d @
     [VkAllocateDescriptorSets (descriptorPool dm)
        (replicate (unat MAX_FRAMES_IN_FLIGHT) (descriptorSetLayout dm))]"
proof -
  obtain res sets d1 where
    al: "vkAllocateDescriptorSets (descriptorPool dm)
           (replicate (unat MAX_FRAMES_IN_FLIGHT) (descriptorSetLayout dm)) d = (res, sets, d1)"
    by (cases "vkAllocateDescriptorSets (descriptorPool dm)
           (replicate (unat MAX_FRAMES_IN_FLIGHT) (descriptorSetLayout dm)) d") auto
  then have d1: "descriptor_allocations d1 = descriptor_allocations d @
     [VkAllocateDescriptorSets (descriptorPool dm)
        (replicate (unat MAX_FRAMES_IN_FLIGHT) (descriptorSetLayout dm))]"
    by (auto simp add: vkAllocateDescriptorSets_def vk_def descriptor_allocations_def
          split: if_splits option.splits)
  show ?thesis
  proof (cases "res = VK_SUCCESS")
    case False
    with al d1 show ?thesis by (simp add: createDescriptorSets_def Let_def)
  next
    case True
    obtain r d2 where w: "writeDescriptorSets [0 ..< unat MAX_FRAMES_IN_FLIGHT] b v s
        (dm \<lparr> descriptorSets := resize (unat MAX_FRAMES_IN_FLIGHT) (descriptorSets dm) \<rparr>
            \<lparr> descriptorSets := sets \<rparr>) d1 = (r, d2)"
      by (cases "writeDescriptorSets [0 ..< unat MAX_FRAMES_IN_FLIGHT] b v s
        (dm \<lparr> descriptorSets := resize (unat MAX_FRAMES_IN_FLIGHT) (descriptorSets dm) \<rparr>
            \<lparr> descriptorSets := sets \<rparr>) d1") auto
    from da_writeDescriptorSets [OF w] al d1 True w show ?thesis
      by (simp add: createDescriptorSets_def Let_def)
  qed
qed

lemma DescriptorManager_ctor_allocations:
  "descriptor_allocations (snd (snd (DescriptorManager_ctor d))) = descriptor_allocations d"
  by (simp add: DescriptorManager_ctor_def createDescriptorSetLayout_def createDescriptorPool_def
        vkCreateDescriptorPool_def vk_def Let_def descriptor_allocations_def)

lemma example_run:
  "run [example_frame] example_app
       ((example_driver (\<lambda>k. 0)) \<lparr> fenceSignaled := [47 \<mapsto> True, 48 \<mapsto> True] \<rparr>) =
     (Some (Returned ()),
      example_app \<lparr> app_currentFrame := 1 \<rparr>,
      (example_driver (\<lambda>k. 0))
        \<lparr> calls :=
            [VkResetFences 47, VkAcquireNextImageKHR 10 43,
             Memcpy 53 (UboData \<lparr> model = [], view = [], proj = [] \<rparr>),
             VkResetCommandBuffer 41, VkBeginCommandBuffer 41 0,
             VkCmdBeginRenderPass 41 61 65 \<lparr> width = 640, height = 480 \<rparr>,
             VkCmdBindPipeline 41 63,
             VkCmdSetViewport 41 \<lparr> width = 640, height = 480 \<rparr>,
             VkCmdSetScissor 41 \<lparr> width = 640, height = 480 \<rparr>,
             VkCmdBindVertexBuffers 41 901, VkCmdBindIndexBuffer 41 902,
             VkCmdBindDescriptorSets 41 62 23, VkCmdDrawIndexed 41 3, VkCmdEndRenderPass 41,
             VkEndCommandBuffer 41, VkQueueSubmitFrame 71 43 41 45 47,
             VkQueuePresentKHR 72 45 10 1, VkDeviceWaitIdle],
          hostMemory := [53 \<mapsto> UboData \<lparr> model = [], view = [], proj = [] \<rparr>],
          fenceSignaled := [48 \<mapsto> True, 47 \<mapsto> True] \<rparr>)"
  by (simp add: run_def drawFrame_def drawFrame_submit_def waitForFences_def vkWaitForFences_def
        resetFences_def vkResetFences_def getImageAvailableSemaphore_def
        getRenderFinishedSemaphore_def getInFlightFence_def getCommandBuffer_def
        VulkanApplication_updateUniformBuffer_def recordCommandBuffer_def getDescriptorSet_def
        vkQueueSubmit_def vk_result_def memcpy_def example_app_def example_frame_def
        example_swapchain_def example_raw_def nullptr_def VK_ERROR_OUT_OF_DATE_KHR_def
        VK_SUBOPTIMAL_KHR_def run_defs)

text \<open>
  C9. When the constructor of DescriptorManager returns, it has made exactly two calls:
  the creation of a layout with exactly two bindings, binding 0 one uniform buffer for the
  vertex stage and binding 1 one combined image sampler for the fragment stage, and the
  creation of a pool for at most N sets with N descriptors of each of the two types, N
  being the frame-slot count; the pool then has N sets to give. \<open>createDescriptorSets\<close>
  asks that pool for exactly N sets of that layout, which the pool can give: the call
  returns whenever the driver itself reports success and there are N uniform buffers.
  When it has returned, the pool has none left, and every further allocation from it fails
  with the thrown error of \<open>createDescriptorSets\<close>. The constructor of the application
  makes these two calls one after the other (memory.cpp, lines 290 to 293), and they
  allocate descriptor sets exactly once, N of them. At run time, in \<open>run\<close> with
  \<open>drawFrame\<close> and the recreation of the swap chain, none is allocated: whatever state the
  application and the driver are in, however many frames are drawn and however the run
  ends, the allocations of descriptor sets in the log are afterwards what they were
  before. So it is only during construction that an allocation can fail.
\<close>

theorem descriptor_layout_and_pool_sized_for_frames:
  assumes "fst (DescriptorManager_ctor d) = Returned ()"
  shows "let dm = fst (snd (DescriptorManager_ctor d));
             d1 = snd (snd (DescriptorManager_ctor d));
             dm2 = fst (snd (createDescriptorSets b v s dm d1));
             d2 = snd (snd (createDescriptorSets b v s dm d1))
         in calls d1 = calls d @
              [VkCreateDescriptorSetLayout
                 [\<lparr> lb_binding = 0, lb_descriptorType = VK_DESCRIPTOR_TYPE_UNIFORM_BUFFER,
                    lb_descriptorCount = 1, lb_stageFlags = VK_SHADER_STAGE_VERTEX_BIT,
                    lb_pImmutableSamplers = nullptr \<rparr>,
                  \<lparr> lb_binding = 1,
                    lb_descriptorType = VK_DESCRIPTOR_TYPE_COMBINED_IMAGE_SAMPLER,
                    lb_descriptorCount = 1, lb_stageFlags = VK_SHADER_STAGE_FRAGMENT_BIT,
                    lb_pImmutableSamplers = nullptr \<rparr>],
               VkCreateDescriptorPool MAX_FRAMES_IN_FLIGHT
                 [\<lparr> ps_type = VK_DESCRIPTOR_TYPE_UNIFORM_BUFFER,
                    ps_descriptorCount = MAX_FRAMES_IN_FLIGHT \<rparr>,
                  \<lparr> ps_type = VK_DESCRIPTOR_TYPE_COMBINED_IMAGE_SAMPLER,
                    ps_descriptorCount = MAX_FRAMES_IN_FLIGHT \<rparr>]]
          \<and> poolSetsLeft d1 (descriptorPool dm) = Some (unat MAX_FRAMES_IN_FLIGHT)
          \<and> calls d2 ! length (calls d1) =
                VkAllocateDescriptorSets (descriptorPool dm)
                  (replicate (unat MAX_FRAMES_IN_FLIGHT) (descriptorSetLayout dm))
          \<and> (vkResult d1 (length (calls d1)) = VK_SUCCESS
               \<and> unat MAX_FRAMES_IN_FLIGHT \<le> length b \<longrightarrow>
                fst (createDescriptorSets b v s dm d1) = Returned ())
          \<and> (fst (createDescriptorSets b v s dm d1) = Returned () \<longrightarrow>
                poolSetsLeft d2 (descriptorPool dm2) = Some 0
              \<and> fst (createDescriptorSets b' v' s' dm2 d2)
                    = Thrown (RuntimeError ''failed to allocate descriptor sets!''))
          \<and> descriptor_allocations d2 =
                descriptor_allocations d @
                [VkAllocateDescriptorSets (descriptorPool dm)
                   (replicate (unat MAX_FRAMES_IN_FLIGHT) (descriptorSetLayout dm))]
          \<and> descriptor_allocations (snd (snd (run frames app dr))) = descriptor_allocations dr"
proof -
  define dm where "dm = fst (snd (DescriptorManager_ctor d))"
  define d1 where "d1 = snd (snd (DescriptorManager_ctor d))"
  define dm2 where "dm2 = fst (snd (createDescriptorSets b v s dm d1))"
  define d2 where "d2 = snd (snd (createDescriptorSets b v s dm d1))"
  note ctor = DescriptorManager_ctor_Returned [OF assms, folded dm_def d1_def]
  have after: "poolSetsLeft d2 (descriptorPool dm2) = Some 0
             \<and> fst (createDescriptorSets b' v' s' dm2 d2)
                   = Thrown (RuntimeError ''failed to allocate descriptor sets!'')"
    if ret: "fst (createDescriptorSets b v s dm d1) = Returned ()"
  proof -
    from ctor have left: "poolSetsLeft d1 (descriptorPool dm) = Some (unat MAX_FRAMES_IN_FLIGHT)"
      by simp
    from createDescriptorSets_Returned [OF ret left]
    have zero: "poolSetsLeft d2 (descriptorPool dm2) = Some 0"
      by (simp add: dm2_def d2_def)
    have "(0::nat) < unat MAX_FRAMES_IN_FLIGHT"
      by (simp add: MAX_FRAMES_IN_FLIGHT_def)
    from createDescriptorSets_exhausted [OF zero this] zero show ?thesis by simp
  qed
  have fits: "fst (createDescriptorSets b v s dm d1) = Returned ()"
    if "vkResult d1 (length (calls d1)) = VK_SUCCESS"
      and "unat MAX_FRAMES_IN_FLIGHT \<le> length b"
  proof -
    from ctor have left: "poolSetsLeft d1 (descriptorPool dm) = Some (unat MAX_FRAMES_IN_FLIGHT)"
      by simp
    from createDescriptorSets_fits [OF left order_refl that] show ?thesis .
  qed
  have once: "descriptor_allocations d2 =
                descriptor_allocations d @
                [VkAllocateDescriptorSets (descriptorPool dm)
                   (replicate (unat MAX_FRAMES_IN_FLIGHT) (descriptorSetLayout dm))]"
    using createDescriptorSets_allocations [of b v s dm d1]
      DescriptorManager_ctor_allocations [of d]
    by (simp add: d2_def d1_def)
  have first: "calls d1 = calls d @
              [VkCreateDescriptorSetLayout
                 [\<lparr> lb_binding = 0, lb_descriptorType = VK_DESCRIPTOR_TYPE_UNIFORM_BUFFER,
                    lb_descriptorCount = 1, lb_stageFlags = VK_SHADER_STAGE_VERTEX_BIT,
                    lb_pImmutableSamplers = nullptr \<rparr>,
                  \<lparr> lb_binding = 1,
                    lb_descriptorType = VK_DESCRIPTOR_TYPE_COMBINED_IMAGE_SAMPLER,
                    lb_descriptorCount = 1, lb_stageFlags = VK_SHADER_STAGE_FRAGMENT_BIT,
                    lb_pImmutableSamplers = nullptr \<rparr>],
               VkCreateDescriptorPool MAX_FRAMES_IN_FLIGHT
                 [\<lparr> ps_type = VK_DESCRIPTOR_TYPE_UNIFORM_BUFFER,
                    ps_descriptorCount = MAX_FRAMES_IN_FLIGHT \<rparr>,
                  \<lparr> ps_type = VK_DESCRIPTOR_TYPE_COMBINED_IMAGE_SAMPLER,
                    ps_descriptorCount = MAX_FRAMES_IN_FLIGHT \<rparr>]]
          \<and> poolSetsLeft d1 (descriptorPool dm) = Some (unat MAX_FRAMES_IN_FLIGHT)
          \<and> calls d2 ! length (calls d1) =
                VkAllocateDescriptorSets (descriptorPool dm)
                  (replicate (unat MAX_FRAMES_IN_FLIGHT) (descriptorSetLayout dm))"
    using ctor createDescriptorSets_request [of b v s dm d1]
    by (simp add: d2_def)
  from first after fits once da_run [of frames app dr]
  have "calls d1 = calls d @
              [VkCreateDescriptorSetLayout
                 [\<lparr> lb_binding = 0, lb_descriptorType = VK_DESCRIPTOR_TYPE_UNIFORM_BUFFER,
                    lb_descriptorCount = 1, lb_stageFlags = VK_SHADER_STAGE_VERTEX_BIT,
                    lb_pImmutableSamplers = nullptr \<rparr>,
                  \<lparr> lb_binding = 1,
                    lb_descriptorType = VK_DESCRIPTOR_TYPE_COMBINED_IMAGE_SAMPLER,
                    lb_descriptorCount = 1, lb_stageFlags = VK_SHADER_STAGE_FRAGMENT_BIT,
                    lb_pImmutableSamplers = nullptr \<rparr>],
               VkCreateDescriptorPool MAX_FRAMES_IN_FLIGHT
                 [\<lparr> ps_type = VK_DESCRIPTOR_TYPE_UNIFORM_BUFFER,
                    ps_descriptorCount = MAX_FRAMES_IN_FLIGHT \<rparr>,
                  \<lparr> ps_type = VK_DESCRIPTOR_TYPE_COMBINED_IMAGE_SAMPLER,
                    ps_descriptorCount = MAX_FRAMES_IN_FLIGHT \<rparr>]]
          \<and> poolSetsLeft d1 (descriptorPool dm) = Some (unat MAX_FRAMES_IN_FLIGHT)
          \<and> calls d2 ! length (calls d1) =
                VkAllocateDescriptorSets (descriptorPool dm)
                  (replicate (unat MAX_FRAMES_IN_FLIGHT) (descriptorSetLayout dm))
          \<and> (vkResult d1 (length (calls d1)) = VK_SUCCESS
               \<and> unat MAX_FRAMES_IN_FLIGHT \<le> length b \<longrightarrow>
                fst (createDescriptorSets b v s dm d1) = Returned ())
          \<and> (fst (createDescriptorSets b v s dm d1) = Returned () \<longrightarrow>
                poolSetsLeft d2 (descriptorPool dm2) = Some 0
              \<and> fst (createDescriptorSets b' v' s' dm2 d2)
                    = Thrown (RuntimeError ''failed to allocate descriptor sets!''))
          \<and> descriptor_allocations d2 =
                descriptor_allocations d @
                [VkAllocateDescriptorSets (descriptorPool dm)
                   (replicate (unat MAX_FRAMES_IN_FLIGHT) (descriptorSetLayout dm))]
          \<and> descriptor_allocations (snd (snd (run frames app dr))) = descriptor_allocations dr"
    by blast
  then show ?thesis
    unfolding Let_def dm_def d1_def dm2_def d2_def .
qed

theorem descriptor_layout_and_pool_sized_for_frames_witness:
  "fst (DescriptorManager_ctor (example_driver (\<lambda>k. 0))) = Returned ()
   \<and> calls (snd (snd (DescriptorManager_ctor (example_driver (\<lambda>k. 0))))) =
       [VkCreateDescriptorSetLayout
          [\<lparr> lb_binding = 0, lb_descriptorType = 6, lb_descriptorCount = 1,
             lb_stageFlags = 1, lb_pImmutableSamplers = 0 \<rparr>,
           \<lparr> lb_binding = 1, lb_descriptorType = 1, lb_descriptorCount = 1,
             lb_stageFlags = 16, lb_pImmutableSamplers = 0 \<rparr>],
        VkCreateDescriptorPool 2
          [\<lparr> ps_type = 6, ps_descriptorCount = 2 \<rparr>,
           \<lparr> ps_type = 1, ps_descriptorCount = 2 \<rparr>]]
   \<and> fst (createDescriptorSets [31, 32] 33 34
            (fst (snd (DescriptorManager_ctor (example_driver (\<lambda>k. 0)))))
            (snd (snd (DescriptorManager_ctor (example_driver (\<lambda>k. 0)))))) = Returned ()
   \<and> fst (createDescriptorSets [31, 32] 33 34
            (fst (snd (createDescriptorSets [31, 32] 33 34
               (fst (snd (DescriptorManager_ctor (example_driver (\<lambda>k. 0)))))
               (snd (snd (DescriptorManager_ctor (example_driver (\<lambda>k. 0))))))))
            (snd (snd (createDescriptorSets [31, 32] 33 34
               (fst (snd (DescriptorManager_ctor (example_driver (\<lambda>k. 0)))))
               (snd (snd (DescriptorManager_ctor (example_driver (\<lambda>k. 0)))))))))
       = Thrown (RuntimeError ''failed to allocate descriptor sets!'')
   \<and> descriptor_allocations
         (snd (snd (createDescriptorSets [31, 32] 33 34
            (fst (snd (DescriptorManager_ctor (example_driver (\<lambda>k. 0)))))
            (snd (snd (DescriptorManager_ctor (example_driver (\<lambda>k. 0)))))))) =
       [VkAllocateDescriptorSets 22 [21, 21]]
   \<and> fst (run [example_frame] example_app
            ((example_driver (\<lambda>k. 0)) \<lparr> fenceSignaled := [47 \<mapsto> True, 48 \<mapsto> True] \<rparr>)) =
       Some (Returned ())
   \<and> descriptor_allocations
         (snd (snd (run [example_frame] example_app
            ((example_driver (\<lambda>k. 0)) \<lparr> fenceSignaled := [47 \<mapsto> True, 48 \<mapsto> True] \<rparr>)))) =
       []"
proof -
  have ctor: "DescriptorManager_ctor (example_driver (\<lambda>k. 0)) =
     (Returned (),
      \<lparr> descriptorSetLayout = 21, descriptorPool = 22, descriptorSets = [] \<rparr>,
      (example_driver (\<lambda>k. 0))
        \<lparr> calls :=
            [VkCreateDescriptorSetLayout
               [\<lparr> lb_binding = 0, lb_descriptorType = 6, lb_descriptorCount = 1,
                  lb_stageFlags = 1, lb_pImmutableSamplers = 0 \<rparr>,
                \<lparr> lb_binding = 1, lb_descriptorType = 1, lb_descriptorCount = 1,
                  lb_stageFlags = 16, lb_pImmutableSamplers = 0 \<rparr>],
             VkCreateDescriptorPool 2
               [\<lparr> ps_type = 6, ps_descriptorCount = 2 \<rparr>,
                \<lparr> ps_type = 1, ps_descriptorCount = 2 \<rparr>]],
          nextHandle := 22,
          poolSetsLeft := [22 \<mapsto> 2] \<rparr>)"
    by (simp add: DescriptorManager_ctor_def createDescriptorSetLayout_def
          createDescriptorPool_def vkCreateDescriptorPool_def run_defs nullptr_def
          VK_DESCRIPTOR_TYPE_UNIFORM_BUFFER_def VK_DESCRIPTOR_TYPE_COMBINED_IMAGE_SAMPLER_def
          VK_SHADER_STAGE_VERTEX_BIT_def VK_SHADER_STAGE_FRAGMENT_BIT_def)
  have h: "fst (DescriptorManager_ctor (example_driver (\<lambda>k. 0))) = Returned ()"
    by (simp add: ctor)
  have first: "fst (createDescriptorSets [31, 32] 33 34
            (fst (snd (DescriptorManager_ctor (example_driver (\<lambda>k. 0)))))
            (snd (snd (DescriptorManager_ctor (example_driver (\<lambda>k. 0)))))) = Returned ()"
    unfolding ctor
    by (simp add: createDescriptorSets_def vkAllocateDescriptorSets_def upt_rec run_defs)
  have log: "calls (snd (snd (DescriptorManager_ctor (example_driver (\<lambda>k. 0))))) =
       [VkCreateDescriptorSetLayout
          [\<lparr> lb_binding = 0, lb_descriptorType = 6, lb_descriptorCount = 1,
             lb_stageFlags = 1, lb_pImmutableSamplers = 0 \<rparr>,
           \<lparr> lb_binding = 1, lb_descriptorType = 1, lb_descriptorCount = 1,
             lb_stageFlags = 16, lb_pImmutableSamplers = 0 \<rparr>],
        VkCreateDescriptorPool 2
          [\<lparr> ps_type = 6, ps_descriptorCount = 2 \<rparr>,
           \<lparr> ps_type = 1, ps_descriptorCount = 2 \<rparr>]]"
    by (simp add: ctor)
  from descriptor_layout_and_pool_sized_for_frames
         [OF h, of "[31, 32]" 33 34 "[31, 32]" 33 34 "[example_frame]" example_app
            "(example_driver (\<lambda>k. 0)) \<lparr> fenceSignaled := [47 \<mapsto> True, 48 \<mapsto> True] \<rparr>",
          unfolded Let_def] first
  have second: "fst (createDescriptorSets [31, 32] 33 34
            (fst (snd (createDescriptorSets [31, 32] 33 34
               (fst (snd (DescriptorManager_ctor (example_driver (\<lambda>k. 0)))))
               (snd (snd (DescriptorManager_ctor (example_driver (\<lambda>k. 0))))))))
            (snd (snd (createDescriptorSets [31, 32] 33 34
               (fst (snd (DescriptorManager_ctor (example_driver (\<lambda>k. 0)))))
               (snd (snd (DescriptorManager_ctor (example_driver (\<lambda>k. 0)))))))))
       = Thrown (RuntimeError ''failed to allocate descriptor sets!'')"
    by blast
  have none: "descriptor_allocations (example_driver (\<lambda>k. 0)) = []"
    "descriptor_allocations
       ((example_driver (\<lambda>k. 0)) \<lparr> fenceSignaled := [47 \<mapsto> True, 48 \<mapsto> True] \<rparr>) = []"
    by (simp_all add: descriptor_allocations_def example_driver_def)
  have dm: "descriptorPool (fst (snd (DescriptorManager_ctor (example_driver (\<lambda>k. 0))))) = 22"
    "descriptorSetLayout (fst (snd (DescriptorManager_ctor (example_driver (\<lambda>k. 0))))) = 21"
    by (simp_all add: ctor)
  from descriptor_layout_and_pool_sized_for_frames
         [OF h, of "[31, 32]" 33 34 "[31, 32]" 33 34 "[example_frame]" example_app
            "(example_driver (\<lambda>k. 0)) \<lparr> fenceSignaled := [47 \<mapsto> True, 48 \<mapsto> True] \<rparr>",
          unfolded Let_def]
  have once': "descriptor_allocations
         (snd (snd (createDescriptorSets [31, 32] 33 34
            (fst (snd (DescriptorManager_ctor (example_driver (\<lambda>k. 0)))))
            (snd (snd (DescriptorManager_ctor (example_driver (\<lambda>k. 0)))))))) =
       descriptor_allocations (example_driver (\<lambda>k. 0)) @
       [VkAllocateDescriptorSets
          (descriptorPool (fst (snd (DescriptorManager_ctor (example_driver (\<lambda>k. 0))))))
          (replicate (unat MAX_FRAMES_IN_FLIGHT)
             (descriptorSetLayout (fst (snd (DescriptorManager_ctor (example_driver (\<lambda>k. 0)))))))]"
    and never': "descriptor_allocations
         (snd (snd (run [example_frame] example_app
            ((example_driver (\<lambda>k. 0)) \<lparr> fenceSignaled := [47 \<mapsto> True, 48 \<mapsto> True] \<rparr>)))) =
       descriptor_allocations
         ((example_driver (\<lambda>k. 0)) \<lparr> fenceSignaled := [47 \<mapsto> True, 48 \<mapsto> True] \<rparr>)"
    by blast+
  have two: "replicate (unat MAX_FRAMES_IN_FLIGHT) (21::nat) = [21, 21]"
    by (simp add: unat_frames numeral_2_eq_2)
  have once: "descriptor_allocations
         (snd (snd (createDescriptorSets [31, 32] 33 34
            (fst (snd (DescriptorManager_ctor (example_driver (\<lambda>k. 0)))))
            (snd (snd (DescriptorManager_ctor (example_driver (\<lambda>k. 0)))))))) =
       [VkAllocateDescriptorSets 22 [21, 21]]"
    unfolding once' none dm two by simp
  have never: "descriptor_allocations
         (snd (snd (run [example_frame] example_app
            ((example_driver (\<lambda>k. 0)) \<lparr> fenceSignaled := [47 \<mapsto> True, 48 \<mapsto> True] \<rparr>)))) =
       []"
    unfolding never' none by simp
  have runs: "fst (run [example_frame] example_app
            ((example_driver (\<lambda>k. 0)) \<lparr> fenceSignaled := [47 \<mapsto> True, 48 \<mapsto> True] \<rparr>)) =
       Some (Returned ())"
    by (simp add: example_run)
  from h log first second once runs never show ?thesis
    by blast
qed


section \<open>Properties of the reporting of construction failures\<close>

lemma createVertexBuffer_calls:
  "calls (snd (snd (createVertexBuffer bm d))) =
     calls d @
     [VmaCreateBuffer (28 * of_nat (length (vertices bm)))
        VK_BUFFER_USAGE_TRANSFER_SRC_BIT VMA_MEMORY_USAGE_CPU_ONLY] @
     (if vkResult d (length (calls d)) \<noteq> VK_SUCCESS then []
      else VmaMapMemory (nextHandle d + 1) #
       (if vkResult d (length (calls d) + 1) \<noteq> VK_SUCCESS
        then [VmaDestroyBuffer (nextHandle d + 1) (nextHandle d + 1)]
        else [Memcpy (nextHandle d + 2) (VertexData (vertices bm)),
              VmaUnmapMemory (nextHandle d + 1),
              VmaCreateBuffer (28 * of_nat (length (vertices bm)))
                (VK_BUFFER_USAGE_TRANSFER_DST_BIT OR VK_BUFFER_USAGE_VERTEX_BUFFER_BIT)
                VMA_MEMORY_USAGE_GPU_ONLY] @
         (if vkResult d (length (calls d) + 4) \<noteq> VK_SUCCESS
          then [VmaDestroyBuffer (nextHandle d + 1) (nextHandle d + 1)]
          else if bm_commandPool bm = VK_NULL_HANDLE
          then [VmaDestroyBuffer (nextHandle d + 1) (nextHandle d + 1),
                VmaDestroyBuffer (nextHandle d + 3) (nextHandle d + 3)]
          else [VkAllocateCommandBuffers (bm_commandPool bm) 1,
                VkBeginCommandBuffer (nextHandle d + 4)
                  VK_COMMAND_BUFFER_USAGE_ONE_TIME_SUBMIT_BIT,
                VkCmdCopyBuffer (nextHandle d + 4) (nextHandle d + 1) (nextHandle d + 3)
                  (28 * of_nat (length (vertices bm))),
                VkEndCommandBuffer (nextHandle d + 4),
                VkQueueSubmit (nextHandle d + 4) VK_NULL_HANDLE,
                VkQueueWaitIdle,
                VkFreeCommandBuffers (bm_commandPool bm) (nextHandle d + 4),
                VmaDestroyBuffer (nextHandle d + 1) (nextHandle d + 1)])))"
proof (cases "vkResult d (length (calls d)) = VK_SUCCESS")
  case False
  then show ?thesis
    by (simp add: createVertexBuffer_def createBuffer_fail)
next
  case c1: True
  show ?thesis
  proof (cases "vkResult d (length (calls d) + 1) = VK_SUCCESS")
    case False
    with c1 show ?thesis
      by (simp add: createVertexBuffer_def createBuffer_ok mapMemory_fail destroyBuffer_def
            log_call_def)
  next
    case c2: True
    show ?thesis
    proof (cases "vkResult d (length (calls d) + 4) = VK_SUCCESS")
      case False
      then have "vkResult d (Suc (Suc (Suc (Suc (length (calls d)))))) \<noteq> VK_SUCCESS"
        by (simp add: eval_nat_numeral)
      with c1 c2 False show ?thesis
        by (simp add: createVertexBuffer_def createBuffer_ok createBuffer_fail mapMemory_ok
             memcpy_def unmapMemory_def destroyBuffer_def log_call_def Let_def
             eval_nat_numeral)
    next
      case True
      then have "vkResult d (Suc (Suc (Suc (Suc (length (calls d)))))) = VK_SUCCESS"
        by (simp add: eval_nat_numeral)
      with c1 c2 True show ?thesis
        by (simp add: createVertexBuffer_def createBuffer_ok mapMemory_ok
             memcpy_def unmapMemory_def destroyBuffer_def copyBuffer_def vk_def
             log_call_def getCommandPool_def Let_def eval_nat_numeral)
    qed
  qed
qed

lemma createIndexBuffer_calls:
  "calls (snd (snd (createIndexBuffer bm d))) =
     calls d @
     [VmaCreateBuffer (2 * of_nat (length (indices bm)))
        VK_BUFFER_USAGE_TRANSFER_SRC_BIT VMA_MEMORY_USAGE_CPU_ONLY] @
     (if vkResult d (length (calls d)) \<noteq> VK_SUCCESS then []
      else VmaMapMemory (nextHandle d + 1) #
       (if vkResult d (length (calls d) + 1) \<noteq> VK_SUCCESS
        then [VmaDestroyBuffer (nextHandle d + 1) (nextHandle d + 1)]
        else [Memcpy (nextHandle d + 2) (IndexData (indices bm)),
              VmaUnmapMemory (nextHandle d + 1),
              VmaCreateBuffer (2 * of_nat (length (indices bm)))
                (VK_BUFFER_USAGE_TRANSFER_DST_BIT OR VK_BUFFER_USAGE_INDEX_BUFFER_BIT)
                VMA_MEMORY_USAGE_GPU_ONLY] @
         (if vkResult d (length (calls d) + 4) \<noteq> VK_SUCCESS
          then [VmaDestroyBuffer (nextHandle d + 1) (nextHandle d + 1)]
          else if bm_commandPool bm = VK_NULL_HANDLE
          then [VmaDestroyBuffer (nextHandle d + 1) (nextHandle d + 1),
                VmaDestroyBuffer (nextHandle d + 3) (nextHandle d + 3)]
          else [VkAllocateCommandBuffers (bm_commandPool bm) 1,
                VkBeginCommandBuffer (nextHandle d + 4)
                  VK_COMMAND_BUFFER_USAGE_ONE_TIME_SUBMIT_BIT,
                VkCmdCopyBuffer (nextHandle d + 4) (nextHandle d + 1) (nextHandle d + 3)
                  (2 * of_nat (length (indices bm))),
                VkEndCommandBuffer (nextHandle d + 4),
                VkQueueSubmit (nextHandle d + 4) VK_NULL_HANDLE,
                VkQueueWaitIdle,
                VkFreeCommandBuffers (bm_commandPool bm) (nextHandle d + 4),
                VmaDestroyBuffer (nextHandle d + 1) (nextHandle d + 1)])))"
proof (cases "vkResult d (length (calls d)) = VK_SUCCESS")
  case False
  then show ?thesis
    by (simp add: createIndexBuffer_def createBuffer_fail)
next
  case c1: True
  show ?thesis
  proof (cases "vkResult d (length (calls d) + 1) = VK_SUCCESS")
    case False
    with c1 show ?thesis
      by (simp add: createIndexBuffer_def createBuffer_ok mapMemory_fail destroyBuffer_def
            log_call_def)
  next
    case c2: True
    show ?thesis
    proof (cases "vkResult d (length (calls d) + 4) = VK_SUCCESS")
      case False
      then have "vkResult d (Suc (Suc (Suc (Suc (length (calls d)))))) \<noteq> VK_SUCCESS"
        by (simp add: eval_nat_numeral)
      with c1 c2 False show ?thesis
        by (simp add: createIndexBuffer_def createBuffer_ok createBuffer_fail mapMemory_ok
             memcpy_def unmapMemory_def destroyBuffer_def log_call_def Let_def
             eval_nat_numeral)
    next
      case True
      then have "vkResult d (Suc (Suc (Suc (Suc (length (calls d)))))) = VK_SUCCESS"
        by (simp add: eval_nat_numeral)
      with c1 c2 True show ?thesis
        by (simp add: createIndexBuffer_def createBuffer_ok mapMemory_ok
             memcpy_def unmapMemory_def destroyBuffer_def copyBuffer_def vk_def
             log_call_def getCommandPool_def Let_def eval_nat_numeral)
    qed
  qed
qed

lemma createUniformBuffers_effect:
  "calls (snd (snd (createUniformBuffers bm d))) =
     calls d @
     [VmaCreateBuffer 192 VK_BUFFER_USAGE_UNIFORM_BUFFER_BIT VMA_MEMORY_USAGE_CPU_TO_GPU] @
     (if vkResult d (length (calls d)) \<noteq> VK_SUCCESS then []
      else VmaMapMemory (nextHandle d + 1) #
       (if vkResult d (length (calls d) + 1) \<noteq> VK_SUCCESS
        then [VmaDestroyBuffer (nextHandle d + 1) (nextHandle d + 1)]
        else VmaCreateBuffer 192 VK_BUFFER_USAGE_UNIFORM_BUFFER_BIT VMA_MEMORY_USAGE_CPU_TO_GPU #
         (if vkResult d (length (calls d) + 2) \<noteq> VK_SUCCESS
          then [VmaDestroyBuffer (nextHandle d + 1) (nextHandle d + 1)]
          else VmaMapMemory (nextHandle d + 3) #
           (if vkResult d (length (calls d) + 3) \<noteq> VK_SUCCESS
            then [VmaDestroyBuffer (nextHandle d + 1) (nextHandle d + 1),
                  VmaDestroyBuffer (nextHandle d + 3) (nextHandle d + 3)]
            else []))))
   \<and> (vkResult d (length (calls d)) = VK_SUCCESS \<longrightarrow>
        uniformBuffers (fst (snd (createUniformBuffers bm d))) ! 0 = nextHandle d + 1
      \<and> uniformBuffersMemory (fst (snd (createUniformBuffers bm d))) ! 0 = nextHandle d + 1)
   \<and> (vkResult d (length (calls d)) = VK_SUCCESS
      \<and> vkResult d (length (calls d) + 1) = VK_SUCCESS \<longrightarrow>
        uniformBuffersMapped (fst (snd (createUniformBuffers bm d))) ! 0 = nextHandle d + 2)
   \<and> (vkResult d (length (calls d)) = VK_SUCCESS
      \<and> vkResult d (length (calls d) + 1) = VK_SUCCESS
      \<and> vkResult d (length (calls d) + 2) = VK_SUCCESS \<longrightarrow>
        uniformBuffers (fst (snd (createUniformBuffers bm d))) ! 1 = nextHandle d + 3
      \<and> uniformBuffersMemory (fst (snd (createUniformBuffers bm d))) ! 1 = nextHandle d + 3)"
proof (cases "vkResult d (length (calls d)) = VK_SUCCESS")
  case False
  then show ?thesis
    by (simp add: createUniformBuffers_def upt_frames createBuffer_fail
          destroyUniformBuffers_def)
next
  case c1: True
  show ?thesis
  proof (cases "vkResult d (Suc (length (calls d))) = VK_SUCCESS")
    case False
    with c1 show ?thesis
      by (simp add: createUniformBuffers_def upt_frames createBuffer_ok mapMemory_fail Let_def
            destroyUniformBuffers_def destroyBuffer_def log_call_def length_resize unat_frames upt_0_2)
  next
    case c2: True
    show ?thesis
    proof (cases "vkResult d (Suc (Suc (length (calls d)))) = VK_SUCCESS")
      case False
      then have "vkResult d (length (calls d) + 2) \<noteq> VK_SUCCESS"
        by (simp add: eval_nat_numeral)
      with c1 c2 False show ?thesis
        by (simp add: createUniformBuffers_def upt_frames createBuffer_ok createBuffer_fail
              mapMemory_ok Let_def destroyUniformBuffers_def destroyBuffer_def log_call_def
              length_resize unat_frames upt_0_2 eval_nat_numeral)
    next
      case c3: True
      then have c3': "vkResult d (length (calls d) + 2) = VK_SUCCESS"
        by (simp add: eval_nat_numeral)
      show ?thesis
      proof (cases "vkResult d (Suc (Suc (Suc (length (calls d))))) = VK_SUCCESS")
        case False
        then have "vkResult d (length (calls d) + 3) \<noteq> VK_SUCCESS"
          by (simp add: eval_nat_numeral)
        with c1 c2 c3 c3' False show ?thesis
          by (simp add: createUniformBuffers_def upt_frames createBuffer_ok
              mapMemory_ok mapMemory_fail Let_def destroyUniformBuffers_def destroyBuffer_def
              log_call_def length_resize unat_frames upt_0_2 eval_nat_numeral)
      next
        case True
        then have "vkResult d (length (calls d) + 3) = VK_SUCCESS"
          by (simp add: eval_nat_numeral)
        with c1 c2 c3 c3' True show ?thesis
          by (simp add: createUniformBuffers_def upt_frames createBuffer_ok
              mapMemory_ok Let_def length_resize unat_frames upt_0_2 eval_nat_numeral)
      qed
    qed
  qed
qed

text \<open>
  C2, as the code has it. \<open>AllocatorManager::createBuffer\<close> throws when the buffer handle
  cannot be created, and so do \<open>createDescriptorSetLayout\<close> and \<open>createDescriptorPool\<close> for
  their handles. \<open>createVertexBuffer\<close>, \<open>createIndexBuffer\<close> and \<open>createUniformBuffers\<close>
  never throw: they catch the \<open>std::runtime_error\<close> of a failed buffer creation or memory
  mapping (and of a null command pool) and return \<open>false\<close>; they return \<open>true\<close> exactly
  when every one of these steps succeeded. Before returning \<open>false\<close> they destroy the
  buffers they have created so far, and nothing else: the calls each of them makes are
  listed for every way it can end. \<open>createUniformBuffers\<close> keeps in its vectors every
  handle and mapped pointer it has obtained, also those of the buffers it has just
  destroyed.
\<close>

theorem buffer_creation_failure_returns_false:
  "fst (createBuffer sz usage memoryUsage out d) =
     (if vkResult d (length (calls d)) \<noteq> VK_SUCCESS
      then Thrown (RuntimeError ''Failed to create buffer!'') else Returned ())
   \<and> fst (createVertexBuffer bm d) =
       Returned (vkResult d (length (calls d)) = VK_SUCCESS
               \<and> vkResult d (length (calls d) + 1) = VK_SUCCESS
               \<and> vkResult d (length (calls d) + 4) = VK_SUCCESS
               \<and> bm_commandPool bm \<noteq> VK_NULL_HANDLE)
   \<and> fst (createIndexBuffer bm d) =
       Returned (vkResult d (length (calls d)) = VK_SUCCESS
               \<and> vkResult d (length (calls d) + 1) = VK_SUCCESS
               \<and> vkResult d (length (calls d) + 4) = VK_SUCCESS
               \<and> bm_commandPool bm \<noteq> VK_NULL_HANDLE)
   \<and> fst (createUniformBuffers bm d) =
       Returned (vkResult d (length (calls d)) = VK_SUCCESS
               \<and> vkResult d (length (calls d) + 1) = VK_SUCCESS
               \<and> vkResult d (length (calls d) + 2) = VK_SUCCESS
               \<and> vkResult d (length (calls d) + 3) = VK_SUCCESS)
   \<and> fst (createDescriptorSetLayout dm d) =
       (if vkResult d (length (calls d)) \<noteq> VK_SUCCESS
        then Thrown (RuntimeError ''failed to create descriptor set layout!'') else Returned ())
   \<and> fst (createDescriptorPool dm d) =
       (if vkResult d (length (calls d)) \<noteq> VK_SUCCESS
        then Thrown (RuntimeError ''Failed to create descriptor pool!'') else Returned ())
   \<and> calls (snd (snd (createVertexBuffer bm d))) =
       calls d @
       [VmaCreateBuffer (28 * of_nat (length (vertices bm)))
          VK_BUFFER_USAGE_TRANSFER_SRC_BIT VMA_MEMORY_USAGE_CPU_ONLY] @
       (if vkResult d (length (calls d)) \<noteq> VK_SUCCESS then []
        else VmaMapMemory (nextHandle d + 1) #
         (if vkResult d (length (calls d) + 1) \<noteq> VK_SUCCESS
          then [VmaDestroyBuffer (nextHandle d + 1) (nextHandle d + 1)]
          else [Memcpy (nextHandle d + 2) (VertexData (vertices bm)),
                VmaUnmapMemory (nextHandle d + 1),
                VmaCreateBuffer (28 * of_nat (length (vertices bm)))
                  (VK_BUFFER_USAGE_TRANSFER_DST_BIT OR VK_BUFFER_USAGE_VERTEX_BUFFER_BIT)
                  VMA_MEMORY_USAGE_GPU_ONLY] @
           (if vkResult d (length (calls d) + 4) \<noteq> VK_SUCCESS
            then [VmaDestroyBuffer (nextHandle d + 1) (nextHandle d + 1)]
            else if bm_commandPool bm = VK_NULL_HANDLE
            then [VmaDestroyBuffer (nextHandle d + 1) (nextHandle d + 1),
                  VmaDestroyBuffer (nextHandle d + 3) (nextHandle d + 3)]
            else [VkAllocateCommandBuffers (bm_commandPool bm) 1,
                  VkBeginCommandBuffer (nextHandle d + 4)
                    VK_COMMAND_BUFFER_USAGE_ONE_TIME_SUBMIT_BIT,
                  VkCmdCopyBuffer (nextHandle d + 4) (nextHandle d + 1) (nextHandle d + 3)
                    (28 * of_nat (length (vertices bm))),
                  VkEndCommandBuffer (nextHandle d + 4),
                  VkQueueSubmit (nextHandle d + 4) VK_NULL_HANDLE,
                  VkQueueWaitIdle,
                  VkFreeCommandBuffers (bm_commandPool bm) (nextHandle d + 4),
                  VmaDestroyBuffer (nextHandle d + 1) (nextHandle d + 1)])))
   \<and> calls (snd (snd (createIndexBuffer bm d))) =
       calls d @
       [VmaCreateBuffer (2 * of_nat (length (indices bm)))
          VK_BUFFER_USAGE_TRANSFER_SRC_BIT VMA_MEMORY_USAGE_CPU_ONLY] @
       (if vkResult d (length (calls d)) \<noteq> VK_SUCCESS then []
        else VmaMapMemory (nextHandle d + 1) #
         (if vkResult d (length (calls d) + 1) \<noteq> VK_SUCCESS
          then [VmaDestroyBuffer (nextHandle d + 1) (nextHandle d + 1)]
          else [Memcpy (nextHandle d + 2) (IndexData (indices bm)),
                VmaUnmapMemory (nextHandle d + 1),
                VmaCreateBuffer (2 * of_nat (length (indices bm)))
                  (VK_BUFFER_USAGE_TRANSFER_DST_BIT OR VK_BUFFER_USAGE_INDEX_BUFFER_BIT)
                  VMA_MEMORY_USAGE_GPU_ONLY] @
           (if vkResult d (length (calls d) + 4) \<noteq> VK_SUCCESS
            then [VmaDestroyBuffer (nextHandle d + 1) (nextHandle d + 1)]
            else if bm_commandPool bm = VK_NULL_HANDLE
            then [VmaDestroyBuffer (nextHandle d + 1) (nextHandle d + 1),
                  VmaDestroyBuffer (nextHandle d + 3) (nextHandle d + 3)]
            else [VkAllocateCommandBuffers (bm_commandPool bm) 1,
                  VkBeginCommandBuffer (nextHandle d + 4)
                    VK_COMMAND_BUFFER_USAGE_ONE_TIME_SUBMIT_BIT,
                  VkCmdCopyBuffer (nextHandle d + 4) (nextHandle d + 1) (nextHandle d + 3)
                    (2 * of_nat (length (indices bm))),
                  VkEndCommandBuffer (nextHandle d + 4),
                  VkQueueSubmit (nextHandle d + 4) VK_NULL_HANDLE,
                  VkQueueWaitIdle,
                  VkFreeCommandBuffers (bm_commandPool bm) (nextHandle d + 4),
                  VmaDestroyBuffer (nextHandle d + 1) (nextHandle d + 1)])))
   \<and> calls (snd (snd (createUniformBuffers bm d))) =
       calls d @
       [VmaCreateBuffer 192 VK_BUFFER_USAGE_UNIFORM_BUFFER_BIT VMA_MEMORY_USAGE_CPU_TO_GPU] @
       (if vkResult d (length (calls d)) \<noteq> VK_SUCCESS then []
        else VmaMapMemory (nextHandle d + 1) #
         (if vkResult d (length (calls d) + 1) \<noteq> VK_SUCCESS
          then [VmaDestroyBuffer (nextHandle d + 1) (nextHandle d + 1)]
          else VmaCreateBuffer 192 VK_BUFFER_USAGE_UNIFORM_BUFFER_BIT
                 VMA_MEMORY_USAGE_CPU_TO_GPU #
           (if vkResult d (length (calls d) + 2) \<noteq> VK_SUCCESS
            then [VmaDestroyBuffer (nextHandle d + 1) (nextHandle d + 1)]
            else VmaMapMemory (nextHandle d + 3) #
             (if vkResult d (length (calls d) + 3) \<noteq> VK_SUCCESS
              then [VmaDestroyBuffer (nextHandle d + 1) (nextHandle d + 1),
                    VmaDestroyBuffer (nextHandle d + 3) (nextHandle d + 3)]
              else []))))
   \<and> (vkResult d (length (calls d)) = VK_SUCCESS \<longrightarrow>
        uniformBuffers (fst (snd (createUniformBuffers bm d))) ! 0 = nextHandle d + 1
      \<and> uniformBuffersMemory (fst (snd (createUniformBuffers bm d))) ! 0 = nextHandle d + 1)
   \<and> (vkResult d (length (calls d)) = VK_SUCCESS
      \<and> vkResult d (length (calls d) + 1) = VK_SUCCESS \<longrightarrow>
        uniformBuffersMapped (fst (snd (createUniformBuffers bm d))) ! 0 = nextHandle d + 2)
   \<and> (vkResult d (length (calls d)) = VK_SUCCESS
      \<and> vkResult d (length (calls d) + 1) = VK_SUCCESS
      \<and> vkResult d (length (calls d) + 2) = VK_SUCCESS \<longrightarrow>
        uniformBuffers (fst (snd (createUniformBuffers bm d))) ! 1 = nextHandle d + 3
      \<and> uniformBuffersMemory (fst (snd (createUniformBuffers bm d))) ! 1 = nextHandle d + 3)"
proof -
  have a: "fst (createBuffer sz usage memoryUsage out d) =
     (if vkResult d (length (calls d)) \<noteq> VK_SUCCESS
      then Thrown (RuntimeError ''Failed to create buffer!'') else Returned ())"
    by (simp add: createBuffer_def vk_def)
  have e: "fst (createDescriptorSetLayout dm d) =
       (if vkResult d (length (calls d)) \<noteq> VK_SUCCESS
        then Thrown (RuntimeError ''failed to create descriptor set layout!'') else Returned ())"
    by (simp add: createDescriptorSetLayout_def vk_def Let_def)
  have f: "fst (createDescriptorPool dm d) =
       (if vkResult d (length (calls d)) \<noteq> VK_SUCCESS
        then Thrown (RuntimeError ''Failed to create descriptor pool!'') else Returned ())"
    by (simp add: createDescriptorPool_def vkCreateDescriptorPool_def vk_def Let_def)
  from a createVertexBuffer_result [of bm d] createIndexBuffer_result [of bm d]
    createUniformBuffers_result [of bm d] e f
    createVertexBuffer_calls [of bm d] createIndexBuffer_calls [of bm d]
    createUniformBuffers_effect [of bm d]
  show ?thesis
    by blast
qed

theorem buffer_creation_failure_returns_false_witness:
  "fst (createVertexBuffer (example_raw \<lparr> vertices := example_vertices, bm_commandPool := 5 \<rparr>)
          (example_driver (\<lambda>k. 0))) = Returned True
   \<and> fst (createVertexBuffer (example_raw \<lparr> vertices := example_vertices, bm_commandPool := 5 \<rparr>)
          (example_driver (\<lambda>k. if k = 4 then - 2 else 0))) = Returned False
   \<and> fst (createDescriptorPool
            \<lparr> descriptorSetLayout = 21, descriptorPool = 0, descriptorSets = [] \<rparr>
            (example_driver (\<lambda>k. - 1))) = Thrown (RuntimeError ''Failed to create descriptor pool!'')
   \<and> calls (snd (snd (createVertexBuffer
                         (example_raw \<lparr> vertices := example_vertices, bm_commandPool := 5 \<rparr>)
                         (example_driver (\<lambda>k. if k = 4 then - 2 else 0))))) =
       [VmaCreateBuffer 84 1 2, VmaMapMemory 21, Memcpy 22 (VertexData example_vertices),
        VmaUnmapMemory 21, VmaCreateBuffer 84 130 1, VmaDestroyBuffer 21 21]
   \<and> fst (createUniformBuffers
            (example_raw \<lparr> vertices := example_vertices, bm_commandPool := 5 \<rparr>)
            (example_driver (\<lambda>k. if k = 3 then - 2 else 0))) = Returned False
   \<and> calls (snd (snd (createUniformBuffers
                         (example_raw \<lparr> vertices := example_vertices, bm_commandPool := 5 \<rparr>)
                         (example_driver (\<lambda>k. if k = 3 then - 2 else 0))))) =
       [VmaCreateBuffer 192 16 3, VmaMapMemory 21, VmaCreateBuffer 192 16 3, VmaMapMemory 23,
        VmaDestroyBuffer 21 21, VmaDestroyBuffer 23 23]
   \<and> uniformBuffers (fst (snd (createUniformBuffers
                         (example_raw \<lparr> vertices := example_vertices, bm_commandPool := 5 \<rparr>)
                         (example_driver (\<lambda>k. if k = 3 then - 2 else 0))))) ! 0 = 21
   \<and> uniformBuffers (fst (snd (createUniformBuffers
                         (example_raw \<lparr> vertices := example_vertices, bm_commandPool := 5 \<rparr>)
                         (example_driver (\<lambda>k. if k = 3 then - 2 else 0))))) ! 1 = 23
   \<and> uniformBuffersMapped (fst (snd (createUniformBuffers
                         (example_raw \<lparr> vertices := example_vertices, bm_commandPool := 5 \<rparr>)
                         (example_driver (\<lambda>k. if k = 3 then - 2 else 0))))) ! 0 = 22"
  using buffer_creation_failure_returns_false
          [of 0 0 0 "(0, 0)" "example_driver (\<lambda>k. 0)"
              "example_raw \<lparr> vertices := example_vertices, bm_commandPool := 5 \<rparr>"
              "\<lparr> descriptorSetLayout = 21, descriptorPool = 0, descriptorSets = [] \<rparr>"]
        buffer_creation_failure_returns_false
          [of 0 0 0 "(0, 0)" "example_driver (\<lambda>k. if k = 4 then - 2 else 0)"
              "example_raw \<lparr> vertices := example_vertices, bm_commandPool := 5 \<rparr>"
              "\<lparr> descriptorSetLayout = 21, descriptorPool = 0, descriptorSets = [] \<rparr>"]
        buffer_creation_failure_returns_false
          [of 0 0 0 "(0, 0)" "example_driver (\<lambda>k. if k = 3 then - 2 else 0)"
              "example_raw \<lparr> vertices := example_vertices, bm_commandPool := 5 \<rparr>"
              "\<lparr> descriptorSetLayout = 21, descriptorPool = 0, descriptorSets = [] \<rparr>"]
        buffer_creation_failure_returns_false
          [of 0 0 0 "(0, 0)" "example_driver (\<lambda>k. - 1)"
              "example_raw \<lparr> vertices := example_vertices, bm_commandPool := 5 \<rparr>"
              "\<lparr> descriptorSetLayout = 21, descriptorPool = 0, descriptorSets = [] \<rparr>"]
  by (simp add: example_driver_def example_raw_def example_vertices_def VK_SUCCESS_def
        VK_NULL_HANDLE_def VK_BUFFER_USAGE_TRANSFER_SRC_BIT_def VK_BUFFER_USAGE_TRANSFER_DST_BIT_def
        VK_BUFFER_USAGE_VERTEX_BUFFER_BIT_def VK_BUFFER_USAGE_UNIFORM_BUFFER_BIT_def
        VMA_MEMORY_USAGE_CPU_ONLY_def VMA_MEMORY_USAGE_GPU_ONLY_def
        VMA_MEMORY_USAGE_CPU_TO_GPU_def)

text \<open>
  C2, as the claim has it: a failed buffer-handle creation is surfaced by throwing. With a
  driver that fails every call, the three creating operations return \<open>false\<close> instead, and
  the constructor of BufferManager, which drops the three results, returns normally.
\<close>

theorem buffer_creation_failure_not_thrown:
  "fst (createVertexBuffer (example_raw \<lparr> vertices := example_vertices, bm_commandPool := 5 \<rparr>)
          (example_driver (\<lambda>k. - 1))) = Returned False
   \<and> fst (createIndexBuffer (example_raw \<lparr> indices := [0, 1, 2], bm_commandPool := 5 \<rparr>)
          (example_driver (\<lambda>k. - 1))) = Returned False
   \<and> fst (createUniformBuffers (example_raw \<lparr> bm_commandPool := 5 \<rparr>)
          (example_driver (\<lambda>k. - 1))) = Returned False
   \<and> fst (BufferManager_ctor example_vertices [0, 1, 2] 5 example_raw
          (example_driver (\<lambda>k. - 1))) = Returned ()"
  by (simp add: createVertexBuffer_result createIndexBuffer_result createUniformBuffers_result
        BufferManager_ctor_returns example_driver_def VK_SUCCESS_def)

section \<open>Properties of the texture upload\<close>

lemma beginSingleTimeCommands_eq:
  "tm_commandPool tm \<noteq> VK_NULL_HANDLE \<Longrightarrow>
   beginSingleTimeCommands tm d =
     (Returned (Suc (nextHandle d)),
      d \<lparr> calls := calls d @
             [VkAllocateCommandBuffers (tm_commandPool tm) 1,
              VkBeginCommandBuffer (Suc (nextHandle d))
                VK_COMMAND_BUFFER_USAGE_ONE_TIME_SUBMIT_BIT],
          nextHandle := Suc (nextHandle d) \<rparr>)"
  by (simp add: beginSingleTimeCommands_def allocateCommandBuffer_def getCommandPool_def
        vk_def log_call_def)

lemma beginSingleTimeCommands_null:
  "tm_commandPool tm = VK_NULL_HANDLE \<Longrightarrow>
   beginSingleTimeCommands tm d = (Thrown (RuntimeError ''Command pool is not initialized.''), d)"
  by (simp add: beginSingleTimeCommands_def allocateCommandBuffer_def getCommandPool_def)

lemma endSingleTimeCommands_eq:
  "tm_commandPool tm \<noteq> VK_NULL_HANDLE \<Longrightarrow>
   endSingleTimeCommands commandBuffer tm d =
     (Returned (),
      d \<lparr> calls := calls d @
             [VkEndCommandBuffer commandBuffer,
              VkQueueSubmit commandBuffer VK_NULL_HANDLE,
              VkQueueWaitIdle,
              VkFreeCommandBuffers (tm_commandPool tm) commandBuffer] \<rparr>)"
  by (simp add: endSingleTimeCommands_def submitSingleTimeCommandBuffer_def getCommandPool_def
        log_call_def Let_def)

lemma transition_to_transfer_dst:
  "tm_commandPool tm \<noteq> VK_NULL_HANDLE \<Longrightarrow>
   transitionImageLayout img VK_FORMAT_R8G8B8A8_SRGB VK_IMAGE_LAYOUT_UNDEFINED
       VK_IMAGE_LAYOUT_TRANSFER_DST_OPTIMAL tm d =
     (Returned (),
      d \<lparr> calls := calls d @
             [VkAllocateCommandBuffers (tm_commandPool tm) 1,
              VkBeginCommandBuffer (Suc (nextHandle d))
                VK_COMMAND_BUFFER_USAGE_ONE_TIME_SUBMIT_BIT,
              VkCmdPipelineBarrier (Suc (nextHandle d))
                VK_PIPELINE_STAGE_TOP_OF_PIPE_BIT VK_PIPELINE_STAGE_TRANSFER_BIT
                \<lparr> imb_oldLayout = VK_IMAGE_LAYOUT_UNDEFINED,
                  imb_newLayout = VK_IMAGE_LAYOUT_TRANSFER_DST_OPTIMAL,
                  imb_image = img, imb_aspectMask = VK_IMAGE_ASPECT_COLOR_BIT,
                  imb_srcAccessMask = 0, imb_dstAccessMask = VK_ACCESS_TRANSFER_WRITE_BIT \<rparr>,
              VkEndCommandBuffer (Suc (nextHandle d)),
              VkQueueSubmit (Suc (nextHandle d)) VK_NULL_HANDLE,
              VkQueueWaitIdle,
              VkFreeCommandBuffers (tm_commandPool tm) (Suc (nextHandle d))],
          nextHandle := Suc (nextHandle d) \<rparr>)"
  by (simp add: transitionImageLayout_def beginSingleTimeCommands_eq endSingleTimeCommands_eq
        createImageMemoryBarrier_def log_call_def Let_def
        VK_FORMAT_R8G8B8A8_SRGB_def VK_FORMAT_D32_SFLOAT_def VK_FORMAT_D32_SFLOAT_S8_UINT_def)

lemma transition_to_shader_read:
  "tm_commandPool tm \<noteq> VK_NULL_HANDLE \<Longrightarrow>
   transitionImageLayout img VK_FORMAT_R8G8B8A8_SRGB VK_IMAGE_LAYOUT_TRANSFER_DST_OPTIMAL
       VK_IMAGE_LAYOUT_SHADER_READ_ONLY_OPTIMAL tm d =
     (Returned (),
      d \<lparr> calls := calls d @
             [VkAllocateCommandBuffers (tm_commandPool tm) 1,
              VkBeginCommandBuffer (Suc (nextHandle d))
                VK_COMMAND_BUFFER_USAGE_ONE_TIME_SUBMIT_BIT,
              VkCmdPipelineBarrier (Suc (nextHandle d))
                VK_PIPELINE_STAGE_TRANSFER_BIT VK_PIPELINE_STAGE_FRAGMENT_SHADER_BIT
                \<lparr> imb_oldLayout = VK_IMAGE_LAYOUT_TRANSFER_DST_OPTIMAL,
                  imb_newLayout = VK_IMAGE_LAYOUT_SHADER_READ_ONLY_OPTIMAL,
                  imb_image = img, imb_aspectMask = VK_IMAGE_ASPECT_COLOR_BIT,
                  imb_srcAccessMask = VK_ACCESS_TRANSFER_WRITE_BIT,
                  imb_dstAccessMask = VK_ACCESS_SHADER_READ_BIT \<rparr>,
              VkEndCommandBuffer (Suc (nextHandle d)),
              VkQueueSubmit (Suc (nextHandle d)) VK_NULL_HANDLE,
              VkQueueWaitIdle,
              VkFreeCommandBuffers (tm_commandPool tm) (Suc (nextHandle d))],
          nextHandle := Suc (nextHandle d) \<rparr>)"
  by (simp add: transitionImageLayout_def beginSingleTimeCommands_eq endSingleTimeCommands_eq
        createImageMemoryBarrier_def log_call_def Let_def
        VK_FORMAT_R8G8B8A8_SRGB_def VK_FORMAT_D32_SFLOAT_def VK_FORMAT_D32_SFLOAT_S8_UINT_def
        VK_IMAGE_LAYOUT_UNDEFINED_def VK_IMAGE_LAYOUT_TRANSFER_DST_OPTIMAL_def
        VK_IMAGE_LAYOUT_SHADER_READ_ONLY_OPTIMAL_def)

lemma transition_null_pool:
  "tm_commandPool tm = VK_NULL_HANDLE \<Longrightarrow>
   transitionImageLayout img fmt oldLayout newLayout tm d =
     (Thrown (RuntimeError ''Command pool is not initialized.''), d)"
  by (simp add: transitionImageLayout_def beginSingleTimeCommands_null)

lemma copyBufferToImage_eq:
  "tm_commandPool tm \<noteq> VK_NULL_HANDLE \<Longrightarrow>
   copyBufferToImage buffer img w h tm d =
     (Returned (),
      d \<lparr> calls := calls d @
             [VkAllocateCommandBuffers (tm_commandPool tm) 1,
              VkBeginCommandBuffer (Suc (nextHandle d))
                VK_COMMAND_BUFFER_USAGE_ONE_TIME_SUBMIT_BIT,
              VkCmdCopyBufferToImage (Suc (nextHandle d)) buffer img
                VK_IMAGE_LAYOUT_TRANSFER_DST_OPTIMAL w h,
              VkEndCommandBuffer (Suc (nextHandle d)),
              VkQueueSubmit (Suc (nextHandle d)) VK_NULL_HANDLE,
              VkQueueWaitIdle,
              VkFreeCommandBuffers (tm_commandPool tm) (Suc (nextHandle d))],
          nextHandle := Suc (nextHandle d) \<rparr>)"
  by (simp add: copyBufferToImage_def beginSingleTimeCommands_eq endSingleTimeCommands_eq
        log_call_def)

lemma createImage_fail:
  "vkResult d (length (calls d)) \<noteq> VK_SUCCESS \<Longrightarrow>
   \<exists>e d'. createImage w h fmt tiling usage memoryUsage out d = (Thrown e, out, d')"
  by (simp add: createImage_def vk_def Let_def)

lemma createImage_ok:
  "vkResult d (length (calls d)) = VK_SUCCESS \<Longrightarrow>
   createImage w h fmt tiling usage memoryUsage out d =
     (Returned (), (Suc (nextHandle d), Suc (nextHandle d)),
      d \<lparr> calls := calls d @
             [VmaCreateImage
                \<lparr> ici_width = w, ici_height = h, ici_depth = 1,
                  ici_mipLevels = 1, ici_arrayLayers = 1,
                  ici_format = fmt, ici_tiling = tiling,
                  ici_initialLayout = VK_IMAGE_LAYOUT_UNDEFINED,
                  ici_usage = usage,
                  ici_samples = VK_SAMPLE_COUNT_1_BIT,
                  ici_sharingMode = VK_SHARING_MODE_EXCLUSIVE \<rparr> memoryUsage],
          nextHandle := Suc (nextHandle d) \<rparr>)"
  by (simp add: createImage_def vk_def Let_def)

lemma createTextureImage_upload_facts:
  assumes "textureImage tm = VK_NULL_HANDLE \<or> textureImageMemory tm = VK_NULL_HANDLE"
    and "fst (createTextureImage tm d) = Returned ()"
  shows "\<not> textureMutex tm \<and> imagePath tm \<noteq> []
       \<and> (\<exists>texWidth texHeight pixels.
             stbi_load d (imagePath tm) = (texWidth, texHeight, Some pixels)
           \<and> \<not> int_overflow (sint texWidth * sint texHeight)
           \<and> \<not> int_overflow (sint texWidth * sint texHeight * 4)
           \<and> unat (word_of_int (sint texWidth * sint texHeight * 4) :: VkDeviceSize)
                 \<le> length pixels)
       \<and> vkResult d (length (calls d)) = VK_SUCCESS
       \<and> vkResult d (length (calls d) + 1) = VK_SUCCESS
       \<and> vkResult d (length (calls d) + 4) = VK_SUCCESS
       \<and> tm_commandPool tm \<noteq> VK_NULL_HANDLE"
proof -
  have guard: "\<not> (textureImage tm \<noteq> VK_NULL_HANDLE \<and> textureImageMemory tm \<noteq> VK_NULL_HANDLE)"
    using assms(1) by auto
  have unlocked: "\<not> textureMutex tm"
    using assms(2) by (auto simp: createTextureImage_def)
  note unguarded = createTextureImage_def guard unlocked
  have path: "imagePath tm \<noteq> []"
    using assms(2) by (auto simp: unguarded)
  obtain texWidth texHeight loaded
    where load0: "stbi_load d (imagePath tm) = (texWidth, texHeight, loaded)"
    by (cases "stbi_load d (imagePath tm)") auto
  have range: "\<not> (int_overflow (sint texWidth * sint texHeight)
                    \<or> int_overflow (sint texWidth * sint texHeight * 4))"
  proof
    assume "int_overflow (sint texWidth * sint texHeight)
              \<or> int_overflow (sint texWidth * sint texHeight * 4)"
    with assms(2) path load0 show False
      by (simp add: unguarded)
  qed
  obtain pixels where loaded: "loaded = Some pixels"
    using assms(2) path load0 range by (cases loaded) (auto simp: unguarded)
  note load = load0 [unfolded loaded]
  have c1: "vkResult d (length (calls d)) = VK_SUCCESS"
  proof (rule ccontr)
    assume "vkResult d (length (calls d)) \<noteq> VK_SUCCESS"
    with assms(2) path load range show False
      by (simp add: unguarded createBuffer_fail)
  qed
  have c2: "vkResult d (Suc (length (calls d))) = VK_SUCCESS"
  proof (rule ccontr)
    assume "vkResult d (Suc (length (calls d))) \<noteq> VK_SUCCESS"
    with assms(2) path load range c1 show False
      by (simp add: unguarded createBuffer_ok vk_def)
  qed
  have fits: "\<not> unat (word_of_int (sint texWidth * sint texHeight * 4) :: VkDeviceSize)
                  > length pixels"
  proof
    assume "unat (word_of_int (sint texWidth * sint texHeight * 4) :: VkDeviceSize)
              > length pixels"
    with assms(2) path load range c1 c2 show False
      by (simp add: unguarded createBuffer_ok vk_def)
  qed
  have c3: "vkResult d (Suc (Suc (Suc (Suc (length (calls d)))))) = VK_SUCCESS"
  proof (rule ccontr)
    assume f: "vkResult d (Suc (Suc (Suc (Suc (length (calls d)))))) \<noteq> VK_SUCCESS"
    with assms(2) path load range c1 c2 fits show False
      by (simp add: unguarded createBuffer_ok vk_def memcpy_def log_call_def
            createImage_def Let_def)
  qed
  have pool: "tm_commandPool tm \<noteq> VK_NULL_HANDLE"
  proof (rule ccontr)
    assume "\<not> tm_commandPool tm \<noteq> VK_NULL_HANDLE"
    with assms(2) path load range c1 c2 fits c3 show False
      by (simp add: unguarded createBuffer_ok vk_def memcpy_def log_call_def
            createImage_ok transition_null_pool Let_def)
  qed
  have c3': "vkResult d (length (calls d) + 4) = VK_SUCCESS"
    using c3 by (simp add: eval_nat_numeral)
  show ?thesis
    using unlocked path load range fits c1 c2 c3' pool by simp
qed

lemma createTextureImage_upload_returns:
  assumes "textureImage tm = VK_NULL_HANDLE \<or> textureImageMemory tm = VK_NULL_HANDLE"
    and "\<not> textureMutex tm" and "imagePath tm \<noteq> []"
    and "stbi_load d (imagePath tm) = (texWidth, texHeight, Some pixels)"
    and "\<not> int_overflow (sint texWidth * sint texHeight)"
    and "\<not> int_overflow (sint texWidth * sint texHeight * 4)"
    and "unat (word_of_int (sint texWidth * sint texHeight * 4) :: VkDeviceSize) \<le> length pixels"
    and "vkResult d (length (calls d)) = VK_SUCCESS"
    and "vkResult d (length (calls d) + 1) = VK_SUCCESS"
    and "vkResult d (length (calls d) + 4) = VK_SUCCESS"
    and "tm_commandPool tm \<noteq> VK_NULL_HANDLE"
  shows "fst (createTextureImage tm d) = Returned ()"
proof -
  have guard: "\<not> (textureImage tm \<noteq> VK_NULL_HANDLE \<and> textureImageMemory tm \<noteq> VK_NULL_HANDLE)"
    using assms(1) by auto
  have c3: "vkResult d (Suc (Suc (Suc (Suc (length (calls d)))))) = VK_SUCCESS"
    using assms(10) by (simp add: eval_nat_numeral)
  show ?thesis
    using assms(2-9) c3 assms(11)
    by (simp add: createTextureImage_def guard createBuffer_ok vk_def memcpy_def log_call_def
          createImage_ok transition_to_transfer_dst transition_to_shader_read
          copyBufferToImage_eq Let_def)
qed

text \<open>
  When \<open>createTextureImage\<close> returns: exactly when the mutex is free and either the image
  exists already, or the path is not empty, the size stays within \<open>int\<close>, pixels were
  loaded and are as many as the size says, the staging buffer, its mapping and the image
  are created, and the command pool exists.
\<close>

lemma createTextureImage_returns_iff:
  "fst (createTextureImage tm d) = Returned () \<longleftrightarrow>
     \<not> textureMutex tm
     \<and> (textureImage tm \<noteq> VK_NULL_HANDLE \<and> textureImageMemory tm \<noteq> VK_NULL_HANDLE
        \<or> imagePath tm \<noteq> []
          \<and> (\<exists>texWidth texHeight pixels.
                stbi_load d (imagePath tm) = (texWidth, texHeight, Some pixels)
              \<and> \<not> int_overflow (sint texWidth * sint texHeight)
              \<and> \<not> int_overflow (sint texWidth * sint texHeight * 4)
              \<and> unat (word_of_int (sint texWidth * sint texHeight * 4) :: VkDeviceSize)
                    \<le> length pixels)
          \<and> vkResult d (length (calls d)) = VK_SUCCESS
          \<and> vkResult d (length (calls d) + 1) = VK_SUCCESS
          \<and> vkResult d (length (calls d) + 4) = VK_SUCCESS
          \<and> tm_commandPool tm \<noteq> VK_NULL_HANDLE)"
proof (cases "textureMutex tm")
  case True
  then show ?thesis by (simp add: createTextureImage_def)
next
  case unlocked: False
  show ?thesis
  proof (cases "textureImage tm \<noteq> VK_NULL_HANDLE \<and> textureImageMemory tm \<noteq> VK_NULL_HANDLE")
    case True
    with unlocked show ?thesis by (simp add: createTextureImage_def)
  next
    case False
    then have fresh: "textureImage tm = VK_NULL_HANDLE \<or> textureImageMemory tm = VK_NULL_HANDLE"
      by auto
    show ?thesis
    proof
      assume "fst (createTextureImage tm d) = Returned ()"
      from createTextureImage_upload_facts [OF fresh this] show
        "\<not> textureMutex tm
         \<and> (textureImage tm \<noteq> VK_NULL_HANDLE \<and> textureImageMemory tm \<noteq> VK_NULL_HANDLE
            \<or> imagePath tm \<noteq> []
              \<and> (\<exists>texWidth texHeight pixels.
                    stbi_load d (imagePath tm) = (texWidth, texHeight, Some pixels)
                  \<and> \<not> int_overflow (sint texWidth * sint texHeight)
                  \<and> \<not> int_overflow (sint texWidth * sint texHeight * 4)
                  \<and> unat (word_of_int (sint texWidth * sint texHeight * 4) :: VkDeviceSize)
                        \<le> length pixels)
              \<and> vkResult d (length (calls d)) = VK_SUCCESS
              \<and> vkResult d (length (calls d) + 1) = VK_SUCCESS
              \<and> vkResult d (length (calls d) + 4) = VK_SUCCESS
              \<and> tm_commandPool tm \<noteq> VK_NULL_HANDLE)"
        by blast
    next
      assume "\<not> textureMutex tm
         \<and> (textureImage tm \<noteq> VK_NULL_HANDLE \<and> textureImageMemory tm \<noteq> VK_NULL_HANDLE
            \<or> imagePath tm \<noteq> []
              \<and> (\<exists>texWidth texHeight pixels.
                    stbi_load d (imagePath tm) = (texWidth, texHeight, Some pixels)
                  \<and> \<not> int_overflow (sint texWidth * sint texHeight)
                  \<and> \<not> int_overflow (sint texWidth * sint texHeight * 4)
                  \<and> unat (word_of_int (sint texWidth * sint texHeight * 4) :: VkDeviceSize)
                        \<le> length pixels)
              \<and> vkResult d (length (calls d)) = VK_SUCCESS
              \<and> vkResult d (length (calls d) + 1) = VK_SUCCESS
              \<and> vkResult d (length (calls d) + 4) = VK_SUCCESS
              \<and> tm_commandPool tm \<noteq> VK_NULL_HANDLE)"
      with False show "fst (createTextureImage tm d) = Returned ()"
        using createTextureImage_upload_returns [OF fresh] by blast
    qed
  qed
qed

text \<open>
  C7. Every call of \<open>createTextureImage\<close> that is not skipped because the image already
  exists, and that returns, has made exactly these calls, in this order: the creation of a
  staging buffer of \<open>width * height * 4\<close> bytes (a product within the range of \<open>int\<close>,
  and no more than the pixel bytes loaded) as a transfer source in host-visible memory;
  the mapping of its memory, the copy of the pixels to the mapped pointer, and the
  unmapping; the creation of the image in device-local memory; a single-use command
  buffer with the barrier from UNDEFINED to TRANSFER_DST; a single-use command buffer with
  the copy of the staging buffer into the image; a single-use command buffer with the
  barrier from TRANSFER_DST to SHADER_READ_ONLY; and last the destruction of the staging
  buffer.
\<close>

theorem createTextureImage_staging_protocol:
  assumes "textureImage tm = VK_NULL_HANDLE \<or> textureImageMemory tm = VK_NULL_HANDLE"
    and "fst (createTextureImage tm d) = Returned ()"
  shows "\<exists>texWidth texHeight pixels.
           stbi_load d (imagePath tm) = (texWidth, texHeight, Some pixels)
         \<and> \<not> int_overflow (sint texWidth * sint texHeight * 4)
         \<and> unat (word_of_int (sint texWidth * sint texHeight * 4) :: VkDeviceSize)
               \<le> length pixels
         \<and> calls (snd (snd (createTextureImage tm d))) = calls d @
             [VmaCreateBuffer (word_of_int (sint texWidth * sint texHeight * 4))
                VK_BUFFER_USAGE_TRANSFER_SRC_BIT VMA_MEMORY_USAGE_CPU_TO_GPU,
              VmaMapMemory (nextHandle d + 1),
              Memcpy (nextHandle d + 2)
                (PixelData
                   (take (unat (word_of_int (sint texWidth * sint texHeight * 4) :: VkDeviceSize))
                         pixels)),
              VmaUnmapMemory (nextHandle d + 1),
              VmaCreateImage
                \<lparr> ici_width = texWidth, ici_height = texHeight,
                  ici_depth = 1, ici_mipLevels = 1, ici_arrayLayers = 1,
                  ici_format = VK_FORMAT_R8G8B8A8_SRGB, ici_tiling = VK_IMAGE_TILING_OPTIMAL,
                  ici_initialLayout = VK_IMAGE_LAYOUT_UNDEFINED,
                  ici_usage = VK_IMAGE_USAGE_TRANSFER_DST_BIT OR VK_IMAGE_USAGE_SAMPLED_BIT,
                  ici_samples = VK_SAMPLE_COUNT_1_BIT,
                  ici_sharingMode = VK_SHARING_MODE_EXCLUSIVE \<rparr>
                VMA_MEMORY_USAGE_GPU_ONLY,
              VkAllocateCommandBuffers (tm_commandPool tm) 1,
              VkBeginCommandBuffer (nextHandle d + 4) VK_COMMAND_BUFFER_USAGE_ONE_TIME_SUBMIT_BIT,
              VkCmdPipelineBarrier (nextHandle d + 4)
                VK_PIPELINE_STAGE_TOP_OF_PIPE_BIT VK_PIPELINE_STAGE_TRANSFER_BIT
                \<lparr> imb_oldLayout = VK_IMAGE_LAYOUT_UNDEFINED,
                  imb_newLayout = VK_IMAGE_LAYOUT_TRANSFER_DST_OPTIMAL,
                  imb_image = nextHandle d + 3, imb_aspectMask = VK_IMAGE_ASPECT_COLOR_BIT,
                  imb_srcAccessMask = 0, imb_dstAccessMask = VK_ACCESS_TRANSFER_WRITE_BIT \<rparr>,
              VkEndCommandBuffer (nextHandle d + 4),
              VkQueueSubmit (nextHandle d + 4) VK_NULL_HANDLE,
              VkQueueWaitIdle,
              VkFreeCommandBuffers (tm_commandPool tm) (nextHandle d + 4),
              VkAllocateCommandBuffers (tm_commandPool tm) 1,
              VkBeginCommandBuffer (nextHandle d + 5) VK_COMMAND_BUFFER_USAGE_ONE_TIME_SUBMIT_BIT,
              VkCmdCopyBufferToImage (nextHandle d + 5) (nextHandle d + 1) (nextHandle d + 3)
                VK_IMAGE_LAYOUT_TRANSFER_DST_OPTIMAL texWidth texHeight,
              VkEndCommandBuffer (nextHandle d + 5),
              VkQueueSubmit (nextHandle d + 5) VK_NULL_HANDLE,
              VkQueueWaitIdle,
              VkFreeCommandBuffers (tm_commandPool tm) (nextHandle d + 5),
              VkAllocateCommandBuffers (tm_commandPool tm) 1,
              VkBeginCommandBuffer (nextHandle d + 6) VK_COMMAND_BUFFER_USAGE_ONE_TIME_SUBMIT_BIT,
              VkCmdPipelineBarrier (nextHandle d + 6)
                VK_PIPELINE_STAGE_TRANSFER_BIT VK_PIPELINE_STAGE_FRAGMENT_SHADER_BIT
                \<lparr> imb_oldLayout = VK_IMAGE_LAYOUT_TRANSFER_DST_OPTIMAL,
                  imb_newLayout = VK_IMAGE_LAYOUT_SHADER_READ_ONLY_OPTIMAL,
                  imb_image = nextHandle d + 3, imb_aspectMask = VK_IMAGE_ASPECT_COLOR_BIT,
                  imb_srcAccessMask = VK_ACCESS_TRANSFER_WRITE_BIT,
                  imb_dstAccessMask = VK_ACCESS_SHADER_READ_BIT \<rparr>,
              VkEndCommandBuffer (nextHandle d + 6),
              VkQueueSubmit (nextHandle d + 6) VK_NULL_HANDLE,
              VkQueueWaitIdle,
              VkFreeCommandBuffers (tm_commandPool tm) (nextHandle d + 6),
              VmaDestroyBuffer (nextHandle d + 1) (nextHandle d + 1)]"
proof -
  have guard: "\<not> (textureImage tm \<noteq> VK_NULL_HANDLE \<and> textureImageMemory tm \<noteq> VK_NULL_HANDLE)"
    using assms(1) by auto
  from createTextureImage_upload_facts [OF assms]
  obtain texWidth texHeight pixels
    where unlocked: "\<not> textureMutex tm" and path: "imagePath tm \<noteq> []"
      and load: "stbi_load d (imagePath tm) = (texWidth, texHeight, Some pixels)"
      and r1: "\<not> int_overflow (sint texWidth * sint texHeight)"
      and r2: "\<not> int_overflow (sint texWidth * sint texHeight * 4)"
      and fits: "unat (word_of_int (sint texWidth * sint texHeight * 4) :: VkDeviceSize)
                   \<le> length pixels"
      and c1: "vkResult d (length (calls d)) = VK_SUCCESS"
      and c2': "vkResult d (length (calls d) + 1) = VK_SUCCESS"
      and c3': "vkResult d (length (calls d) + 4) = VK_SUCCESS"
      and pool: "tm_commandPool tm \<noteq> VK_NULL_HANDLE"
    by blast
  have c2: "vkResult d (Suc (length (calls d))) = VK_SUCCESS"
    using c2' by simp
  have c3: "vkResult d (Suc (Suc (Suc (Suc (length (calls d)))))) = VK_SUCCESS"
    using c3' by (simp add: eval_nat_numeral)
  note unguarded = createTextureImage_def guard unlocked
  have eqs: "nextHandle d + 1 = Suc (nextHandle d)"
    "nextHandle d + 2 = Suc (Suc (nextHandle d))"
    "nextHandle d + 3 = Suc (Suc (Suc (nextHandle d)))"
    "nextHandle d + 4 = Suc (Suc (Suc (Suc (nextHandle d))))"
    "nextHandle d + 5 = Suc (Suc (Suc (Suc (Suc (nextHandle d)))))"
    "nextHandle d + 6 = Suc (Suc (Suc (Suc (Suc (Suc (nextHandle d))))))"
    by simp_all
  show ?thesis
    unfolding eqs
    using path load r1 r2 c1 c2 fits c3 pool
    by (simp add: unguarded createBuffer_ok vk_def memcpy_def log_call_def
          createImage_ok transition_to_transfer_dst transition_to_shader_read
          copyBufferToImage_eq Let_def)
qed

theorem createTextureImage_staging_protocol_witness:
  "fst (createTextureImage example_texture (example_driver (\<lambda>k. 0))) = Returned ()
   \<and> calls (snd (snd (createTextureImage example_texture (example_driver (\<lambda>k. 0))))) =
       [VmaCreateBuffer 16 1 3,
        VmaMapMemory 21,
        Memcpy 22 (PixelData (replicate 16 255)),
        VmaUnmapMemory 21,
        VmaCreateImage
          \<lparr> ici_width = 2, ici_height = 2, ici_depth = 1, ici_mipLevels = 1,
            ici_arrayLayers = 1, ici_format = 43, ici_tiling = 0, ici_initialLayout = 0,
            ici_usage = 6, ici_samples = 1, ici_sharingMode = 0 \<rparr> 1,
        VkAllocateCommandBuffers 5 1,
        VkBeginCommandBuffer 24 1,
        VkCmdPipelineBarrier 24 1 4096
          \<lparr> imb_oldLayout = 0, imb_newLayout = 7, imb_image = 23, imb_aspectMask = 1,
            imb_srcAccessMask = 0, imb_dstAccessMask = 4096 \<rparr>,
        VkEndCommandBuffer 24,
        VkQueueSubmit 24 0,
        VkQueueWaitIdle,
        VkFreeCommandBuffers 5 24,
        VkAllocateCommandBuffers 5 1,
        VkBeginCommandBuffer 25 1,
        VkCmdCopyBufferToImage 25 21 23 7 2 2,
        VkEndCommandBuffer 25,
        VkQueueSubmit 25 0,
        VkQueueWaitIdle,
        VkFreeCommandBuffers 5 25,
        VkAllocateCommandBuffers 5 1,
        VkBeginCommandBuffer 26 1,
        VkCmdPipelineBarrier 26 4096 128
          \<lparr> imb_oldLayout = 7, imb_newLayout = 5, imb_image = 23, imb_aspectMask = 1,
            imb_srcAccessMask = 4096, imb_dstAccessMask = 32 \<rparr>,
        VkEndCommandBuffer 26,
        VkQueueSubmit 26 0,
        VkQueueWaitIdle,
        VkFreeCommandBuffers 5 26,
        VmaDestroyBuffer 21 21]"
proof -
  have fresh: "textureImage example_texture = VK_NULL_HANDLE
             \<or> textureImageMemory example_texture = VK_NULL_HANDLE"
    by (simp add: example_texture_def VK_NULL_HANDLE_def)
  have pool: "tm_commandPool example_texture \<noteq> VK_NULL_HANDLE"
    by (simp add: example_texture_def VK_NULL_HANDLE_def)
  have pool': "tm_commandPool (example_texture \<lparr> textureImage := a, textureImageMemory := b \<rparr>)
                 \<noteq> VK_NULL_HANDLE" for a b
    by (simp add: example_texture_def VK_NULL_HANDLE_def)
  have returned: "fst (createTextureImage example_texture (example_driver (\<lambda>k. 0))) = Returned ()"
    by (simp add: createTextureImage_def createBuffer_def createImage_def memcpy_def
          transition_to_transfer_dst [OF pool'] transition_to_shader_read [OF pool']
          copyBufferToImage_eq [OF pool'] int_overflow_def run_defs)
       (simp add: example_texture_def)
  from createTextureImage_staging_protocol [OF fresh returned] returned
  show ?thesis
    by (simp add: example_texture_def example_driver_def
          VK_BUFFER_USAGE_TRANSFER_SRC_BIT_def VMA_MEMORY_USAGE_CPU_TO_GPU_def
          VMA_MEMORY_USAGE_GPU_ONLY_def VK_FORMAT_R8G8B8A8_SRGB_def VK_IMAGE_TILING_OPTIMAL_def
          VK_IMAGE_LAYOUT_UNDEFINED_def VK_IMAGE_LAYOUT_TRANSFER_DST_OPTIMAL_def
          VK_IMAGE_LAYOUT_SHADER_READ_ONLY_OPTIMAL_def VK_IMAGE_USAGE_TRANSFER_DST_BIT_def
          VK_IMAGE_USAGE_SAMPLED_BIT_def VK_SAMPLE_COUNT_1_BIT_def VK_SHARING_MODE_EXCLUSIVE_def
          VK_COMMAND_BUFFER_USAGE_ONE_TIME_SUBMIT_BIT_def VK_PIPELINE_STAGE_TOP_OF_PIPE_BIT_def
          VK_PIPELINE_STAGE_TRANSFER_BIT_def VK_PIPELINE_STAGE_FRAGMENT_SHADER_BIT_def
          VK_IMAGE_ASPECT_COLOR_BIT_def VK_ACCESS_TRANSFER_WRITE_BIT_def
          VK_ACCESS_SHADER_READ_BIT_def VK_NULL_HANDLE_def)
qed


section \<open>The mapped pointers after construction\<close>

text \<open>
  Whatever fails on the way, the constructor of BufferManager leaves one mapped pointer
  per frame slot (null where the mapping was not reached): the vector length that
  \<open>updateUniformBuffer\<close> relies on.
\<close>

lemma length_createUniformBuffers_loop:
  "length (uniformBuffersMapped (fst (snd (createUniformBuffers_loop todo bm d))))
     = length (uniformBuffersMapped bm)"
proof (induction todo arbitrary: bm d)
  case Nil
  show ?case by simp
next
  case (Cons i rest)
  show ?case
  proof (cases "vkResult d (length (calls d)) = VK_SUCCESS")
    case False
    then show ?thesis by (simp add: createBuffer_fail)
  next
    case c1: True
    show ?thesis
    proof (cases "vkResult d (Suc (length (calls d))) = VK_SUCCESS")
      case False
      with c1 show ?thesis by (simp add: createBuffer_ok mapMemory_fail Let_def)
    next
      case True
      with c1 show ?thesis by (simp add: createBuffer_ok mapMemory_ok Let_def Cons.IH)
    qed
  qed
qed

lemma length_createUniformBuffers:
  "length (uniformBuffersMapped (fst (snd (createUniformBuffers bm d))))
     = unat MAX_FRAMES_IN_FLIGHT"
  by (simp add: createUniformBuffers_def length_createUniformBuffers_loop)

lemma BufferManager_ctor_mapped_length:
  "length (uniformBuffersMapped (fst (snd (BufferManager_ctor vs is pool raw d))))
     = unat MAX_FRAMES_IN_FLIGHT"
proof -
  define bm where "bm = raw \<lparr> vertices := vs, indices := is, bm_commandPool := pool,
                      uniformBuffers := [], uniformBuffersMapped := [],
                      uniformBuffersMemory := resize (unat MAX_FRAMES_IN_FLIGHT) [] \<rparr>
                    \<lparr> uniformBuffers := resize (unat MAX_FRAMES_IN_FLIGHT) [] \<rparr>"
  obtain r1 bm1 d1 where v: "createVertexBuffer bm d = (r1, bm1, d1)"
    by (cases "createVertexBuffer bm d") auto
  obtain b1 where r1: "r1 = Returned b1"
    using createVertexBuffer_result [of bm d] v by simp
  obtain r2 bm2 d2 where i: "createIndexBuffer bm1 d1 = (r2, bm2, d2)"
    by (cases "createIndexBuffer bm1 d1") auto
  obtain b2 where r2: "r2 = Returned b2"
    using createIndexBuffer_result [of bm1 d1] i by simp
  obtain r3 bm3 d3 where u: "createUniformBuffers bm2 d2 = (r3, bm3, d3)"
    by (cases "createUniformBuffers bm2 d2") auto
  obtain b3 where r3: "r3 = Returned b3"
    using createUniformBuffers_result [of bm2 d2] u by simp
  have "length (uniformBuffersMapped bm3) = unat MAX_FRAMES_IN_FLIGHT"
    using length_createUniformBuffers [of bm2 d2] u by simp
  then show ?thesis
    using v r1 i r2 u r3 by (simp add: BufferManager_ctor_def bm_def Let_def)
qed

end
